theory Spec2Isabelle
  imports Complex_Main "HOL-Library.Word"
begin

unbundle bit_operations_syntax

chapter \<open>The model\<close>

section \<open>Numbers, arrays and errors\<close>

text \<open>
  A JavaScript number is modelled as an exact real, or \<open>NaN\<close>. Rounding and the
  infinities are left out: arithmetic on \<open>Num\<close> is exact. \<open>NaN\<close> is
  absorbing, as in the source language, and it also stands for \<open>undefined\<close>
  wherever a value read from an array goes into arithmetic (\<open>undefined * a\<close> is
  \<open>NaN\<close>). Division by zero gives \<open>NaN\<close> here (the source language gives
  an infinity for a non-zero numerator).
\<close>

datatype number = Num real | NaN

instantiation number :: "{zero,one,plus,minus,times,inverse}"
begin

definition zero_number :: number where
  "zero_number = Num 0"

definition one_number :: number where
  "one_number = Num 1"

fun plus_number :: "number \<Rightarrow> number \<Rightarrow> number" where
  "plus_number (Num x) (Num y) = Num (x + y)"
| "plus_number _ _ = NaN"

fun minus_number :: "number \<Rightarrow> number \<Rightarrow> number" where
  "minus_number (Num x) (Num y) = Num (x - y)"
| "minus_number _ _ = NaN"

fun times_number :: "number \<Rightarrow> number \<Rightarrow> number" where
  "times_number (Num x) (Num y) = Num (x * y)"
| "times_number _ _ = NaN"

fun inverse_number :: "number \<Rightarrow> number" where
  "inverse_number (Num x) = (if x = 0 then NaN else Num (inverse x))"
| "inverse_number NaN = NaN"

fun divide_number :: "number \<Rightarrow> number \<Rightarrow> number" where
  "divide_number (Num x) (Num y) = (if y = 0 then NaN else Num (x / y))"
| "divide_number _ _ = NaN"

instance ..

end

text \<open>
  The exceptions of the source: \<open>throw new Error(msg)\<close> is \<open>Error msg\<close>, and
  reading a property of \<open>undefined\<close> or \<open>null\<close> is \<open>TypeError\<close>.
  \<open>BadRef\<close> is the model's own: an address that holds no object of the expected
  class, which no execution of the source reaches.
\<close>

datatype error = Error string | TypeError | BadRef

text \<open>
  An array of numbers is a list. A read out of range is \<open>undefined\<close> in the source;
  every such read in the functions below goes into arithmetic, so it is \<open>NaN\<close>.
  A write follows \<open>Array\<close>: inside the range it replaces the element, past the
  end it extends the array (the holes read as \<open>undefined\<close>).
\<close>

definition aget :: "number list \<Rightarrow> int \<Rightarrow> number" where
  "aget xs i = (if 0 \<le> i \<and> i < int (length xs) then xs ! nat i else NaN)"

definition aset :: "number list \<Rightarrow> int \<Rightarrow> number \<Rightarrow> number list" where
  "aset xs i x =
     (if i < 0 then xs
      else if i < int (length xs) then xs[nat i := x]
      else xs @ replicate (nat i - length xs) NaN @ [x])"

text \<open>
  The 32-bit shifts of the source on an integer-valued number: the operand is reduced
  to a signed 32-bit integer first.
\<close>

definition sar1 :: "int \<Rightarrow> int" where
  "sar1 n = sint (signed_drop_bit 1 (word_of_int n :: 32 word))"

definition shl1 :: "int \<Rightarrow> int" where
  "shl1 n = sint (push_bit 1 (word_of_int n :: 32 word))"

section \<open>Bones, skeletons and slots\<close>

type_synonym ref = nat

record Color =
  col_r :: number
  col_g :: number
  col_b :: number
  col_a :: number

text \<open>
  \<open>Bone\<close> and \<open>Skeleton\<close> are declared outside the files at hand; the records
  hold the fields the code below reads. \<open>skel_getAttachment\<close> stands for the
  method \<open>Skeleton.getAttachment(slotIndex, attachmentName)\<close>, a parameter here.
  An attachment held by a slot is an object reference (or null): equality on
  \<open>ref option\<close> is the identity comparison of the source.
\<close>

record BoneTransform =
  bone_a :: number
  bone_b :: number
  bone_c :: number
  bone_d :: number
  bone_worldX :: number
  bone_worldY :: number

record Skeleton =
  skel_bones :: "BoneTransform list"
  skel_time :: number
  skel_getAttachment :: "int \<Rightarrow> string \<Rightarrow> ref option"

record Bone = BoneTransform +
  bone_skeleton :: Skeleton

record SlotData =
  sd_index :: int
  sd_name :: string
  sd_color :: Color
  sd_darkColor :: "Color option"
  sd_attachmentName :: "string option"

record Slot =
  slot_data :: SlotData
  slot_bone :: Bone
  slot_color :: Color
  slot_darkColor :: "Color option"
  slot_attachment :: "ref option"
  slot_attachmentTime :: number
  slot_attachmentState :: int
  slot_deform :: "number list"

section \<open>VertexAttachment.computeWorldVertices\<close>

text \<open>
  The output buffer \<open>worldVertices\<close> is only written, by index. It is a partial
  map from indices to numbers: an indexed write on an \<open>Array\<close> defines the
  element at that index whatever the index is. The buffer is taken to be an object
  of its own, distinct from the attachment's vertices and the slot's deform array.
  The start, count, offset and stride arguments are integers.
\<close>

type_synonym buffer = "int \<Rightarrow> number option"

text \<open>
  The loop of the unweighted path,
  \<^verbatim>\<open>for (let v = start, w = offset; w < count; v += 2, w += stride)\<close>.
  It is a partial function: with \<open>stride \<le> 0\<close> and \<open>w < count\<close> the source
  loop never exits, and the value is \<open>None\<close>.
\<close>

partial_function (option) unweighted_loop ::
  "number list \<Rightarrow> Bone \<Rightarrow> int \<Rightarrow> int \<Rightarrow> int \<Rightarrow> int \<Rightarrow> buffer \<Rightarrow> buffer option" where
  "unweighted_loop vertices bone v w count stride worldVertices =
     (if w < count then
        (let vx = aget vertices v;
             vy = aget vertices (v + 1);
             worldVertices1 = worldVertices(w \<mapsto> vx * bone_a bone + vy * bone_b bone + bone_worldX bone);
             worldVertices2 = worldVertices1(w + 1 \<mapsto> vx * bone_c bone + vy * bone_d bone + bone_worldY bone)
         in unweighted_loop vertices bone (v + 2) (w + stride) count stride worldVertices2)
      else Some worldVertices)"

text \<open>
  The weighted path. The entries of \<open>bones\<close> are counts and bone indices:
  integers. A read of \<open>bones\<close> out of range is \<open>undefined\<close>, which makes the
  index variables computed from it \<open>NaN\<close>: such a variable is an \<open>int option\<close>,
  \<open>None\<close> for \<open>NaN\<close>. A comparison with \<open>NaN\<close> is false, and an array
  read at \<open>NaN\<close> is \<open>undefined\<close>.
\<close>

definition iget :: "int list \<Rightarrow> int option \<Rightarrow> int option" where
  "iget xs v =
     (case v of
        None \<Rightarrow> None
      | Some i \<Rightarrow> if 0 \<le> i \<and> i < int (length xs) then Some (xs ! nat i) else None)"

definition iadd :: "int option \<Rightarrow> int option \<Rightarrow> int option" where
  "iadd x y = (case (x, y) of (Some i, Some j) \<Rightarrow> Some (i + j) | _ \<Rightarrow> None)"

definition ilt :: "int option \<Rightarrow> int option \<Rightarrow> bool" where
  "ilt x y = (case (x, y) of (Some i, Some j) \<Rightarrow> i < j | _ \<Rightarrow> False)"

definition agetn :: "number list \<Rightarrow> int option \<Rightarrow> number" where
  "agetn xs b = (case b of None \<Rightarrow> NaN | Some i \<Rightarrow> aget xs i)"

text \<open>\<open>skeletonBones[bones[v]]\<close>: \<open>None\<close> is \<open>undefined\<close>.\<close>

definition bone_lookup :: "BoneTransform list \<Rightarrow> int option \<Rightarrow> BoneTransform option" where
  "bone_lookup skeletonBones k =
     (case k of
        None \<Rightarrow> None
      | Some i \<Rightarrow> if 0 \<le> i \<and> i < int (length skeletonBones) then Some (skeletonBones ! nat i) else None)"

text \<open>
  \<^verbatim>\<open>for (let i = 0; i < start; i += 2) { let n = bones[v]; v += n + 1; skip += n }\<close>
\<close>

function skip_loop ::
  "int list \<Rightarrow> int \<Rightarrow> int \<Rightarrow> int option \<Rightarrow> int option \<Rightarrow> int option \<times> int option" where
  "skip_loop bones i start v skip =
     (if i < start then
        (let n = iget bones v
         in skip_loop bones (i + 2) start (iadd v (iadd n (Some 1))) (iadd skip n))
      else (v, skip))"
  by pat_completeness auto
termination
  by (relation "measure (\<lambda>(bones, i, start, v, skip). nat (start - i))") auto

text \<open>
  The inner loop \<^verbatim>\<open>for (; v < n; v++, b += 3)\<close> of both weighted branches
  (with \<^verbatim>\<open>f += 2\<close> in the branch that reads the deform array). The source
  chooses the branch once, by \<open>deformArray.length == 0\<close>; here the test stands
  where the two loop bodies differ. \<open>bone.a\<close> on an \<open>undefined\<close> bone throws.
\<close>

function inner_loop ::
  "BoneTransform list \<Rightarrow> int list \<Rightarrow> number list \<Rightarrow> number list \<Rightarrow> int option \<Rightarrow>
   int option \<Rightarrow> int option \<Rightarrow> int \<Rightarrow> number \<Rightarrow> number \<Rightarrow>
   error + (int option \<times> int option \<times> int \<times> number \<times> number)" where
  "inner_loop skeletonBones bones vertices deform n v b f wx wy =
     (if ilt v n then
        (case bone_lookup skeletonBones (iget bones v) of
           None \<Rightarrow> Inl TypeError
         | Some bone \<Rightarrow>
             (let vx = (if deform = [] then agetn vertices b
                        else agetn vertices b + aget deform f);
                  vy = (if deform = [] then agetn vertices (iadd b (Some 1))
                        else agetn vertices (iadd b (Some 1)) + aget deform (f + 1));
                  weight = agetn vertices (iadd b (Some 2));
                  wx1 = wx + (vx * bone_a bone + vy * bone_b bone + bone_worldX bone) * weight;
                  wy1 = wy + (vx * bone_c bone + vy * bone_d bone + bone_worldY bone) * weight
              in inner_loop skeletonBones bones vertices deform n
                   (iadd v (Some 1)) (iadd b (Some 3)) (f + 2) wx1 wy1))
      else Inr (v, b, f, wx, wy))"
  by pat_completeness auto
termination
  by (relation "measure (\<lambda>(skeletonBones, bones, vertices, deform, n, v, b, f, wx, wy).
        case (n, v) of (Some j, Some i) \<Rightarrow> nat (j - i) | _ \<Rightarrow> 0)")
     (auto simp: ilt_def iadd_def split: option.splits)

text \<open>
  The outer loop \<^verbatim>\<open>for (let w = offset, b = skip * 3; w < count; w += stride)\<close>
  with \<^verbatim>\<open>let n = bones[v++]; n += v\<close>. It is a partial function, as the loop of
  the unweighted path is. An exception leaves the buffer as written so far.
\<close>

partial_function (option) weighted_loop ::
  "BoneTransform list \<Rightarrow> int list \<Rightarrow> number list \<Rightarrow> number list \<Rightarrow> int option \<Rightarrow>
   int option \<Rightarrow> int \<Rightarrow> int \<Rightarrow> int \<Rightarrow> int \<Rightarrow> buffer \<Rightarrow> ((error + unit) \<times> buffer) option" where
  "weighted_loop skeletonBones bones vertices deform v b f w count stride worldVertices =
     (if w < count then
        (let n0 = iget bones v;
             v1 = iadd v (Some 1);
             n = iadd n0 v1
         in case inner_loop skeletonBones bones vertices deform n v1 b f 0 0 of
              Inl e \<Rightarrow> Some (Inl e, worldVertices)
            | Inr (v2, b2, f2, wx, wy) \<Rightarrow>
                weighted_loop skeletonBones bones vertices deform v2 b2 f2 (w + stride) count stride
                  (worldVertices(w \<mapsto> wx, w + 1 \<mapsto> wy)))
      else Some (Inr (), worldVertices))"

text \<open>
  \<open>computeWorldVertices\<close> of an attachment with the given \<open>bones\<close> (\<open>None\<close> for
  null) and \<open>vertices\<close>. The result is \<open>None\<close> when the call does not return,
  and otherwise the outcome (an exception or a normal return) with the buffer.
\<close>

definition computeWorldVertices ::
  "int list option \<Rightarrow> number list \<Rightarrow> Slot \<Rightarrow> int \<Rightarrow> int \<Rightarrow> buffer \<Rightarrow> int \<Rightarrow> int \<Rightarrow>
   ((error + unit) \<times> buffer) option" where
  "computeWorldVertices bones vertices slot start count worldVertices offset stride =
     (let count = offset + sar1 count * stride;
          skeleton = bone_skeleton (slot_bone slot);
          deformArray = slot_deform slot
      in case bones of
           None \<Rightarrow>
             (let vertices = (if length deformArray > 0 then deformArray else vertices);
                  bone = slot_bone slot
              in map_option (Pair (Inr ()))
                   (unweighted_loop vertices bone start offset count stride worldVertices))
         | Some bones \<Rightarrow>
             (let (v, skip) = skip_loop bones 0 start (Some 0) (Some 0);
                  skeletonBones = skel_bones skeleton;
                  b = map_option (\<lambda>s. s * 3) skip;
                  f = (case skip of None \<Rightarrow> 0 | Some s \<Rightarrow> shl1 s)
              in weighted_loop skeletonBones bones vertices deformArray v b f offset count stride
                   worldVertices))"

text \<open>
  The effect of a run of such a loop: the pairs \<open>ps\<close> written at \<open>w\<close>,
  \<open>w + stride\<close>, ... in this order.
\<close>

fun write_pairs :: "(number \<times> number) list \<Rightarrow> int \<Rightarrow> int \<Rightarrow> buffer \<Rightarrow> buffer" where
  "write_pairs [] w stride worldVertices = worldVertices"
| "write_pairs ((x, y) # ps) w stride worldVertices =
     write_pairs ps (w + stride) stride (worldVertices(w \<mapsto> x, w + 1 \<mapsto> y))"

section \<open>Slot\<close>

text \<open>
  Modelled from the spec: \<open>Color.setFromColor\<close> (class \<open>Color\<close> of \<open>Utils\<close>,
  not among the files at hand). The spec has the tint colours "copied from blueprint":
  the call overwrites the four components of the receiver with those of its argument.
  With a null argument it reads a property of null, a \<open>TypeError\<close>.
\<close>

definition setFromColor :: "Color \<Rightarrow> Color option \<Rightarrow> error + Color" where
  "setFromColor this c = (case c of None \<Rightarrow> Inl TypeError | Some c' \<Rightarrow> Inr c')"

definition getSkeleton :: "Slot \<Rightarrow> Skeleton" where
  "getSkeleton this = bone_skeleton (slot_bone this)"

definition getAttachment :: "Slot \<Rightarrow> ref option" where
  "getAttachment this = slot_attachment this"

text \<open>
  \<open>setAttachment\<close>: the comparison \<open>this.attachment == attachment\<close> is by object
  identity; \<open>this.deform.length = 0\<close> empties the deform array.
\<close>

definition setAttachment :: "Slot \<Rightarrow> ref option \<Rightarrow> Slot" where
  "setAttachment this attachment =
     (if slot_attachment this = attachment then this
      else this\<lparr>slot_attachment := attachment,
                slot_attachmentTime := skel_time (bone_skeleton (slot_bone this)),
                slot_deform := []\<rparr>)"

definition setAttachmentTime :: "Slot \<Rightarrow> number \<Rightarrow> Slot" where
  "setAttachmentTime this time =
     this\<lparr>slot_attachmentTime := skel_time (bone_skeleton (slot_bone this)) - time\<rparr>"

definition getAttachmentTime :: "Slot \<Rightarrow> number" where
  "getAttachmentTime this = skel_time (bone_skeleton (slot_bone this)) - slot_attachmentTime this"

text \<open>
  \<open>setToSetupPose\<close> returns the outcome and the slot as the call leaves it (an
  exception of \<open>setFromColor\<close> leaves the colour already overwritten).
\<close>

definition setToSetupPose :: "Slot \<Rightarrow> (error + unit) \<times> Slot" where
  "setToSetupPose this =
     (case setFromColor (slot_color this) (Some (sd_color (slot_data this))) of
        Inl e \<Rightarrow> (Inl e, this)
      | Inr c \<Rightarrow>
          (let this1 = this\<lparr>slot_color := c\<rparr>;
               dark = (case slot_darkColor this1 of
                         None \<Rightarrow> Inr None
                       | Some d \<Rightarrow> map_sum id Some (setFromColor d (sd_darkColor (slot_data this1))))
           in case dark of
                Inl e \<Rightarrow> (Inl e, this1)
              | Inr d \<Rightarrow>
                  (let this2 = this1\<lparr>slot_darkColor := d\<rparr>
                   in case sd_attachmentName (slot_data this2) of
                        None \<Rightarrow> (Inr (), this2\<lparr>slot_attachment := None\<rparr>)
                      | Some attachmentName \<Rightarrow>
                          (Inr (),
                           setAttachment (this2\<lparr>slot_attachment := None\<rparr>)
                             (skel_getAttachment (bone_skeleton (slot_bone this2))
                                (sd_index (slot_data this2)) attachmentName)))))"

section \<open>Setup-pose data\<close>

record EventData =
  ed_name :: string
  ed_intValue :: number
  ed_floatValue :: number
  ed_stringValue :: "string option"
  ed_audioPath :: "string option"
  ed_volume :: number
  ed_balance :: number

definition new_EventData :: "string \<Rightarrow> EventData" where
  "new_EventData name =
     \<lparr>ed_name = name, ed_intValue = 0, ed_floatValue = 0, ed_stringValue = None,
      ed_audioPath = None, ed_volume = 0, ed_balance = 0\<rparr>"

text \<open>
  \<open>BoneData\<close>, \<open>Skin\<close>, \<open>Animation\<close>, \<open>ConstraintData\<close>,
  \<open>IkConstraintData\<close> and \<open>TransformConstraintData\<close> are declared outside the
  files at hand. Their records hold the name, which the lookups read, and little
  else: for \<open>ConstraintData\<close> the three arguments of its constructor, as
  \<open>PathConstraintData\<close> passes them.
\<close>

record BoneData =
  bd_name :: string
  bd_length :: number

record Skin =
  skin_name :: string

record Animation =
  anim_name :: string
  anim_duration :: number

record ConstraintData =
  cd_name :: string
  cd_order :: int
  cd_skinRequired :: bool

record IkConstraintData = ConstraintData +
  ikd_bones :: "BoneData list"

record TransformConstraintData = ConstraintData +
  tcd_bones :: "BoneData list"

datatype PositionMode = PositionMode_Fixed | PositionMode_Percent

datatype SpacingMode = SpacingMode_Length | SpacingMode_Fixed | SpacingMode_Percent

datatype RotateMode = RotateMode_Tangent | RotateMode_Chain | RotateMode_ChainScale

record PathConstraintData = ConstraintData +
  pcd_bones :: "BoneData list"
  pcd_target :: "SlotData option"
  pcd_positionMode :: PositionMode
  pcd_spacingMode :: SpacingMode
  pcd_rotateMode :: RotateMode
  pcd_offsetRotation :: number
  pcd_position :: number
  pcd_spacing :: number
  pcd_rotateMix :: number
  pcd_translateMix :: number

text \<open>
  The constructor \<open>PathConstraintData(name)\<close> calls \<open>super(name, 0, false)\<close>; the
  field \<open>_target\<close> starts as null.
\<close>

definition new_PathConstraintData :: "string \<Rightarrow> PathConstraintData" where
  "new_PathConstraintData name =
     \<lparr>cd_name = name, cd_order = 0, cd_skinRequired = False,
      pcd_bones = [], pcd_target = None,
      pcd_positionMode = PositionMode_Fixed, pcd_spacingMode = SpacingMode_Fixed,
      pcd_rotateMode = RotateMode_Chain, pcd_offsetRotation = 0, pcd_position = 0,
      pcd_spacing = 0, pcd_rotateMix = 0, pcd_translateMix = 0\<rparr>"

text \<open>
  The accessors of \<open>target\<close>. The getter returns its outcome together with the
  object as the call leaves it.
\<close>

definition set_target :: "PathConstraintData \<Rightarrow> SlotData \<Rightarrow> PathConstraintData" where
  "set_target this slotData = this\<lparr>pcd_target := Some slotData\<rparr>"

definition get_target :: "PathConstraintData \<Rightarrow> (error + SlotData) \<times> PathConstraintData" where
  "get_target this =
     (case pcd_target this of
        None \<Rightarrow> (Inl (Error ''SlotData not set.''), this)
      | Some t \<Rightarrow> (Inr t, this))"

record SkeletonData =
  skd_name :: "string option"
  skd_bones :: "BoneData list"
  skd_slots :: "SlotData list"
  skd_skins :: "Skin list"
  skd_defaultSkin :: "Skin option"
  skd_events :: "EventData list"
  skd_animations :: "Animation list"
  skd_ikConstraints :: "IkConstraintData list"
  skd_transformConstraints :: "TransformConstraintData list"
  skd_pathConstraints :: "PathConstraintData list"
  skd_x :: number
  skd_y :: number
  skd_width :: number
  skd_height :: number
  skd_version :: "string option"
  skd_hash :: "string option"
  skd_fps :: number
  skd_imagesPath :: "string option"
  skd_audioPath :: "string option"

text \<open>
  The scan that every lookup repeats,
  \<^verbatim>\<open>for (let i = 0, n = items.length; i < n; i++) if (items[i].name == name) return ...\<close>,
  returning the element (or null), and returning the index (or -1).
\<close>

fun find_loop :: "('a \<Rightarrow> string) \<Rightarrow> 'a list \<Rightarrow> string \<Rightarrow> 'a option" where
  "find_loop name_of [] name = None"
| "find_loop name_of (x # xs) name =
     (if name_of x = name then Some x else find_loop name_of xs name)"

fun find_index_loop :: "('a \<Rightarrow> string) \<Rightarrow> 'a list \<Rightarrow> int \<Rightarrow> string \<Rightarrow> int" where
  "find_index_loop name_of [] i name = - 1"
| "find_index_loop name_of (x # xs) i name =
     (if name_of x = name then i else find_index_loop name_of xs (i + 1) name)"

definition findBone :: "SkeletonData \<Rightarrow> string option \<Rightarrow> error + BoneData option" where
  "findBone this boneName =
     (case boneName of
        None \<Rightarrow> Inl (Error ''boneName cannot be null.'')
      | Some name \<Rightarrow> Inr (find_loop bd_name (skd_bones this) name))"

definition findBoneIndex :: "SkeletonData \<Rightarrow> string option \<Rightarrow> error + int" where
  "findBoneIndex this boneName =
     (case boneName of
        None \<Rightarrow> Inl (Error ''boneName cannot be null.'')
      | Some name \<Rightarrow> Inr (find_index_loop bd_name (skd_bones this) 0 name))"

definition findSlot :: "SkeletonData \<Rightarrow> string option \<Rightarrow> error + SlotData option" where
  "findSlot this slotName =
     (case slotName of
        None \<Rightarrow> Inl (Error ''slotName cannot be null.'')
      | Some name \<Rightarrow> Inr (find_loop sd_name (skd_slots this) name))"

definition findSlotIndex :: "SkeletonData \<Rightarrow> string option \<Rightarrow> error + int" where
  "findSlotIndex this slotName =
     (case slotName of
        None \<Rightarrow> Inl (Error ''slotName cannot be null.'')
      | Some name \<Rightarrow> Inr (find_index_loop sd_name (skd_slots this) 0 name))"

definition findSkin :: "SkeletonData \<Rightarrow> string option \<Rightarrow> error + Skin option" where
  "findSkin this skinName =
     (case skinName of
        None \<Rightarrow> Inl (Error ''skinName cannot be null.'')
      | Some name \<Rightarrow> Inr (find_loop skin_name (skd_skins this) name))"

definition findEvent :: "SkeletonData \<Rightarrow> string option \<Rightarrow> error + EventData option" where
  "findEvent this eventDataName =
     (case eventDataName of
        None \<Rightarrow> Inl (Error ''eventDataName cannot be null.'')
      | Some name \<Rightarrow> Inr (find_loop ed_name (skd_events this) name))"

definition findAnimation :: "SkeletonData \<Rightarrow> string option \<Rightarrow> error + Animation option" where
  "findAnimation this animationName =
     (case animationName of
        None \<Rightarrow> Inl (Error ''animationName cannot be null.'')
      | Some name \<Rightarrow> Inr (find_loop anim_name (skd_animations this) name))"

definition findIkConstraint ::
  "SkeletonData \<Rightarrow> string option \<Rightarrow> error + IkConstraintData option" where
  "findIkConstraint this constraintName =
     (case constraintName of
        None \<Rightarrow> Inl (Error ''constraintName cannot be null.'')
      | Some name \<Rightarrow> Inr (find_loop cd_name (skd_ikConstraints this) name))"

definition findTransformConstraint ::
  "SkeletonData \<Rightarrow> string option \<Rightarrow> error + TransformConstraintData option" where
  "findTransformConstraint this constraintName =
     (case constraintName of
        None \<Rightarrow> Inl (Error ''constraintName cannot be null.'')
      | Some name \<Rightarrow> Inr (find_loop cd_name (skd_transformConstraints this) name))"

definition findPathConstraint ::
  "SkeletonData \<Rightarrow> string option \<Rightarrow> error + PathConstraintData option" where
  "findPathConstraint this constraintName =
     (case constraintName of
        None \<Rightarrow> Inl (Error ''constraintName cannot be null.'')
      | Some name \<Rightarrow> Inr (find_loop cd_name (skd_pathConstraints this) name))"

definition findPathConstraintIndex :: "SkeletonData \<Rightarrow> string option \<Rightarrow> error + int" where
  "findPathConstraintIndex this pathConstraintName =
     (case pathConstraintName of
        None \<Rightarrow> Inl (Error ''pathConstraintName cannot be null.'')
      | Some name \<Rightarrow> Inr (find_index_loop cd_name (skd_pathConstraints this) 0 name))"

text \<open>
  What a lookup promises, for stating it once: \<open>i\<close> is the first index of \<open>items\<close>
  whose element has the name; a lookup \<open>f\<close> by element and a lookup \<open>g\<close> by index
  throw \<open>msg\<close> on null, return the element (the index) at the first such index, and
  return null (-1) when no element has the name.
\<close>

definition first_named :: "('a \<Rightarrow> string) \<Rightarrow> 'a list \<Rightarrow> string \<Rightarrow> nat \<Rightarrow> bool" where
  "first_named name_of items name i \<longleftrightarrow>
     i < length items \<and> name_of (items ! i) = name \<and> (\<forall>j<i. name_of (items ! j) \<noteq> name)"

definition finds_by_name ::
  "(string option \<Rightarrow> error + 'a option) \<Rightarrow> ('a \<Rightarrow> string) \<Rightarrow> 'a list \<Rightarrow> string \<Rightarrow> bool" where
  "finds_by_name f name_of items msg \<longleftrightarrow>
     f None = Inl (Error msg) \<and>
     (\<forall>name i. first_named name_of items name i \<longrightarrow> f (Some name) = Inr (Some (items ! i))) \<and>
     (\<forall>name. (\<forall>i<length items. name_of (items ! i) \<noteq> name) \<longrightarrow> f (Some name) = Inr None)"

definition finds_index_by_name ::
  "(string option \<Rightarrow> error + int) \<Rightarrow> ('a \<Rightarrow> string) \<Rightarrow> 'a list \<Rightarrow> string \<Rightarrow> bool" where
  "finds_index_by_name g name_of items msg \<longleftrightarrow>
     g None = Inl (Error msg) \<and>
     (\<forall>name i. first_named name_of items name i \<longrightarrow> g (Some name) = Inr (int i)) \<and>
     (\<forall>name. (\<forall>i<length items. name_of (items ! i) \<noteq> name) \<longrightarrow> g (Some name) = Inr (- 1))"

section \<open>Vertex attachments as objects\<close>

text \<open>
  Attachments and their arrays are objects with an identity: the heap holds the
  arrays and, class by class, the attachments, and a reference is an index into one
  of these lists (for a \<open>VertexAttachment\<close> of any class, tagged with the class).
  Allocation appends. \<open>h_nextID\<close> is the static counter
  \<open>VertexAttachment.nextID\<close>. Index arrays (\<open>bones\<close>, \<open>triangles\<close>,
  \<open>edges\<close>) are arrays of numbers like the others; a hole of an array made by
  \<open>new Array(n)\<close> is \<open>NaN\<close> (it reads as \<open>undefined\<close>).
\<close>

datatype aref = MeshRef nat | BoundingBoxRef nat | ClippingRef nat

text \<open>
  \<open>TextureRegion\<close> and \<open>TextureAtlasRegion\<close> are declared outside the files at
  hand; the records hold the fields that \<open>updateUVs\<close> reads. \<open>reg_textureWidth\<close>
  and \<open>reg_textureHeight\<close> stand for \<open>region.texture!.getImage().width\<close> and
  \<open>.height\<close>: the texture is there, as the source asserts.
\<close>

record TextureRegion =
  reg_u :: number
  reg_v :: number
  reg_u2 :: number
  reg_v2 :: number

record TextureAtlasRegion = TextureRegion +
  reg_degrees :: int
  reg_originalWidth :: number
  reg_originalHeight :: number
  reg_offsetX :: number
  reg_offsetY :: number
  reg_width :: number
  reg_height :: number
  reg_textureWidth :: number
  reg_textureHeight :: number

datatype region = Region TextureRegion | AtlasRegion TextureAtlasRegion

record VertexAttachment =
  att_name :: string
  att_id :: int
  att_bones :: "ref option"
  att_vertices :: ref
  att_worldVerticesLength :: number
  att_deformAttachment :: "aref option"

record MeshAttachment = VertexAttachment +
  mesh_region :: "region option"
  mesh_path :: string
  mesh_regionUVs :: ref
  mesh_uvs :: ref
  mesh_triangles :: ref
  mesh_color :: Color
  mesh_width :: number
  mesh_height :: number
  mesh_hullLength :: number
  mesh_edges :: ref
  mesh_parentMesh :: "nat option"
  mesh_tempColor :: Color

record BoundingBoxAttachment = VertexAttachment +
  bbox_color :: Color

record ClippingAttachment = VertexAttachment +
  clip_endSlot :: "SlotData option"
  clip_color :: Color

record heap =
  h_arrays :: "number list list"
  h_meshes :: "MeshAttachment list"
  h_boxes :: "BoundingBoxAttachment list"
  h_clips :: "ClippingAttachment list"
  h_nextID :: nat

definition array_at :: "heap \<Rightarrow> ref \<Rightarrow> number list" where
  "array_at h r = (if r < length (h_arrays h) then h_arrays h ! r else [])"

definition h_aget :: "heap \<Rightarrow> ref \<Rightarrow> int \<Rightarrow> number" where
  "h_aget h r i = aget (array_at h r) i"

definition h_aset :: "heap \<Rightarrow> ref \<Rightarrow> int \<Rightarrow> number \<Rightarrow> heap" where
  "h_aset h r i x = h\<lparr>h_arrays := (h_arrays h)[r := aset (array_at h r) i x]\<rparr>"

definition alloc_array :: "heap \<Rightarrow> number list \<Rightarrow> ref \<times> heap" where
  "alloc_array h xs = (length (h_arrays h), h\<lparr>h_arrays := h_arrays h @ [xs]\<rparr>)"

text \<open>
  The objects behind references. The accessors are used where the reference is
  known to be valid; a method called on a reference that is not returns \<open>BadRef\<close>.
\<close>

definition mesh_at :: "heap \<Rightarrow> nat \<Rightarrow> MeshAttachment" where
  "mesh_at h r = h_meshes h ! r"

definition put_mesh :: "heap \<Rightarrow> nat \<Rightarrow> MeshAttachment \<Rightarrow> heap" where
  "put_mesh h r m = h\<lparr>h_meshes := (h_meshes h)[r := m]\<rparr>"

fun valid_ref :: "heap \<Rightarrow> aref \<Rightarrow> bool" where
  "valid_ref h (MeshRef r) = (r < length (h_meshes h))"
| "valid_ref h (BoundingBoxRef r) = (r < length (h_boxes h))"
| "valid_ref h (ClippingRef r) = (r < length (h_clips h))"

fun base_at :: "heap \<Rightarrow> aref \<Rightarrow> VertexAttachment" where
  "base_at h (MeshRef r) = VertexAttachment.truncate (h_meshes h ! r)"
| "base_at h (BoundingBoxRef r) = VertexAttachment.truncate (h_boxes h ! r)"
| "base_at h (ClippingRef r) = VertexAttachment.truncate (h_clips h ! r)"

fun set_bones :: "heap \<Rightarrow> aref \<Rightarrow> ref option \<Rightarrow> heap" where
  "set_bones h (MeshRef r) x = h\<lparr>h_meshes := (h_meshes h)[r := (h_meshes h ! r)\<lparr>att_bones := x\<rparr>]\<rparr>"
| "set_bones h (BoundingBoxRef r) x = h\<lparr>h_boxes := (h_boxes h)[r := (h_boxes h ! r)\<lparr>att_bones := x\<rparr>]\<rparr>"
| "set_bones h (ClippingRef r) x = h\<lparr>h_clips := (h_clips h)[r := (h_clips h ! r)\<lparr>att_bones := x\<rparr>]\<rparr>"

fun set_vertices :: "heap \<Rightarrow> aref \<Rightarrow> ref \<Rightarrow> heap" where
  "set_vertices h (MeshRef r) x = h\<lparr>h_meshes := (h_meshes h)[r := (h_meshes h ! r)\<lparr>att_vertices := x\<rparr>]\<rparr>"
| "set_vertices h (BoundingBoxRef r) x = h\<lparr>h_boxes := (h_boxes h)[r := (h_boxes h ! r)\<lparr>att_vertices := x\<rparr>]\<rparr>"
| "set_vertices h (ClippingRef r) x = h\<lparr>h_clips := (h_clips h)[r := (h_clips h ! r)\<lparr>att_vertices := x\<rparr>]\<rparr>"

fun set_worldVerticesLength :: "heap \<Rightarrow> aref \<Rightarrow> number \<Rightarrow> heap" where
  "set_worldVerticesLength h (MeshRef r) x =
     h\<lparr>h_meshes := (h_meshes h)[r := (h_meshes h ! r)\<lparr>att_worldVerticesLength := x\<rparr>]\<rparr>"
| "set_worldVerticesLength h (BoundingBoxRef r) x =
     h\<lparr>h_boxes := (h_boxes h)[r := (h_boxes h ! r)\<lparr>att_worldVerticesLength := x\<rparr>]\<rparr>"
| "set_worldVerticesLength h (ClippingRef r) x =
     h\<lparr>h_clips := (h_clips h)[r := (h_clips h ! r)\<lparr>att_worldVerticesLength := x\<rparr>]\<rparr>"

fun set_deformAttachment :: "heap \<Rightarrow> aref \<Rightarrow> aref option \<Rightarrow> heap" where
  "set_deformAttachment h (MeshRef r) x =
     h\<lparr>h_meshes := (h_meshes h)[r := (h_meshes h ! r)\<lparr>att_deformAttachment := x\<rparr>]\<rparr>"
| "set_deformAttachment h (BoundingBoxRef r) x =
     h\<lparr>h_boxes := (h_boxes h)[r := (h_boxes h ! r)\<lparr>att_deformAttachment := x\<rparr>]\<rparr>"
| "set_deformAttachment h (ClippingRef r) x =
     h\<lparr>h_clips := (h_clips h)[r := (h_clips h ! r)\<lparr>att_deformAttachment := x\<rparr>]\<rparr>"

text \<open>
  Modelled from the spec: the helpers of \<open>Utils\<close> (not among the files at hand)
  behind "deep-clones all owned buffers". \<open>Utils.newFloatArray(n)\<close> makes an array
  of \<open>n\<close> zeros, \<open>new Array(n)\<close> an array of \<open>n\<close> holes, and
  \<open>Utils.arrayCopy(source, sourceStart, dest, destStart, numElements)\<close> assigns
  \<open>dest[destStart + k] = source[sourceStart + k]\<close> for \<open>k\<close> from 0 up to
  \<open>numElements\<close>, in this order.
\<close>

definition newFloatArray :: "nat \<Rightarrow> number list" where
  "newFloatArray n = replicate n (Num 0)"

definition new_Array :: "nat \<Rightarrow> number list" where
  "new_Array n = replicate n NaN"

fun arrayCopy :: "heap \<Rightarrow> ref \<Rightarrow> int \<Rightarrow> ref \<Rightarrow> int \<Rightarrow> nat \<Rightarrow> heap" where
  "arrayCopy h source i dest j 0 = h"
| "arrayCopy h source i dest j (Suc n) =
     arrayCopy (h_aset h dest j (h_aget h source i)) source (i + 1) dest (j + 1) n"

text \<open>
  \<open>id = (VertexAttachment.nextID++ & 65535) << 11\<close>, on the counter as a signed
  32-bit integer.
\<close>

definition VertexAttachment_id :: "nat \<Rightarrow> int" where
  "VertexAttachment_id nextID = sint (push_bit 11 ((word_of_nat nextID :: 32 word) AND 65535))"

text \<open>
  The constructors. \<open>Attachment\<close> throws on a null name, before any field of
  \<open>VertexAttachment\<close> is initialised; \<open>VertexAttachment_init\<close> is the
  initialisation of \<open>id\<close> and \<open>vertices\<close>; each \<open>[]\<close> of an initialiser is a
  new array.
\<close>

definition VertexAttachment_init :: "heap \<Rightarrow> (int \<times> ref) \<times> heap" where
  "VertexAttachment_init h =
     (let id = VertexAttachment_id (h_nextID h);
          h1 = h\<lparr>h_nextID := h_nextID h + 1\<rparr>;
          (vertices, h2) = alloc_array h1 []
      in ((id, vertices), h2))"

definition new_MeshAttachment :: "heap \<Rightarrow> string option \<Rightarrow> string \<Rightarrow> (error + nat) \<times> heap" where
  "new_MeshAttachment h name path =
     (case name of
        None \<Rightarrow> (Inl (Error ''name cannot be null.''), h)
      | Some name \<Rightarrow>
          (let this = length (h_meshes h);
               ((id, vertices), h1) = VertexAttachment_init h;
               (regionUVs, h2) = alloc_array h1 [];
               (uvs, h3) = alloc_array h2 [];
               (triangles, h4) = alloc_array h3 [];
               (edges, h5) = alloc_array h4 []
           in (Inr this,
               h5\<lparr>h_meshes := h_meshes h5 @
                  [\<lparr>att_name = name, att_id = id, att_bones = None, att_vertices = vertices,
                    att_worldVerticesLength = 0, att_deformAttachment = Some (MeshRef this),
                    mesh_region = None, mesh_path = path, mesh_regionUVs = regionUVs,
                    mesh_uvs = uvs, mesh_triangles = triangles,
                    mesh_color = \<lparr>col_r = 1, col_g = 1, col_b = 1, col_a = 1\<rparr>,
                    mesh_width = 0, mesh_height = 0, mesh_hullLength = 0, mesh_edges = edges,
                    mesh_parentMesh = None,
                    mesh_tempColor = \<lparr>col_r = 0, col_g = 0, col_b = 0, col_a = 0\<rparr>\<rparr>]\<rparr>)))"

definition new_BoundingBoxAttachment :: "heap \<Rightarrow> string option \<Rightarrow> (error + nat) \<times> heap" where
  "new_BoundingBoxAttachment h name =
     (case name of
        None \<Rightarrow> (Inl (Error ''name cannot be null.''), h)
      | Some name \<Rightarrow>
          (let this = length (h_boxes h);
               ((id, vertices), h1) = VertexAttachment_init h
           in (Inr this,
               h1\<lparr>h_boxes := h_boxes h1 @
                  [\<lparr>att_name = name, att_id = id, att_bones = None, att_vertices = vertices,
                    att_worldVerticesLength = 0, att_deformAttachment = Some (BoundingBoxRef this),
                    bbox_color = \<lparr>col_r = 1, col_g = 1, col_b = 1, col_a = 1\<rparr>\<rparr>]\<rparr>)))"

definition new_ClippingAttachment :: "heap \<Rightarrow> string option \<Rightarrow> (error + nat) \<times> heap" where
  "new_ClippingAttachment h name =
     (case name of
        None \<Rightarrow> (Inl (Error ''name cannot be null.''), h)
      | Some name \<Rightarrow>
          (let this = length (h_clips h);
               ((id, vertices), h1) = VertexAttachment_init h
           in (Inr this,
               h1\<lparr>h_clips := h_clips h1 @
                  [\<lparr>att_name = name, att_id = id, att_bones = None, att_vertices = vertices,
                    att_worldVerticesLength = 0, att_deformAttachment = Some (ClippingRef this),
                    clip_endSlot = None,
                    clip_color = \<lparr>col_r = Num 0.2275, col_g = Num 0.2275, col_b = Num 0.8078,
                                  col_a = 1\<rparr>\<rparr>]\<rparr>)))"

text \<open>
  \<open>VertexAttachment.copyTo\<close>. Each statement reads the fields of \<open>this\<close> in the
  heap as the statements before it left it. The test \<open>if (this.vertices)\<close> holds
  for every array.
\<close>

definition copyTo :: "heap \<Rightarrow> aref \<Rightarrow> aref \<Rightarrow> (error + unit) \<times> heap" where
  "copyTo h this attachment =
     (if \<not> (valid_ref h this \<and> valid_ref h attachment) then (Inl BadRef, h)
      else
        (let h2 =
               (case att_bones (base_at h this) of
                  Some b \<Rightarrow>
                    (let (r, h1) = alloc_array h (new_Array (length (array_at h b)));
                         h1 = set_bones h1 attachment (Some r)
                     in case (att_bones (base_at h1 this), att_bones (base_at h1 attachment)) of
                          (Some source, Some dest) \<Rightarrow>
                            arrayCopy h1 source 0 dest 0 (length (array_at h1 source))
                        | _ \<Rightarrow> h1)
                | None \<Rightarrow> set_bones h attachment None);
             (r, h3) = alloc_array h2 (newFloatArray (length (array_at h2 (att_vertices (base_at h2 this)))));
             h3 = set_vertices h3 attachment r;
             h4 = arrayCopy h3 (att_vertices (base_at h3 this)) 0 (att_vertices (base_at h3 attachment)) 0
                    (length (array_at h3 (att_vertices (base_at h3 this))));
             h5 = set_worldVerticesLength h4 attachment (att_worldVerticesLength (base_at h4 this));
             h6 = set_deformAttachment h5 attachment (att_deformAttachment (base_at h5 this))
         in (Inr (), h6)))"

text \<open>
  \<open>MeshAttachment.updateUVs\<close>. The four loops
  \<^verbatim>\<open>for (let i = 0; i < n; i += 2) { uvs[i] = ...; uvs[i + 1] = ... }\<close>
  differ in the two right-hand sides only: \<open>uv_loop\<close> takes them as functions of
  \<open>regionUVs[i]\<close> and \<open>regionUVs[i + 1]\<close>. The second assignment reads
  \<open>regionUVs\<close> after the first has written \<open>uvs\<close>.
\<close>

function uv_loop ::
  "heap \<Rightarrow> ref \<Rightarrow> ref \<Rightarrow> int \<Rightarrow> int \<Rightarrow> (number \<Rightarrow> number \<Rightarrow> number) \<Rightarrow>
   (number \<Rightarrow> number \<Rightarrow> number) \<Rightarrow> heap" where
  "uv_loop h regionUVs uvs n i first second =
     (if i < n then
        (let h1 = h_aset h uvs i (first (h_aget h regionUVs i) (h_aget h regionUVs (i + 1)));
             h2 = h_aset h1 uvs (i + 1) (second (h_aget h1 regionUVs i) (h_aget h1 regionUVs (i + 1)))
         in uv_loop h2 regionUVs uvs n (i + 2) first second)
      else h)"
  by pat_completeness auto
termination
  by (relation "measure (\<lambda>(h, regionUVs, uvs, n, i, first, second). nat (n - i))") auto

text \<open>
  The fields \<open>uvs\<close> and \<open>edges\<close> are arrays by their declared types, so the
  tests \<open>this.uvs == null\<close> and \<open>this.edges != null\<close> are decided; so is the
  branch \<open>else if (!this.region)\<close>, which stands after the throw on a null region.
  \<open>ensure_uvs\<close> is the statement
  \<^verbatim>\<open>if (this.uvs == null || this.uvs.length != regionUVs.length) this.uvs = Utils.newFloatArray(regionUVs.length)\<close>.
  A \<open>switch\<close> on \<open>region.degrees\<close> with cases 90, 180 and 270 is the chain of
  tests below; every other value falls through to the last loop.
\<close>

definition ensure_uvs :: "heap \<Rightarrow> nat \<Rightarrow> heap" where
  "ensure_uvs h this =
     (let regionUVs = mesh_regionUVs (mesh_at h this)
      in if length (array_at h (mesh_uvs (mesh_at h this))) \<noteq> length (array_at h regionUVs)
         then (let (r, h') = alloc_array h (newFloatArray (length (array_at h regionUVs)))
               in put_mesh h' this ((mesh_at h' this)\<lparr>mesh_uvs := r\<rparr>))
         else h)"

definition updateUVs :: "heap \<Rightarrow> nat \<Rightarrow> (error + unit) \<times> heap" where
  "updateUVs h this =
     (if \<not> this < length (h_meshes h) then (Inl BadRef, h)
      else
        case mesh_region (mesh_at h this) of
          None \<Rightarrow> (Inl (Error ''Region not set.''), h)
        | Some region \<Rightarrow>
            (let regionUVs = mesh_regionUVs (mesh_at h this);
                 h1 = ensure_uvs h this;
                 uvs = mesh_uvs (mesh_at h1 this);
                 n = int (length (array_at h1 uvs))
             in case region of
                  AtlasRegion region \<Rightarrow>
                    (let u = reg_u region;
                         v = reg_v region;
                         textureWidth = reg_textureWidth region;
                         textureHeight = reg_textureHeight region
                     in if reg_degrees region = 90 then
                          (let u = u - (reg_originalHeight region - reg_offsetY region - reg_height region) / textureWidth;
                               v = v - (reg_originalWidth region - reg_offsetX region - reg_width region) / textureHeight;
                               width = reg_originalHeight region / textureWidth;
                               height = reg_originalWidth region / textureHeight
                           in (Inr (), uv_loop h1 regionUVs uvs n 0
                                 (\<lambda>ru rv. u + rv * width) (\<lambda>ru rv. v + (1 - ru) * height)))
                        else if reg_degrees region = 180 then
                          (let u = u - (reg_originalWidth region - reg_offsetX region - reg_width region) / textureWidth;
                               v = v - reg_offsetY region / textureHeight;
                               width = reg_originalWidth region / textureWidth;
                               height = reg_originalHeight region / textureHeight
                           in (Inr (), uv_loop h1 regionUVs uvs n 0
                                 (\<lambda>ru rv. u + (1 - ru) * width) (\<lambda>ru rv. v + (1 - rv) * height)))
                        else if reg_degrees region = 270 then
                          (let u = u - reg_offsetY region / textureWidth;
                               v = v - reg_offsetX region / textureHeight;
                               width = reg_originalHeight region / textureWidth;
                               height = reg_originalWidth region / textureHeight
                           in (Inr (), uv_loop h1 regionUVs uvs n 0
                                 (\<lambda>ru rv. u + (1 - rv) * width) (\<lambda>ru rv. v + ru * height)))
                        else
                          (let u = u - reg_offsetX region / textureWidth;
                               v = v - (reg_originalHeight region - reg_offsetY region - reg_height region) / textureHeight;
                               width = reg_originalWidth region / textureWidth;
                               height = reg_originalHeight region / textureHeight
                           in (Inr (), uv_loop h1 regionUVs uvs n 0
                                 (\<lambda>ru rv. u + ru * width) (\<lambda>ru rv. v + rv * height))))
                | Region region \<Rightarrow>
                    (let u = reg_u region;
                         v = reg_v region;
                         width = reg_u2 region - u;
                         height = reg_v2 region - v
                     in (Inr (), uv_loop h1 regionUVs uvs n 0
                           (\<lambda>ru rv. u + ru * width) (\<lambda>ru rv. v + rv * height)))))"

definition getParentMesh :: "heap \<Rightarrow> nat \<Rightarrow> nat option" where
  "getParentMesh h this = mesh_parentMesh (mesh_at h this)"

text \<open>\<open>MeshAttachment.setParentMesh\<close>, statement by statement.\<close>

definition setParentMesh :: "heap \<Rightarrow> nat \<Rightarrow> nat option \<Rightarrow> (error + unit) \<times> heap" where
  "setParentMesh h this parentMesh =
     (if \<not> this < length (h_meshes h) then (Inl BadRef, h)
      else
        (let h1 = put_mesh h this ((mesh_at h this)\<lparr>mesh_parentMesh := parentMesh\<rparr>)
         in case parentMesh of
              None \<Rightarrow> (Inr (), h1)
            | Some p \<Rightarrow>
                if \<not> p < length (h_meshes h1) then (Inl BadRef, h1)
                else
                  (let h2 = put_mesh h1 this ((mesh_at h1 this)\<lparr>att_bones := att_bones (mesh_at h1 p)\<rparr>);
                       h3 = put_mesh h2 this ((mesh_at h2 this)\<lparr>att_vertices := att_vertices (mesh_at h2 p)\<rparr>);
                       h4 = put_mesh h3 this
                              ((mesh_at h3 this)\<lparr>att_worldVerticesLength := att_worldVerticesLength (mesh_at h3 p)\<rparr>);
                       h5 = put_mesh h4 this ((mesh_at h4 this)\<lparr>mesh_regionUVs := mesh_regionUVs (mesh_at h4 p)\<rparr>);
                       h6 = put_mesh h5 this ((mesh_at h5 this)\<lparr>mesh_triangles := mesh_triangles (mesh_at h5 p)\<rparr>);
                       h7 = put_mesh h6 this ((mesh_at h6 this)\<lparr>mesh_hullLength := mesh_hullLength (mesh_at h6 p)\<rparr>);
                       h8 = put_mesh h7 this
                              ((mesh_at h7 this)\<lparr>att_worldVerticesLength := att_worldVerticesLength (mesh_at h7 p)\<rparr>)
                   in (Inr (), h8))))"

text \<open>
  \<open>MeshAttachment.newLinkedMesh\<close> and \<open>MeshAttachment.copy\<close>. A colour is a
  value here, so \<open>copy.color.setFromColor(this.color)\<close> assigns it.
\<close>

definition newLinkedMesh :: "heap \<Rightarrow> nat \<Rightarrow> (error + nat) \<times> heap" where
  "newLinkedMesh h this =
     (if \<not> this < length (h_meshes h) then (Inl BadRef, h)
      else
        case new_MeshAttachment h (Some (att_name (mesh_at h this))) (mesh_path (mesh_at h this)) of
          (Inl e, h1) \<Rightarrow> (Inl e, h1)
        | (Inr copy, h1) \<Rightarrow>
            (let h2 = put_mesh h1 copy ((mesh_at h1 copy)\<lparr>mesh_region := mesh_region (mesh_at h1 this)\<rparr>);
                 h3 = put_mesh h2 copy ((mesh_at h2 copy)\<lparr>mesh_color := mesh_color (mesh_at h2 this)\<rparr>);
                 h4 = put_mesh h3 copy
                        ((mesh_at h3 copy)\<lparr>att_deformAttachment := att_deformAttachment (mesh_at h3 this)\<rparr>)
             in case setParentMesh h4 copy
                       (if mesh_parentMesh (mesh_at h4 this) \<noteq> None then mesh_parentMesh (mesh_at h4 this)
                        else Some this) of
                  (Inl e, h5) \<Rightarrow> (Inl e, h5)
                | (Inr _, h5) \<Rightarrow>
                    (case updateUVs h5 copy of
                       (Inl e, h6) \<Rightarrow> (Inl e, h6)
                     | (Inr _, h6) \<Rightarrow> (Inr copy, h6))))"

definition MeshAttachment_copy :: "heap \<Rightarrow> nat \<Rightarrow> (error + nat) \<times> heap" where
  "MeshAttachment_copy h this =
     (if \<not> this < length (h_meshes h) then (Inl BadRef, h)
      else if mesh_parentMesh (mesh_at h this) \<noteq> None then newLinkedMesh h this
      else
        case new_MeshAttachment h (Some (att_name (mesh_at h this))) (mesh_path (mesh_at h this)) of
          (Inl e, h1) \<Rightarrow> (Inl e, h1)
        | (Inr copy, h1) \<Rightarrow>
            (let h2 = put_mesh h1 copy ((mesh_at h1 copy)\<lparr>mesh_region := mesh_region (mesh_at h1 this)\<rparr>);
                 h3 = put_mesh h2 copy ((mesh_at h2 copy)\<lparr>mesh_color := mesh_color (mesh_at h2 this)\<rparr>)
             in case copyTo h3 (MeshRef this) (MeshRef copy) of
                  (Inl e, h4) \<Rightarrow> (Inl e, h4)
                | (Inr _, h4) \<Rightarrow>
                    (let (r, h5) = alloc_array h4 (new_Array (length (array_at h4 (mesh_regionUVs (mesh_at h4 this)))));
                         h5 = put_mesh h5 copy ((mesh_at h5 copy)\<lparr>mesh_regionUVs := r\<rparr>);
                         h6 = arrayCopy h5 (mesh_regionUVs (mesh_at h5 this)) 0 (mesh_regionUVs (mesh_at h5 copy)) 0
                                (length (array_at h5 (mesh_regionUVs (mesh_at h5 this))));
                         (r, h7) = alloc_array h6 (new_Array (length (array_at h6 (mesh_uvs (mesh_at h6 this)))));
                         h7 = put_mesh h7 copy ((mesh_at h7 copy)\<lparr>mesh_uvs := r\<rparr>);
                         h8 = arrayCopy h7 (mesh_uvs (mesh_at h7 this)) 0 (mesh_uvs (mesh_at h7 copy)) 0
                                (length (array_at h7 (mesh_uvs (mesh_at h7 this))));
                         (r, h9) = alloc_array h8 (new_Array (length (array_at h8 (mesh_triangles (mesh_at h8 this)))));
                         h9 = put_mesh h9 copy ((mesh_at h9 copy)\<lparr>mesh_triangles := r\<rparr>);
                         h10 = arrayCopy h9 (mesh_triangles (mesh_at h9 this)) 0 (mesh_triangles (mesh_at h9 copy)) 0
                                 (length (array_at h9 (mesh_triangles (mesh_at h9 this))));
                         h11 = put_mesh h10 copy ((mesh_at h10 copy)\<lparr>mesh_hullLength := mesh_hullLength (mesh_at h10 this)\<rparr>);
                         (r, h12) = alloc_array h11 (new_Array (length (array_at h11 (mesh_edges (mesh_at h11 this)))));
                         h12 = put_mesh h12 copy ((mesh_at h12 copy)\<lparr>mesh_edges := r\<rparr>);
                         h13 = arrayCopy h12 (mesh_edges (mesh_at h12 this)) 0 (mesh_edges (mesh_at h12 copy)) 0
                                 (length (array_at h12 (mesh_edges (mesh_at h12 this))));
                         h14 = put_mesh h13 copy ((mesh_at h13 copy)\<lparr>mesh_width := mesh_width (mesh_at h13 this)\<rparr>);
                         h15 = put_mesh h14 copy ((mesh_at h14 copy)\<lparr>mesh_height := mesh_height (mesh_at h14 this)\<rparr>)
                     in (Inr copy, h15))))"

text \<open>\<open>BoundingBoxAttachment.copy\<close> and \<open>ClippingAttachment.copy\<close>.\<close>

definition BoundingBoxAttachment_copy :: "heap \<Rightarrow> nat \<Rightarrow> (error + nat) \<times> heap" where
  "BoundingBoxAttachment_copy h this =
     (if \<not> this < length (h_boxes h) then (Inl BadRef, h)
      else
        case new_BoundingBoxAttachment h (Some (att_name (h_boxes h ! this))) of
          (Inl e, h1) \<Rightarrow> (Inl e, h1)
        | (Inr copy, h1) \<Rightarrow>
            (case copyTo h1 (BoundingBoxRef this) (BoundingBoxRef copy) of
               (Inl e, h2) \<Rightarrow> (Inl e, h2)
             | (Inr _, h2) \<Rightarrow>
                 (Inr copy,
                  h2\<lparr>h_boxes := (h_boxes h2)
                     [copy := (h_boxes h2 ! copy)\<lparr>bbox_color := bbox_color (h_boxes h2 ! this)\<rparr>]\<rparr>)))"

definition ClippingAttachment_copy :: "heap \<Rightarrow> nat \<Rightarrow> (error + nat) \<times> heap" where
  "ClippingAttachment_copy h this =
     (if \<not> this < length (h_clips h) then (Inl BadRef, h)
      else
        case new_ClippingAttachment h (Some (att_name (h_clips h ! this))) of
          (Inl e, h1) \<Rightarrow> (Inl e, h1)
        | (Inr copy, h1) \<Rightarrow>
            (case copyTo h1 (ClippingRef this) (ClippingRef copy) of
               (Inl e, h2) \<Rightarrow> (Inl e, h2)
             | (Inr _, h2) \<Rightarrow>
                 (let h3 = h2\<lparr>h_clips := (h_clips h2)
                             [copy := (h_clips h2 ! copy)\<lparr>clip_endSlot := clip_endSlot (h_clips h2 ! this)\<rparr>]\<rparr>;
                      h4 = h3\<lparr>h_clips := (h_clips h3)
                             [copy := (h_clips h3 ! copy)\<lparr>clip_color := clip_color (h_clips h3 ! this)\<rparr>]\<rparr>
                  in (Inr copy, h4))))"

text \<open>
  A run of constructions in one process: each request is one \<open>new\<close> expression
  (the name may be null), and the run collects the attachments constructed (a
  construction that throws makes none).
\<close>

datatype ctor =
  NewMesh "string option" string
| NewBoundingBox "string option"
| NewClipping "string option"

fun construct :: "heap \<Rightarrow> ctor \<Rightarrow> (error + aref) \<times> heap" where
  "construct h (NewMesh name path) =
     (case new_MeshAttachment h name path of (r, h1) \<Rightarrow> (map_sum id MeshRef r, h1))"
| "construct h (NewBoundingBox name) =
     (case new_BoundingBoxAttachment h name of (r, h1) \<Rightarrow> (map_sum id BoundingBoxRef r, h1))"
| "construct h (NewClipping name) =
     (case new_ClippingAttachment h name of (r, h1) \<Rightarrow> (map_sum id ClippingRef r, h1))"

fun constructions :: "heap \<Rightarrow> ctor list \<Rightarrow> aref list \<times> heap" where
  "constructions h [] = ([], h)"
| "constructions h (c # cs) =
     (case construct h c of
        (Inl e, h1) \<Rightarrow> constructions h1 cs
      | (Inr r, h1) \<Rightarrow> (case constructions h1 cs of (rs, h2) \<Rightarrow> (r # rs, h2)))"

text \<open>
  No reference held by the mesh at \<open>r\<close> dangles: each is an object of the heap. Every
  heap that an execution of the source builds is such.
\<close>

definition mesh_refs_ok :: "heap \<Rightarrow> nat \<Rightarrow> bool" where
  "mesh_refs_ok h r \<longleftrightarrow>
     r < length (h_meshes h) \<and>
     att_vertices (mesh_at h r) < length (h_arrays h) \<and>
     (\<forall>b. att_bones (mesh_at h r) = Some b \<longrightarrow> b < length (h_arrays h)) \<and>
     mesh_regionUVs (mesh_at h r) < length (h_arrays h) \<and>
     mesh_uvs (mesh_at h r) < length (h_arrays h) \<and>
     mesh_triangles (mesh_at h r) < length (h_arrays h) \<and>
     mesh_edges (mesh_at h r) < length (h_arrays h) \<and>
     (\<forall>p. mesh_parentMesh (mesh_at h r) = Some p \<longrightarrow> p < length (h_meshes h))"

text \<open>
  The heap \<open>h\<close> with the arrays \<open>new\<close> and the mesh \<open>m\<close> allocated after it, and the
  counter advanced once: the shape of every heap in the course of a mesh's \<open>copy\<close>.
\<close>

definition ext_heap :: "heap \<Rightarrow> number list list \<Rightarrow> MeshAttachment \<Rightarrow> heap" where
  "ext_heap h new m =
     h\<lparr>h_arrays := h_arrays h @ new, h_meshes := h_meshes h @ [m], h_nextID := Suc (h_nextID h)\<rparr>"

section \<open>Observations on the heap, and example states\<close>

text \<open>
  The mesh \<open>m\<close> is linked to \<open>p\<close> and holds what \<open>p\<close> holds in each field that
  \<open>setParentMesh\<close> assigns: the same arrays (the references are equal) and the same
  lengths.
\<close>

definition aliases_parent :: "heap \<Rightarrow> nat \<Rightarrow> nat \<Rightarrow> bool" where
  "aliases_parent h m p \<longleftrightarrow>
     mesh_parentMesh (mesh_at h m) = Some p \<and>
     att_bones (mesh_at h m) = att_bones (mesh_at h p) \<and>
     att_vertices (mesh_at h m) = att_vertices (mesh_at h p) \<and>
     mesh_regionUVs (mesh_at h m) = mesh_regionUVs (mesh_at h p) \<and>
     mesh_triangles (mesh_at h m) = mesh_triangles (mesh_at h p) \<and>
     mesh_hullLength (mesh_at h m) = mesh_hullLength (mesh_at h p) \<and>
     att_worldVerticesLength (mesh_at h m) = att_worldVerticesLength (mesh_at h p)"

text \<open>
  The mesh \<open>c\<close> of the heap \<open>h'\<close> is a deep copy of the mesh \<open>s\<close> of the heap
  \<open>h\<close> before it: \<open>c\<close> has no parent; its \<open>regionUVs\<close>, \<open>uvs\<close>,
  \<open>triangles\<close>, \<open>vertices\<close> and \<open>bones\<close> (if any) are arrays that \<open>h\<close> did
  not have, distinct from one another, with the contents of those of \<open>s\<close>; and
  every array and every mesh of \<open>h\<close> is in \<open>h'\<close> as it was.
\<close>

definition deep_copy :: "heap \<Rightarrow> heap \<Rightarrow> nat \<Rightarrow> nat \<Rightarrow> bool" where
  "deep_copy h h' s c \<longleftrightarrow>
     (let m = mesh_at h s; m' = mesh_at h' c; A = length (h_arrays h);
          fresh = [mesh_regionUVs m', mesh_uvs m', mesh_triangles m', att_vertices m']
                    @ (case att_bones m' of None \<Rightarrow> [] | Some b \<Rightarrow> [b])
      in mesh_parentMesh m' = None \<and>
         (\<forall>r\<in>set fresh. A \<le> r \<and> r < length (h_arrays h')) \<and>
         distinct fresh \<and>
         array_at h' (mesh_regionUVs m') = array_at h (mesh_regionUVs m) \<and>
         array_at h' (mesh_uvs m') = array_at h (mesh_uvs m) \<and>
         array_at h' (mesh_triangles m') = array_at h (mesh_triangles m) \<and>
         array_at h' (att_vertices m') = array_at h (att_vertices m) \<and>
         (att_bones m = None \<longrightarrow> att_bones m' = None) \<and>
         (\<forall>b. att_bones m = Some b \<longrightarrow>
            (\<exists>b'. att_bones m' = Some b' \<and> array_at h' b' = array_at h b)) \<and>
         (\<forall>r<A. array_at h' r = array_at h r) \<and>
         (\<forall>r<length (h_meshes h). mesh_at h' r = mesh_at h r))"

text \<open>
  \<open>uvs[k]\<close> of the mesh after \<open>updateUVs\<close>, and \<open>regionUVs[k]\<close> before it.
\<close>

definition uvs_after :: "heap \<Rightarrow> nat \<Rightarrow> int \<Rightarrow> number" where
  "uvs_after h this k =
     h_aget (snd (updateUVs h this)) (mesh_uvs (mesh_at (snd (updateUVs h this)) this)) k"

definition regionUVs_of :: "heap \<Rightarrow> nat \<Rightarrow> int \<Rightarrow> number" where
  "regionUVs_of h this k = h_aget h (mesh_regionUVs (mesh_at h this)) k"

text \<open>
  The heap of a process that has constructed nothing (\<open>nextID\<close> is initialised to 0),
  and the heap after \<^verbatim>\<open>new BoundingBoxAttachment("box")\<close>,
  \<^verbatim>\<open>new ClippingAttachment("clip")\<close> and
  \<^verbatim>\<open>new MeshAttachment("mesh", "mesh.png")\<close>.
\<close>

definition heap0 :: heap where
  "heap0 = \<lparr>h_arrays = [], h_meshes = [], h_boxes = [], h_clips = [], h_nextID = 0\<rparr>"

definition heap3 :: heap where
  "heap3 = snd (new_MeshAttachment
             (snd (new_ClippingAttachment
                (snd (new_BoundingBoxAttachment heap0 (Some ''box''))) (Some ''clip'')))
             (Some ''mesh'') ''mesh.png'')"

text \<open>
  A quad mesh with unit-square \<open>regionUVs\<close> and (as after construction) an empty
  \<open>uvs\<close>, on an atlas region of 64 by 32 pixels, stripped to 60 by 24 at offset
  (2, 4), in a texture of 128 by 128, rotated by \<open>degrees\<close>.
\<close>

definition atlas_region :: "int \<Rightarrow> TextureAtlasRegion" where
  "atlas_region degrees =
     \<lparr>reg_u = Num (1/4), reg_v = Num (1/2), reg_u2 = Num (1/2), reg_v2 = Num 1,
      reg_degrees = degrees, reg_originalWidth = Num 64, reg_originalHeight = Num 32,
      reg_offsetX = Num 2, reg_offsetY = Num 4, reg_width = Num 60, reg_height = Num 24,
      reg_textureWidth = Num 128, reg_textureHeight = Num 128\<rparr>"

definition heap_uv :: "int \<Rightarrow> heap" where
  "heap_uv degrees =
     \<lparr>h_arrays = [[], [Num 0, Num 0, Num 1, Num 0, Num 1, Num 1, Num 0, Num 1], [], [], []],
      h_meshes =
        [\<lparr>att_name = ''quad'', att_id = 0, att_bones = None, att_vertices = 0,
          att_worldVerticesLength = 0, att_deformAttachment = Some (MeshRef 0),
          mesh_region = Some (AtlasRegion (atlas_region degrees)), mesh_path = ''quad.png'',
          mesh_regionUVs = 1, mesh_uvs = 2, mesh_triangles = 3,
          mesh_color = \<lparr>col_r = 1, col_g = 1, col_b = 1, col_a = 1\<rparr>,
          mesh_width = 0, mesh_height = 0, mesh_hullLength = 0, mesh_edges = 4,
          mesh_parentMesh = None,
          mesh_tempColor = \<lparr>col_r = 0, col_g = 0, col_b = 0, col_a = 0\<rparr>\<rparr>],
      h_boxes = [], h_clips = [], h_nextID = 1\<rparr>"

text \<open>
  A triangle mesh with its region set; the same heap after
  \<^verbatim>\<open>linked = new MeshAttachment("linked", "linked.png"); linked.setParentMesh(parent)\<close>;
  and that heap after \<^verbatim>\<open>linked.region = ...\<close>.
\<close>

definition heap_parent :: heap where
  "heap_parent =
     \<lparr>h_arrays = [[Num 0, Num 0, Num 4, Num 0, Num 0, Num 4],
                  [Num 0, Num 0, Num 1, Num 0, Num 0, Num 1],
                  [Num 0, Num 0, Num (1/2), Num 0, Num 0, Num (1/2)],
                  [Num 0, Num 1, Num 2], []],
      h_meshes =
        [\<lparr>att_name = ''parent'', att_id = 0, att_bones = None, att_vertices = 0,
          att_worldVerticesLength = Num 6, att_deformAttachment = Some (MeshRef 0),
          mesh_region = Some (Region \<lparr>reg_u = Num 0, reg_v = Num 0, reg_u2 = Num (1/2), reg_v2 = Num (1/2)\<rparr>),
          mesh_path = ''parent.png'',
          mesh_regionUVs = 1, mesh_uvs = 2, mesh_triangles = 3,
          mesh_color = \<lparr>col_r = 1, col_g = 1, col_b = 1, col_a = 1\<rparr>,
          mesh_width = Num 4, mesh_height = Num 4, mesh_hullLength = Num 6, mesh_edges = 4,
          mesh_parentMesh = None,
          mesh_tempColor = \<lparr>col_r = 0, col_g = 0, col_b = 0, col_a = 0\<rparr>\<rparr>],
      h_boxes = [], h_clips = [], h_nextID = 1\<rparr>"

definition heap_linked :: heap where
  "heap_linked =
     snd (setParentMesh (snd (new_MeshAttachment heap_parent (Some ''linked'') ''linked.png'')) 1 (Some 0))"

definition heap_linked_region :: heap where
  "heap_linked_region =
     put_mesh heap_linked 1
       ((mesh_at heap_linked 1)
          \<lparr>mesh_region := Some (Region \<lparr>reg_u = Num 0, reg_v = Num 0, reg_u2 = Num 1, reg_v2 = Num 1\<rparr>)\<rparr>)"

section \<open>Weighted attachments: the layout of bones and vertices\<close>

text \<open>
  The layout that the source documents for a weighted attachment: \<open>bones\<close> holds,
  for each vertex, the number of bones affecting the vertex followed by that many bone
  indices, and \<open>vertices\<close> holds \<open>x, y, weight\<close> for each bone affecting each
  vertex. A vertex is the list of its influences \<open>(bone index, x, y, weight)\<close>;
  \<open>enc_bones\<close> and \<open>enc_vertices\<close> are the two arrays of a list of vertices.
\<close>

type_synonym influence = "int \<times> number \<times> number \<times> number"

fun enc_bones :: "influence list list \<Rightarrow> int list" where
  "enc_bones [] = []"
| "enc_bones (g # gs) = int (length g) # map fst g @ enc_bones gs"

fun triples :: "influence list \<Rightarrow> number list" where
  "triples [] = []"
| "triples ((i, x, y, weight) # es) = x # y # weight # triples es"

definition enc_vertices :: "influence list list \<Rightarrow> number list" where
  "enc_vertices gs = triples (concat gs)"

text \<open>
  The sums \<open>wx\<close> and \<open>wy\<close> that the inner loop accumulates over the influences of
  one vertex, and the condition that every bone index of a vertex is an index of
  \<open>skeleton.bones\<close>.
\<close>

fun skin :: "BoneTransform list \<Rightarrow> influence list \<Rightarrow> number \<Rightarrow> number \<Rightarrow> number \<times> number" where
  "skin skeletonBones [] wx wy = (wx, wy)"
| "skin skeletonBones ((i, x, y, weight) # es) wx wy =
     skin skeletonBones es
       (wx + (x * bone_a (skeletonBones ! nat i) + y * bone_b (skeletonBones ! nat i)
              + bone_worldX (skeletonBones ! nat i)) * weight)
       (wy + (x * bone_c (skeletonBones ! nat i) + y * bone_d (skeletonBones ! nat i)
              + bone_worldY (skeletonBones ! nat i)) * weight)"

definition bones_ok :: "BoneTransform list \<Rightarrow> influence list \<Rightarrow> bool" where
  "bones_ok skeletonBones g \<longleftrightarrow> (\<forall>e\<in>set g. 0 \<le> fst e \<and> fst e < int (length skeletonBones))"

text \<open>
  An example: a skeleton of two bones, a slot on its bone \<open>i\<close>, and three weighted
  vertices, the first two with one influence of weight 1 each.
\<close>

definition skel2 :: Skeleton where
  "skel2 = \<lparr>skel_bones =
               [\<lparr>bone_a = Num 1, bone_b = Num 0, bone_c = Num 0, bone_d = Num 1,
                 bone_worldX = Num 0, bone_worldY = Num 0\<rparr>,
                \<lparr>bone_a = Num 2, bone_b = Num 0, bone_c = Num 0, bone_d = Num 3,
                 bone_worldX = Num 10, bone_worldY = Num 20\<rparr>],
             skel_time = Num 0, skel_getAttachment = (\<lambda>i n. None)\<rparr>"

definition slot_on :: "nat \<Rightarrow> Slot" where
  "slot_on i =
     \<lparr>slot_data = \<lparr>sd_index = 0, sd_name = ''s'', sd_color = \<lparr>col_r = 1, col_g = 1, col_b = 1, col_a = 1\<rparr>,
                   sd_darkColor = None, sd_attachmentName = None\<rparr>,
      slot_bone = BoneTransform.extend (skel_bones skel2 ! i) \<lparr>bone_skeleton = skel2\<rparr>,
      slot_color = \<lparr>col_r = 1, col_g = 1, col_b = 1, col_a = 1\<rparr>, slot_darkColor = None,
      slot_attachment = None, slot_attachmentTime = Num 0, slot_attachmentState = 0,
      slot_deform = []\<rparr>"

definition groups3 :: "influence list list" where
  "groups3 = [[(0, Num 1, Num 2, 1)], [(1, Num 3, Num 4, 1)],
              [(0, Num 1, Num 1, Num (1/2)), (1, Num 1, Num 1, Num (1/2))]]"

chapter \<open>Properties\<close>

section \<open>computeWorldVertices, unweighted\<close>

lemma sar1_div2: "- (2 ^ 31) \<le> n \<Longrightarrow> n < 2 ^ 31 \<Longrightarrow> sar1 n = n div 2"
proof -
  assume a: "- (2 ^ 31) \<le> n" "n < 2 ^ 31"
  have "sint (word_of_int n :: 32 word) = signed_take_bit 31 n"
    by (simp add: sint_sbintrunc')
  also have "\<dots> = n" using a by (simp add: signed_take_bit_int_eq_self)
  finally show ?thesis
    by (simp add: sar1_def sint_signed_drop_bit_eq drop_bit_eq_div)
qed

lemma write_pairs_below: "0 \<le> stride \<Longrightarrow> j < w \<Longrightarrow> write_pairs ps w stride wv j = wv j"
  by (induction ps w stride wv rule: write_pairs.induct) auto

lemma write_pairs_fst:
  "2 \<le> stride \<Longrightarrow> k < length ps \<Longrightarrow> write_pairs ps w stride wv (w + int k * stride) = Some (fst (ps ! k))"
proof (induction ps w stride wv arbitrary: k rule: write_pairs.induct)
  case (1 w stride wv)
  then show ?case by simp
next
  case (2 x y ps w stride wv)
  show ?case
  proof (cases k)
    case 0
    then show ?thesis using "2.prems" by (simp add: write_pairs_below)
  next
    case (Suc k')
    have e: "w + int k * stride = w + stride + int k' * stride"
      using Suc by (simp add: algebra_simps)
    have "write_pairs ps (w + stride) stride (wv(w \<mapsto> x, w + 1 \<mapsto> y))
            (w + stride + int k' * stride) = Some (fst (ps ! k'))"
      using "2.prems" Suc by (intro "2.IH") auto
    then show ?thesis unfolding e using Suc by simp
  qed
qed

lemma write_pairs_snd:
  "2 \<le> stride \<Longrightarrow> k < length ps \<Longrightarrow> write_pairs ps w stride wv (w + int k * stride + 1) = Some (snd (ps ! k))"
proof (induction ps w stride wv arbitrary: k rule: write_pairs.induct)
  case (1 w stride wv)
  then show ?case by simp
next
  case (2 x y ps w stride wv)
  show ?case
  proof (cases k)
    case 0
    then show ?thesis using "2.prems" by (simp add: write_pairs_below)
  next
    case (Suc k')
    have e: "w + int k * stride + 1 = w + stride + int k' * stride + 1"
      using Suc by (simp add: algebra_simps)
    have "write_pairs ps (w + stride) stride (wv(w \<mapsto> x, w + 1 \<mapsto> y))
            (w + stride + int k' * stride + 1) = Some (snd (ps ! k'))"
      using "2.prems" Suc by (intro "2.IH") auto
    then show ?thesis unfolding e using Suc by simp
  qed
qed

lemma write_pairs_other:
  "(\<And>k. k < length ps \<Longrightarrow> j \<noteq> w + int k * stride \<and> j \<noteq> w + int k * stride + 1) \<Longrightarrow>
   write_pairs ps w stride wv j = wv j"
proof (induction ps w stride wv rule: write_pairs.induct)
  case (1 w stride wv)
  then show ?case by simp
next
  case (2 x y ps w stride wv)
  have a: "j \<noteq> w \<and> j \<noteq> w + 1" using "2.prems"[of 0] by simp
  have "write_pairs ps (w + stride) stride (wv(w \<mapsto> x, w + 1 \<mapsto> y)) j = (wv(w \<mapsto> x, w + 1 \<mapsto> y)) j"
  proof (rule "2.IH")
    fix k assume "k < length ps"
    then show "j \<noteq> w + stride + int k * stride \<and> j \<noteq> w + stride + int k * stride + 1"
      using "2.prems"[of "Suc k"] by (simp add: algebra_simps)
  qed
  then show ?case using a by simp
qed

lemma unweighted_loop_exit:
  "\<not> w < count \<Longrightarrow> unweighted_loop vs bone v w count stride wv = Some wv"
  by (subst unweighted_loop.simps) simp

lemma unweighted_loop_run:
  "0 < stride \<Longrightarrow>
   unweighted_loop vs bone v w (w + int n * stride) stride wv =
     Some (write_pairs
       (map (\<lambda>k. (aget vs (v + 2 * int k) * bone_a bone + aget vs (v + 2 * int k + 1) * bone_b bone + bone_worldX bone,
                   aget vs (v + 2 * int k) * bone_c bone + aget vs (v + 2 * int k + 1) * bone_d bone + bone_worldY bone))
          [0..<n]) w stride wv)"
proof (induction n arbitrary: v w wv)
  case 0
  then show ?case by (simp add: unweighted_loop_exit)
next
  case (Suc n)
  have lt: "w < w + int (Suc n) * stride" using Suc.prems
    by (simp add: add_pos_nonneg)
  have e: "w + int (Suc n) * stride = (w + stride) + int n * stride"
    by (simp add: algebra_simps)
  have m: "[0..<Suc n] = 0 # map Suc [0..<n]"
    by (simp add: upt_conv_Cons map_Suc_upt del: upt_Suc)
  show ?case
    apply (subst unweighted_loop.simps)
    apply (simp only: lt if_True Let_def)
    apply (subst e)
    apply (subst Suc.IH[OF Suc.prems])
    apply (subst m)
    apply (simp add: o_def algebra_simps del: upt_Suc)
    done
qed


lemma unweighted_loop_none:
  "0 < stride \<Longrightarrow> m \<le> 0 \<Longrightarrow> unweighted_loop vs bone v w (w + m * stride) stride wv = Some wv"
  by (rule unweighted_loop_exit) (simp add: mult_le_0_iff not_less)

text \<open>
  Claim C1, as amended. For an attachment without bones, a stride of at least 2 and a count in the
  signed 32-bit range, \<open>computeWorldVertices\<close> returns, and for each \<open>k\<close> with
  \<open>0 \<le> k < count div 2\<close> the buffer holds \<open>vx * a + vy * b + worldX\<close> at
  \<open>offset + k * stride\<close> and \<open>vx * c + vy * d + worldY\<close> at the next index,
  where \<open>vx, vy\<close> are read at \<open>start + 2 * k\<close> and \<open>start + 2 * k + 1\<close> from
  the slot's deform array when it is not empty and from the attachment's vertices
  otherwise, and \<open>a, b, c, d, worldX, worldY\<close> are those of the slot's bone. Every
  other index of the buffer keeps its value.
\<close>

theorem computeWorldVertices_unweighted:
  assumes stride: "2 \<le> stride"
    and count: "- (2 ^ 31) \<le> count" "count < 2 ^ 31"
    and src: "src = (if slot_deform slot = [] then vertices else slot_deform slot)"
    and bone: "bone = slot_bone slot"
  shows "\<exists>out. computeWorldVertices None vertices slot start count worldVertices offset stride
            = Some (Inr (), out) \<and>
          (\<forall>k. 0 \<le> k \<and> k < count div 2 \<longrightarrow>
             out (offset + k * stride) =
               Some (aget src (start + 2 * k) * bone_a bone
                     + aget src (start + 2 * k + 1) * bone_b bone + bone_worldX bone) \<and>
             out (offset + k * stride + 1) =
               Some (aget src (start + 2 * k) * bone_c bone
                     + aget src (start + 2 * k + 1) * bone_d bone + bone_worldY bone)) \<and>
          (\<forall>j. (\<forall>k. 0 \<le> k \<and> k < count div 2 \<longrightarrow>
                   j \<noteq> offset + k * stride \<and> j \<noteq> offset + k * stride + 1) \<longrightarrow>
             out j = worldVertices j)"
proof -
  define n where "n = nat (count div 2)"
  define ps where "ps = map (\<lambda>k. (aget src (start + 2 * int k) * bone_a bone + aget src (start + 2 * int k + 1) * bone_b bone + bone_worldX bone,
                   aget src (start + 2 * int k) * bone_c bone + aget src (start + 2 * int k + 1) * bone_d bone + bone_worldY bone))
          [0..<n]"
  have s0: "0 < stride" using stride by simp
  have sar: "sar1 count = count div 2" using count by (rule sar1_div2)
  have run: "unweighted_loop src bone start offset (offset + (count div 2) * stride) stride worldVertices
               = Some (write_pairs ps offset stride worldVertices)"
  proof (cases "0 \<le> count div 2")
    case True
    then have "count div 2 = int n" by (simp add: n_def)
    then show ?thesis using unweighted_loop_run[OF s0, of src bone start offset n worldVertices]
      by (simp add: ps_def)
  next
    case False
    then have "n = 0" "count div 2 \<le> 0" by (simp_all add: n_def)
    then show ?thesis using unweighted_loop_none[OF s0, of "count div 2" src bone start offset worldVertices]
      by (simp add: ps_def)
  qed
  have cwv: "computeWorldVertices None vertices slot start count worldVertices offset stride
               = Some (Inr (), write_pairs ps offset stride worldVertices)"
    using run by (auto simp: computeWorldVertices_def Let_def sar src bone)
  have len: "length ps = n" by (simp add: ps_def)
  have written: "out_k = write_pairs ps offset stride worldVertices \<Longrightarrow> 0 \<le> k \<Longrightarrow> k < count div 2 \<Longrightarrow>
             out_k (offset + k * stride) =
               Some (aget src (start + 2 * k) * bone_a bone
                     + aget src (start + 2 * k + 1) * bone_b bone + bone_worldX bone) \<and>
             out_k (offset + k * stride + 1) =
               Some (aget src (start + 2 * k) * bone_c bone
                     + aget src (start + 2 * k + 1) * bone_d bone + bone_worldY bone)" for k out_k
  proof -
    assume o: "out_k = write_pairs ps offset stride worldVertices" and k: "0 \<le> k" "k < count div 2"
    have kn: "nat k < length ps" using k by (simp add: len n_def)
    have ik: "int (nat k) = k" using k by simp
    have "ps ! nat k = (aget src (start + 2 * k) * bone_a bone
                     + aget src (start + 2 * k + 1) * bone_b bone + bone_worldX bone,
                   aget src (start + 2 * k) * bone_c bone
                     + aget src (start + 2 * k + 1) * bone_d bone + bone_worldY bone)"
      using kn k by (simp add: ps_def)
    then show ?thesis
      using write_pairs_fst[OF stride kn, of offset worldVertices]
        write_pairs_snd[OF stride kn, of offset worldVertices]
      using k by (simp add: o)
  qed
  have other: "write_pairs ps offset stride worldVertices j = worldVertices j"
    if h: "\<forall>k. 0 \<le> k \<and> k < count div 2 \<longrightarrow> j \<noteq> offset + k * stride \<and> j \<noteq> offset + k * stride + 1" for j
  proof (rule write_pairs_other)
    fix k assume "k < length ps"
    then have "0 \<le> int k \<and> int k < count div 2" by (simp add: len n_def)
    then show "j \<noteq> offset + int k * stride \<and> j \<noteq> offset + int k * stride + 1"
      using h by blast
  qed
  show ?thesis
    apply (rule exI[of _ "write_pairs ps offset stride worldVertices"])
    apply (intro conjI allI impI)
       apply (rule cwv)
    using written other by blast+
qed

theorem computeWorldVertices_unweighted_witness:
  "\<exists>out. computeWorldVertices None [Num 1, Num 2, Num 3, Num 4]
      \<lparr>slot_data = \<lparr>sd_index = 0, sd_name = ''s'', sd_color = \<lparr>col_r = 1, col_g = 1, col_b = 1, col_a = 1\<rparr>,
                    sd_darkColor = None, sd_attachmentName = None\<rparr>,
       slot_bone = \<lparr>bone_a = Num 2, bone_b = Num 0, bone_c = Num 0, bone_d = Num 3,
                    bone_worldX = Num 10, bone_worldY = Num 20,
                    bone_skeleton = \<lparr>skel_bones = [], skel_time = Num 0, skel_getAttachment = (\<lambda>i n. None)\<rparr>\<rparr>,
       slot_color = \<lparr>col_r = 1, col_g = 1, col_b = 1, col_a = 1\<rparr>, slot_darkColor = None,
       slot_attachment = None, slot_attachmentTime = Num 0, slot_attachmentState = 0,
       slot_deform = []\<rparr> 0 4 (\<lambda>j. None) 1 3 = Some (Inr (), out) \<and>
     out 1 = Some (Num 12) \<and> out 2 = Some (Num 26) \<and> out 4 = Some (Num 16) \<and> out 5 = Some (Num 32) \<and>
     out 0 = None \<and> out 3 = None \<and> out 6 = None"
proof -
  let ?slot = "\<lparr>slot_data = \<lparr>sd_index = 0, sd_name = ''s'', sd_color = \<lparr>col_r = 1, col_g = 1, col_b = 1, col_a = 1\<rparr>,
                    sd_darkColor = None, sd_attachmentName = None\<rparr>,
       slot_bone = \<lparr>bone_a = Num 2, bone_b = Num 0, bone_c = Num 0, bone_d = Num 3,
                    bone_worldX = Num 10, bone_worldY = Num 20,
                    bone_skeleton = \<lparr>skel_bones = [], skel_time = Num 0, skel_getAttachment = (\<lambda>i n. None)\<rparr>\<rparr>,
       slot_color = \<lparr>col_r = 1, col_g = 1, col_b = 1, col_a = 1\<rparr>, slot_darkColor = None,
       slot_attachment = None, slot_attachmentTime = Num 0, slot_attachmentState = 0,
       slot_deform = []\<rparr>"
  obtain out where o: "computeWorldVertices None [Num 1, Num 2, Num 3, Num 4] ?slot 0 4 (\<lambda>j. None) 1 3 = Some (Inr (), out)"
    and w: "\<And>k. 0 \<le> k \<and> k < 4 div 2 \<Longrightarrow>
             out (1 + k * 3) =
               Some (aget [Num 1, Num 2, Num 3, Num 4] (0 + 2 * k) * bone_a (slot_bone ?slot)
                     + aget [Num 1, Num 2, Num 3, Num 4] (0 + 2 * k + 1) * bone_b (slot_bone ?slot) + bone_worldX (slot_bone ?slot)) \<and>
             out (1 + k * 3 + 1) =
               Some (aget [Num 1, Num 2, Num 3, Num 4] (0 + 2 * k) * bone_c (slot_bone ?slot)
                     + aget [Num 1, Num 2, Num 3, Num 4] (0 + 2 * k + 1) * bone_d (slot_bone ?slot) + bone_worldY (slot_bone ?slot))"
    and f: "\<And>j. (\<forall>k. 0 \<le> k \<and> k < 4 div 2 \<longrightarrow> j \<noteq> 1 + k * 3 \<and> j \<noteq> 1 + k * 3 + 1) \<Longrightarrow> out j = None"
    using computeWorldVertices_unweighted[of 3 4 "[Num 1, Num 2, Num 3, Num 4]" ?slot "[Num 1, Num 2, Num 3, Num 4]"
        "slot_bone ?slot" 0 "\<lambda>j. None" 1]
    by auto
  have "out 1 = Some (Num 12)" "out 2 = Some (Num 26)" using w[of 0] by (simp_all add: aget_def)
  moreover have "out 4 = Some (Num 16)" "out 5 = Some (Num 32)" using w[of 1] by (simp_all add: aget_def)
  moreover have "out 0 = None" "out 3 = None" "out 6 = None"
    by (rule f, presburger)+
  ultimately show ?thesis using o by blast
qed

text \<open>
  The claim as stated, for every stride, fails at stride 1: the second value of the
  first pair, at index \<open>offset + 1\<close>, is overwritten by the first value of the second
  pair (16 stands where the claim has \<open>vx * c + vy * d + worldY = 26\<close>). It fails at
  stride 0 as well: nothing is written.
\<close>

theorem computeWorldVertices_stride_counterexample:
  "computeWorldVertices None [Num 1, Num 2, Num 3, Num 4] (slot_on 1) 0 4 Map.empty 0 1
     = Some (Inr (), [0 \<mapsto> Num 12, 1 \<mapsto> Num 16, 2 \<mapsto> Num 32]) \<and>
   aget [Num 1, Num 2, Num 3, Num 4] 0 * bone_c (slot_bone (slot_on 1))
     + aget [Num 1, Num 2, Num 3, Num 4] 1 * bone_d (slot_bone (slot_on 1))
     + bone_worldY (slot_bone (slot_on 1)) = Num 26 \<and>
   computeWorldVertices None [Num 1, Num 2, Num 3, Num 4] (slot_on 1) 0 4 Map.empty 0 0
     = Some (Inr (), Map.empty)"
proof -
  have sar: "sar1 4 = 2" using sar1_div2[of 4] by simp
  have b: "slot_bone (slot_on 1) =
             \<lparr>bone_a = Num 2, bone_b = Num 0, bone_c = Num 0, bone_d = Num 3,
              bone_worldX = Num 10, bone_worldY = Num 20, bone_skeleton = skel2\<rparr>"
    "slot_deform (slot_on 1) = []"
    "slot_bone (slot_on (Suc 0)) =
             \<lparr>bone_a = Num 2, bone_b = Num 0, bone_c = Num 0, bone_d = Num 3,
              bone_worldX = Num 10, bone_worldY = Num 20, bone_skeleton = skel2\<rparr>"
    "slot_deform (slot_on (Suc 0)) = []"
    by (simp_all add: slot_on_def skel2_def BoneTransform.extend_def)
  have 1: "unweighted_loop [Num 1, Num 2, Num 3, Num 4] (slot_bone (slot_on 1)) 0 0 (0 + int 2 * 1) 1 Map.empty
             = Some [0 \<mapsto> Num 12, 1 \<mapsto> Num 16, 2 \<mapsto> Num 32]"
    by (subst unweighted_loop_run) (simp_all add: b aget_def upt_rec)
  have 0: "unweighted_loop [Num 1, Num 2, Num 3, Num 4] (slot_bone (slot_on 1)) 0 0 0 0 Map.empty
             = Some Map.empty"
    by (rule unweighted_loop_exit) simp
  show ?thesis using 1 0 by (simp add: computeWorldVertices_def sar b aget_def)
qed

section \<open>Slot\<close>

text \<open>
  Claim C3. \<open>setAttachment X\<close> returns the slot unchanged when \<open>X\<close> is the slot's
  current attachment (the same reference, or null for null); otherwise the attachment
  is \<open>X\<close>, the attachment time is the skeleton's time and the deform array is
  empty, and no other field changes.
\<close>

theorem setAttachment_identity:
  "(slot_attachment s = X \<longrightarrow> setAttachment s X = s) \<and>
   (slot_attachment s \<noteq> X \<longrightarrow>
      slot_attachment (setAttachment s X) = X \<and>
      slot_attachmentTime (setAttachment s X) = skel_time (bone_skeleton (slot_bone s)) \<and>
      slot_deform (setAttachment s X) = [] \<and>
      setAttachment s X =
        s\<lparr>slot_attachment := X,
          slot_attachmentTime := skel_time (bone_skeleton (slot_bone s)),
          slot_deform := []\<rparr>)"
  by (simp add: setAttachment_def)

theorem setAttachment_identity_witness:
  "setAttachment \<lparr>slot_data = \<lparr>sd_index = 2, sd_name = ''s'', sd_color = \<lparr>col_r = Num 1, col_g = Num 1, col_b = Num 1, col_a = Num 1\<rparr>, sd_darkColor = None, sd_attachmentName = None\<rparr>, slot_bone = \<lparr>bone_a = Num 1, bone_b = Num 0, bone_c = Num 0, bone_d = Num 1, bone_worldX = Num 0, bone_worldY = Num 0, bone_skeleton = \<lparr>skel_bones = [], skel_time = Num 7, skel_getAttachment = (\<lambda>i n. None)\<rparr>\<rparr>, slot_color = \<lparr>col_r = Num 0, col_g = Num 0, col_b = Num 0, col_a = Num 0\<rparr>, slot_darkColor = None, slot_attachment = Some (1::nat), slot_attachmentTime = Num 3, slot_attachmentState = 0, slot_deform = [Num 5, Num 6]\<rparr> (Some 1) = \<lparr>slot_data = \<lparr>sd_index = 2, sd_name = ''s'', sd_color = \<lparr>col_r = Num 1, col_g = Num 1, col_b = Num 1, col_a = Num 1\<rparr>, sd_darkColor = None, sd_attachmentName = None\<rparr>, slot_bone = \<lparr>bone_a = Num 1, bone_b = Num 0, bone_c = Num 0, bone_d = Num 1, bone_worldX = Num 0, bone_worldY = Num 0, bone_skeleton = \<lparr>skel_bones = [], skel_time = Num 7, skel_getAttachment = (\<lambda>i n. None)\<rparr>\<rparr>, slot_color = \<lparr>col_r = Num 0, col_g = Num 0, col_b = Num 0, col_a = Num 0\<rparr>, slot_darkColor = None, slot_attachment = Some (1::nat), slot_attachmentTime = Num 3, slot_attachmentState = 0, slot_deform = [Num 5, Num 6]\<rparr> \<and>
   slot_attachment (setAttachment \<lparr>slot_data = \<lparr>sd_index = 2, sd_name = ''s'', sd_color = \<lparr>col_r = Num 1, col_g = Num 1, col_b = Num 1, col_a = Num 1\<rparr>, sd_darkColor = None, sd_attachmentName = None\<rparr>, slot_bone = \<lparr>bone_a = Num 1, bone_b = Num 0, bone_c = Num 0, bone_d = Num 1, bone_worldX = Num 0, bone_worldY = Num 0, bone_skeleton = \<lparr>skel_bones = [], skel_time = Num 7, skel_getAttachment = (\<lambda>i n. None)\<rparr>\<rparr>, slot_color = \<lparr>col_r = Num 0, col_g = Num 0, col_b = Num 0, col_a = Num 0\<rparr>, slot_darkColor = None, slot_attachment = Some (1::nat), slot_attachmentTime = Num 3, slot_attachmentState = 0, slot_deform = [Num 5, Num 6]\<rparr> (Some 2)) = Some 2 \<and>
   slot_attachmentTime (setAttachment \<lparr>slot_data = \<lparr>sd_index = 2, sd_name = ''s'', sd_color = \<lparr>col_r = Num 1, col_g = Num 1, col_b = Num 1, col_a = Num 1\<rparr>, sd_darkColor = None, sd_attachmentName = None\<rparr>, slot_bone = \<lparr>bone_a = Num 1, bone_b = Num 0, bone_c = Num 0, bone_d = Num 1, bone_worldX = Num 0, bone_worldY = Num 0, bone_skeleton = \<lparr>skel_bones = [], skel_time = Num 7, skel_getAttachment = (\<lambda>i n. None)\<rparr>\<rparr>, slot_color = \<lparr>col_r = Num 0, col_g = Num 0, col_b = Num 0, col_a = Num 0\<rparr>, slot_darkColor = None, slot_attachment = Some (1::nat), slot_attachmentTime = Num 3, slot_attachmentState = 0, slot_deform = [Num 5, Num 6]\<rparr> (Some 2)) = Num 7 \<and>
   slot_deform (setAttachment \<lparr>slot_data = \<lparr>sd_index = 2, sd_name = ''s'', sd_color = \<lparr>col_r = Num 1, col_g = Num 1, col_b = Num 1, col_a = Num 1\<rparr>, sd_darkColor = None, sd_attachmentName = None\<rparr>, slot_bone = \<lparr>bone_a = Num 1, bone_b = Num 0, bone_c = Num 0, bone_d = Num 1, bone_worldX = Num 0, bone_worldY = Num 0, bone_skeleton = \<lparr>skel_bones = [], skel_time = Num 7, skel_getAttachment = (\<lambda>i n. None)\<rparr>\<rparr>, slot_color = \<lparr>col_r = Num 0, col_g = Num 0, col_b = Num 0, col_a = Num 0\<rparr>, slot_darkColor = None, slot_attachment = Some (1::nat), slot_attachmentTime = Num 3, slot_attachmentState = 0, slot_deform = [Num 5, Num 6]\<rparr> (Some 2)) = [] \<and>
   slot_attachment (setAttachment \<lparr>slot_data = \<lparr>sd_index = 2, sd_name = ''s'', sd_color = \<lparr>col_r = Num 1, col_g = Num 1, col_b = Num 1, col_a = Num 1\<rparr>, sd_darkColor = None, sd_attachmentName = None\<rparr>, slot_bone = \<lparr>bone_a = Num 1, bone_b = Num 0, bone_c = Num 0, bone_d = Num 1, bone_worldX = Num 0, bone_worldY = Num 0, bone_skeleton = \<lparr>skel_bones = [], skel_time = Num 7, skel_getAttachment = (\<lambda>i n. None)\<rparr>\<rparr>, slot_color = \<lparr>col_r = Num 0, col_g = Num 0, col_b = Num 0, col_a = Num 0\<rparr>, slot_darkColor = None, slot_attachment = Some (1::nat), slot_attachmentTime = Num 3, slot_attachmentState = 0, slot_deform = [Num 5, Num 6]\<rparr> None) = None \<and>
   slot_attachmentTime (setAttachment \<lparr>slot_data = \<lparr>sd_index = 2, sd_name = ''s'', sd_color = \<lparr>col_r = Num 1, col_g = Num 1, col_b = Num 1, col_a = Num 1\<rparr>, sd_darkColor = None, sd_attachmentName = None\<rparr>, slot_bone = \<lparr>bone_a = Num 1, bone_b = Num 0, bone_c = Num 0, bone_d = Num 1, bone_worldX = Num 0, bone_worldY = Num 0, bone_skeleton = \<lparr>skel_bones = [], skel_time = Num 7, skel_getAttachment = (\<lambda>i n. None)\<rparr>\<rparr>, slot_color = \<lparr>col_r = Num 0, col_g = Num 0, col_b = Num 0, col_a = Num 0\<rparr>, slot_darkColor = None, slot_attachment = Some (1::nat), slot_attachmentTime = Num 3, slot_attachmentState = 0, slot_deform = [Num 5, Num 6]\<rparr> None) = Num 7 \<and>
   slot_deform (setAttachment \<lparr>slot_data = \<lparr>sd_index = 2, sd_name = ''s'', sd_color = \<lparr>col_r = Num 1, col_g = Num 1, col_b = Num 1, col_a = Num 1\<rparr>, sd_darkColor = None, sd_attachmentName = None\<rparr>, slot_bone = \<lparr>bone_a = Num 1, bone_b = Num 0, bone_c = Num 0, bone_d = Num 1, bone_worldX = Num 0, bone_worldY = Num 0, bone_skeleton = \<lparr>skel_bones = [], skel_time = Num 7, skel_getAttachment = (\<lambda>i n. None)\<rparr>\<rparr>, slot_color = \<lparr>col_r = Num 0, col_g = Num 0, col_b = Num 0, col_a = Num 0\<rparr>, slot_darkColor = None, slot_attachment = Some (1::nat), slot_attachmentTime = Num 3, slot_attachmentState = 0, slot_deform = [Num 5, Num 6]\<rparr> None) = []"
  using setAttachment_identity[of "\<lparr>slot_data = \<lparr>sd_index = 2, sd_name = ''s'', sd_color = \<lparr>col_r = Num 1, col_g = Num 1, col_b = Num 1, col_a = Num 1\<rparr>, sd_darkColor = None, sd_attachmentName = None\<rparr>, slot_bone = \<lparr>bone_a = Num 1, bone_b = Num 0, bone_c = Num 0, bone_d = Num 1, bone_worldX = Num 0, bone_worldY = Num 0, bone_skeleton = \<lparr>skel_bones = [], skel_time = Num 7, skel_getAttachment = (\<lambda>i n. None)\<rparr>\<rparr>, slot_color = \<lparr>col_r = Num 0, col_g = Num 0, col_b = Num 0, col_a = Num 0\<rparr>, slot_darkColor = None, slot_attachment = Some (1::nat), slot_attachmentTime = Num 3, slot_attachmentState = 0, slot_deform = [Num 5, Num 6]\<rparr>" "Some 1"]
    setAttachment_identity[of "\<lparr>slot_data = \<lparr>sd_index = 2, sd_name = ''s'', sd_color = \<lparr>col_r = Num 1, col_g = Num 1, col_b = Num 1, col_a = Num 1\<rparr>, sd_darkColor = None, sd_attachmentName = None\<rparr>, slot_bone = \<lparr>bone_a = Num 1, bone_b = Num 0, bone_c = Num 0, bone_d = Num 1, bone_worldX = Num 0, bone_worldY = Num 0, bone_skeleton = \<lparr>skel_bones = [], skel_time = Num 7, skel_getAttachment = (\<lambda>i n. None)\<rparr>\<rparr>, slot_color = \<lparr>col_r = Num 0, col_g = Num 0, col_b = Num 0, col_a = Num 0\<rparr>, slot_darkColor = None, slot_attachment = Some (1::nat), slot_attachmentTime = Num 3, slot_attachmentState = 0, slot_deform = [Num 5, Num 6]\<rparr>" "Some 2"]
    setAttachment_identity[of "\<lparr>slot_data = \<lparr>sd_index = 2, sd_name = ''s'', sd_color = \<lparr>col_r = Num 1, col_g = Num 1, col_b = Num 1, col_a = Num 1\<rparr>, sd_darkColor = None, sd_attachmentName = None\<rparr>, slot_bone = \<lparr>bone_a = Num 1, bone_b = Num 0, bone_c = Num 0, bone_d = Num 1, bone_worldX = Num 0, bone_worldY = Num 0, bone_skeleton = \<lparr>skel_bones = [], skel_time = Num 7, skel_getAttachment = (\<lambda>i n. None)\<rparr>\<rparr>, slot_color = \<lparr>col_r = Num 0, col_g = Num 0, col_b = Num 0, col_a = Num 0\<rparr>, slot_darkColor = None, slot_attachment = Some (1::nat), slot_attachmentTime = Num 3, slot_attachmentState = 0, slot_deform = [Num 5, Num 6]\<rparr>" None]
  by simp

lemma setToSetupPose_returns:
  "(slot_darkColor s \<noteq> None \<longrightarrow> sd_darkColor (slot_data s) \<noteq> None) \<Longrightarrow>
   fst (setToSetupPose s) = Inr ()"
  by (auto simp: setToSetupPose_def setFromColor_def Let_def split: option.splits sum.splits)

text \<open>
  Claim C9: what \<open>setToSetupPose\<close> does, for every slot. The colour becomes the
  blueprint's. If the slot has a dark colour and the blueprint has none, the call
  throws there (a \<open>TypeError\<close>) and nothing else has changed. Otherwise it returns;
  the dark colour, when the slot has one, is the blueprint's, and the attachment is
  what the skeleton's lookup by slot index and setup attachment name yields (null when
  the blueprint names no setup attachment). When that is an attachment \<open>X\<close>, the
  attachment time is the skeleton's time and the deform array is empty, also when
  \<open>X\<close> was the attachment before the call. When it is null, the attachment is
  cleared but the attachment time and the deform array are as before the call: they
  are not reset, unlike what the claim says and unlike what \<open>setAttachment(null)\<close>
  does. The blueprint, the bone and the attachment state are never changed.
\<close>

theorem setToSetupPose_effect:
  assumes "looked_up =
           (case sd_attachmentName (slot_data s) of
              None \<Rightarrow> None
            | Some n \<Rightarrow> skel_getAttachment (bone_skeleton (slot_bone s)) (sd_index (slot_data s)) n)"
    and "s' = snd (setToSetupPose s)"
  shows "(slot_darkColor s \<noteq> None \<and> sd_darkColor (slot_data s) = None \<longrightarrow>
            fst (setToSetupPose s) = Inl TypeError \<and>
            s' = s\<lparr>slot_color := sd_color (slot_data s)\<rparr>) \<and>
         (slot_darkColor s = None \<or> sd_darkColor (slot_data s) \<noteq> None \<longrightarrow>
            fst (setToSetupPose s) = Inr () \<and>
            slot_color s' = sd_color (slot_data s) \<and>
            slot_darkColor s' = (if slot_darkColor s = None then None else sd_darkColor (slot_data s)) \<and>
            slot_attachment s' = looked_up \<and>
            (looked_up \<noteq> None \<longrightarrow>
               slot_attachmentTime s' = skel_time (bone_skeleton (slot_bone s)) \<and> slot_deform s' = []) \<and>
            (looked_up = None \<longrightarrow>
               slot_attachmentTime s' = slot_attachmentTime s \<and> slot_deform s' = slot_deform s) \<and>
            slot_data s' = slot_data s \<and> slot_bone s' = slot_bone s \<and>
            slot_attachmentState s' = slot_attachmentState s)"
proof (intro conjI impI)
  assume "slot_darkColor s \<noteq> None \<and> sd_darkColor (slot_data s) = None"
  then show "fst (setToSetupPose s) = Inl TypeError" "s' = s\<lparr>slot_color := sd_color (slot_data s)\<rparr>"
    using assms
    by (auto simp: setToSetupPose_def setFromColor_def Let_def split: option.splits sum.splits)
next
  assume d: "slot_darkColor s = None \<or> sd_darkColor (slot_data s) \<noteq> None"
  show "fst (setToSetupPose s) = Inr ()"
    using d by (auto simp: setToSetupPose_def setFromColor_def Let_def split: option.splits sum.splits)
  show "slot_color s' = sd_color (slot_data s)"
    "slot_darkColor s' = (if slot_darkColor s = None then None else sd_darkColor (slot_data s))"
    "slot_attachment s' = looked_up"
    "slot_data s' = slot_data s" "slot_bone s' = slot_bone s"
    "slot_attachmentState s' = slot_attachmentState s"
    using d assms
    by (auto simp: setToSetupPose_def setFromColor_def setAttachment_def Let_def
        split: option.splits sum.splits)
  {
    assume "looked_up \<noteq> None"
    then show "slot_attachmentTime s' = skel_time (bone_skeleton (slot_bone s))" "slot_deform s' = []"
      using d assms
      by (auto simp: setToSetupPose_def setFromColor_def setAttachment_def Let_def
          split: option.splits sum.splits)
  }
  {
    assume "looked_up = None"
    then show "slot_attachmentTime s' = slot_attachmentTime s" "slot_deform s' = slot_deform s"
      using d assms
      by (auto simp: setToSetupPose_def setFromColor_def setAttachment_def Let_def
          split: option.splits sum.splits)
  }
qed

theorem setToSetupPose_effect_witness:
  "fst (setToSetupPose \<lparr>slot_data = \<lparr>sd_index = 2, sd_name = ''s'', sd_color = \<lparr>col_r = Num 1, col_g = Num 1, col_b = Num 1, col_a = Num 1\<rparr>, sd_darkColor = None, sd_attachmentName = Some ''head''\<rparr>, slot_bone = \<lparr>bone_a = Num 1, bone_b = Num 0, bone_c = Num 0, bone_d = Num 1, bone_worldX = Num 0, bone_worldY = Num 0, bone_skeleton = \<lparr>skel_bones = [], skel_time = Num 7, skel_getAttachment = (\<lambda>i n. if i = 2 \<and> n = ''head'' then Some 1 else None)\<rparr>\<rparr>, slot_color = \<lparr>col_r = Num 0, col_g = Num 0, col_b = Num 0, col_a = Num 0\<rparr>, slot_darkColor = None, slot_attachment = Some (1::nat), slot_attachmentTime = Num 3, slot_attachmentState = 0, slot_deform = [Num 5, Num 6]\<rparr>) = Inr () \<and>
   slot_attachment (snd (setToSetupPose \<lparr>slot_data = \<lparr>sd_index = 2, sd_name = ''s'', sd_color = \<lparr>col_r = Num 1, col_g = Num 1, col_b = Num 1, col_a = Num 1\<rparr>, sd_darkColor = None, sd_attachmentName = Some ''head''\<rparr>, slot_bone = \<lparr>bone_a = Num 1, bone_b = Num 0, bone_c = Num 0, bone_d = Num 1, bone_worldX = Num 0, bone_worldY = Num 0, bone_skeleton = \<lparr>skel_bones = [], skel_time = Num 7, skel_getAttachment = (\<lambda>i n. if i = 2 \<and> n = ''head'' then Some 1 else None)\<rparr>\<rparr>, slot_color = \<lparr>col_r = Num 0, col_g = Num 0, col_b = Num 0, col_a = Num 0\<rparr>, slot_darkColor = None, slot_attachment = Some (1::nat), slot_attachmentTime = Num 3, slot_attachmentState = 0, slot_deform = [Num 5, Num 6]\<rparr>)) = Some 1 \<and>
   slot_attachmentTime (snd (setToSetupPose \<lparr>slot_data = \<lparr>sd_index = 2, sd_name = ''s'', sd_color = \<lparr>col_r = Num 1, col_g = Num 1, col_b = Num 1, col_a = Num 1\<rparr>, sd_darkColor = None, sd_attachmentName = Some ''head''\<rparr>, slot_bone = \<lparr>bone_a = Num 1, bone_b = Num 0, bone_c = Num 0, bone_d = Num 1, bone_worldX = Num 0, bone_worldY = Num 0, bone_skeleton = \<lparr>skel_bones = [], skel_time = Num 7, skel_getAttachment = (\<lambda>i n. if i = 2 \<and> n = ''head'' then Some 1 else None)\<rparr>\<rparr>, slot_color = \<lparr>col_r = Num 0, col_g = Num 0, col_b = Num 0, col_a = Num 0\<rparr>, slot_darkColor = None, slot_attachment = Some (1::nat), slot_attachmentTime = Num 3, slot_attachmentState = 0, slot_deform = [Num 5, Num 6]\<rparr>)) = Num 7 \<and>
   slot_deform (snd (setToSetupPose \<lparr>slot_data = \<lparr>sd_index = 2, sd_name = ''s'', sd_color = \<lparr>col_r = Num 1, col_g = Num 1, col_b = Num 1, col_a = Num 1\<rparr>, sd_darkColor = None, sd_attachmentName = Some ''head''\<rparr>, slot_bone = \<lparr>bone_a = Num 1, bone_b = Num 0, bone_c = Num 0, bone_d = Num 1, bone_worldX = Num 0, bone_worldY = Num 0, bone_skeleton = \<lparr>skel_bones = [], skel_time = Num 7, skel_getAttachment = (\<lambda>i n. if i = 2 \<and> n = ''head'' then Some 1 else None)\<rparr>\<rparr>, slot_color = \<lparr>col_r = Num 0, col_g = Num 0, col_b = Num 0, col_a = Num 0\<rparr>, slot_darkColor = None, slot_attachment = Some (1::nat), slot_attachmentTime = Num 3, slot_attachmentState = 0, slot_deform = [Num 5, Num 6]\<rparr>)) = [] \<and>
   slot_color (snd (setToSetupPose \<lparr>slot_data = \<lparr>sd_index = 2, sd_name = ''s'', sd_color = \<lparr>col_r = Num 1, col_g = Num 1, col_b = Num 1, col_a = Num 1\<rparr>, sd_darkColor = None, sd_attachmentName = Some ''head''\<rparr>, slot_bone = \<lparr>bone_a = Num 1, bone_b = Num 0, bone_c = Num 0, bone_d = Num 1, bone_worldX = Num 0, bone_worldY = Num 0, bone_skeleton = \<lparr>skel_bones = [], skel_time = Num 7, skel_getAttachment = (\<lambda>i n. if i = 2 \<and> n = ''head'' then Some 1 else None)\<rparr>\<rparr>, slot_color = \<lparr>col_r = Num 0, col_g = Num 0, col_b = Num 0, col_a = Num 0\<rparr>, slot_darkColor = None, slot_attachment = Some (1::nat), slot_attachmentTime = Num 3, slot_attachmentState = 0, slot_deform = [Num 5, Num 6]\<rparr>)) = \<lparr>col_r = Num 1, col_g = Num 1, col_b = Num 1, col_a = Num 1\<rparr> \<and>
   slot_attachment (snd (setToSetupPose \<lparr>slot_data = \<lparr>sd_index = 2, sd_name = ''s'', sd_color = \<lparr>col_r = Num 1, col_g = Num 1, col_b = Num 1, col_a = Num 1\<rparr>, sd_darkColor = None, sd_attachmentName = Some ''tail''\<rparr>, slot_bone = \<lparr>bone_a = Num 1, bone_b = Num 0, bone_c = Num 0, bone_d = Num 1, bone_worldX = Num 0, bone_worldY = Num 0, bone_skeleton = \<lparr>skel_bones = [], skel_time = Num 7, skel_getAttachment = (\<lambda>i n. if i = 2 \<and> n = ''head'' then Some 1 else None)\<rparr>\<rparr>, slot_color = \<lparr>col_r = Num 0, col_g = Num 0, col_b = Num 0, col_a = Num 0\<rparr>, slot_darkColor = None, slot_attachment = Some (1::nat), slot_attachmentTime = Num 3, slot_attachmentState = 0, slot_deform = [Num 5, Num 6]\<rparr>)) = None \<and>
   slot_attachmentTime (snd (setToSetupPose \<lparr>slot_data = \<lparr>sd_index = 2, sd_name = ''s'', sd_color = \<lparr>col_r = Num 1, col_g = Num 1, col_b = Num 1, col_a = Num 1\<rparr>, sd_darkColor = None, sd_attachmentName = Some ''tail''\<rparr>, slot_bone = \<lparr>bone_a = Num 1, bone_b = Num 0, bone_c = Num 0, bone_d = Num 1, bone_worldX = Num 0, bone_worldY = Num 0, bone_skeleton = \<lparr>skel_bones = [], skel_time = Num 7, skel_getAttachment = (\<lambda>i n. if i = 2 \<and> n = ''head'' then Some 1 else None)\<rparr>\<rparr>, slot_color = \<lparr>col_r = Num 0, col_g = Num 0, col_b = Num 0, col_a = Num 0\<rparr>, slot_darkColor = None, slot_attachment = Some (1::nat), slot_attachmentTime = Num 3, slot_attachmentState = 0, slot_deform = [Num 5, Num 6]\<rparr>)) = Num 3 \<and>
   slot_deform (snd (setToSetupPose \<lparr>slot_data = \<lparr>sd_index = 2, sd_name = ''s'', sd_color = \<lparr>col_r = Num 1, col_g = Num 1, col_b = Num 1, col_a = Num 1\<rparr>, sd_darkColor = None, sd_attachmentName = Some ''tail''\<rparr>, slot_bone = \<lparr>bone_a = Num 1, bone_b = Num 0, bone_c = Num 0, bone_d = Num 1, bone_worldX = Num 0, bone_worldY = Num 0, bone_skeleton = \<lparr>skel_bones = [], skel_time = Num 7, skel_getAttachment = (\<lambda>i n. if i = 2 \<and> n = ''head'' then Some 1 else None)\<rparr>\<rparr>, slot_color = \<lparr>col_r = Num 0, col_g = Num 0, col_b = Num 0, col_a = Num 0\<rparr>, slot_darkColor = None, slot_attachment = Some (1::nat), slot_attachmentTime = Num 3, slot_attachmentState = 0, slot_deform = [Num 5, Num 6]\<rparr>)) = [Num 5, Num 6] \<and>
   fst (setToSetupPose \<lparr>slot_data = \<lparr>sd_index = 2, sd_name = ''s'', sd_color = \<lparr>col_r = Num 1, col_g = Num 1, col_b = Num 1, col_a = Num 1\<rparr>, sd_darkColor = None, sd_attachmentName = Some ''head''\<rparr>, slot_bone = \<lparr>bone_a = Num 1, bone_b = Num 0, bone_c = Num 0, bone_d = Num 1, bone_worldX = Num 0, bone_worldY = Num 0, bone_skeleton = \<lparr>skel_bones = [], skel_time = Num 7, skel_getAttachment = (\<lambda>i n. if i = 2 \<and> n = ''head'' then Some 1 else None)\<rparr>\<rparr>, slot_color = \<lparr>col_r = Num 0, col_g = Num 0, col_b = Num 0, col_a = Num 0\<rparr>, slot_darkColor = Some \<lparr>col_r = Num 0, col_g = Num 0, col_b = Num 0, col_a = Num 1\<rparr>, slot_attachment = Some (1::nat), slot_attachmentTime = Num 3, slot_attachmentState = 0, slot_deform = [Num 5, Num 6]\<rparr>) = Inl TypeError \<and>
   slot_attachment (snd (setToSetupPose \<lparr>slot_data = \<lparr>sd_index = 2, sd_name = ''s'', sd_color = \<lparr>col_r = Num 1, col_g = Num 1, col_b = Num 1, col_a = Num 1\<rparr>, sd_darkColor = None, sd_attachmentName = Some ''head''\<rparr>, slot_bone = \<lparr>bone_a = Num 1, bone_b = Num 0, bone_c = Num 0, bone_d = Num 1, bone_worldX = Num 0, bone_worldY = Num 0, bone_skeleton = \<lparr>skel_bones = [], skel_time = Num 7, skel_getAttachment = (\<lambda>i n. if i = 2 \<and> n = ''head'' then Some 1 else None)\<rparr>\<rparr>, slot_color = \<lparr>col_r = Num 0, col_g = Num 0, col_b = Num 0, col_a = Num 0\<rparr>, slot_darkColor = Some \<lparr>col_r = Num 0, col_g = Num 0, col_b = Num 0, col_a = Num 1\<rparr>, slot_attachment = Some (1::nat), slot_attachmentTime = Num 3, slot_attachmentState = 0, slot_deform = [Num 5, Num 6]\<rparr>)) = Some 1 \<and>
   slot_color (snd (setToSetupPose \<lparr>slot_data = \<lparr>sd_index = 2, sd_name = ''s'', sd_color = \<lparr>col_r = Num 1, col_g = Num 1, col_b = Num 1, col_a = Num 1\<rparr>, sd_darkColor = None, sd_attachmentName = Some ''head''\<rparr>, slot_bone = \<lparr>bone_a = Num 1, bone_b = Num 0, bone_c = Num 0, bone_d = Num 1, bone_worldX = Num 0, bone_worldY = Num 0, bone_skeleton = \<lparr>skel_bones = [], skel_time = Num 7, skel_getAttachment = (\<lambda>i n. if i = 2 \<and> n = ''head'' then Some 1 else None)\<rparr>\<rparr>, slot_color = \<lparr>col_r = Num 0, col_g = Num 0, col_b = Num 0, col_a = Num 0\<rparr>, slot_darkColor = Some \<lparr>col_r = Num 0, col_g = Num 0, col_b = Num 0, col_a = Num 1\<rparr>, slot_attachment = Some (1::nat), slot_attachmentTime = Num 3, slot_attachmentState = 0, slot_deform = [Num 5, Num 6]\<rparr>)) = \<lparr>col_r = Num 1, col_g = Num 1, col_b = Num 1, col_a = Num 1\<rparr>"
  using setToSetupPose_effect[where s = "\<lparr>slot_data = \<lparr>sd_index = 2, sd_name = ''s'', sd_color = \<lparr>col_r = Num 1, col_g = Num 1, col_b = Num 1, col_a = Num 1\<rparr>, sd_darkColor = None, sd_attachmentName = Some ''head''\<rparr>, slot_bone = \<lparr>bone_a = Num 1, bone_b = Num 0, bone_c = Num 0, bone_d = Num 1, bone_worldX = Num 0, bone_worldY = Num 0, bone_skeleton = \<lparr>skel_bones = [], skel_time = Num 7, skel_getAttachment = (\<lambda>i n. if i = 2 \<and> n = ''head'' then Some 1 else None)\<rparr>\<rparr>, slot_color = \<lparr>col_r = Num 0, col_g = Num 0, col_b = Num 0, col_a = Num 0\<rparr>, slot_darkColor = None, slot_attachment = Some (1::nat), slot_attachmentTime = Num 3, slot_attachmentState = 0, slot_deform = [Num 5, Num 6]\<rparr>" and looked_up = "Some 1" and s' = "snd (setToSetupPose \<lparr>slot_data = \<lparr>sd_index = 2, sd_name = ''s'', sd_color = \<lparr>col_r = Num 1, col_g = Num 1, col_b = Num 1, col_a = Num 1\<rparr>, sd_darkColor = None, sd_attachmentName = Some ''head''\<rparr>, slot_bone = \<lparr>bone_a = Num 1, bone_b = Num 0, bone_c = Num 0, bone_d = Num 1, bone_worldX = Num 0, bone_worldY = Num 0, bone_skeleton = \<lparr>skel_bones = [], skel_time = Num 7, skel_getAttachment = (\<lambda>i n. if i = 2 \<and> n = ''head'' then Some 1 else None)\<rparr>\<rparr>, slot_color = \<lparr>col_r = Num 0, col_g = Num 0, col_b = Num 0, col_a = Num 0\<rparr>, slot_darkColor = None, slot_attachment = Some (1::nat), slot_attachmentTime = Num 3, slot_attachmentState = 0, slot_deform = [Num 5, Num 6]\<rparr>)"]
    setToSetupPose_effect[where s = "\<lparr>slot_data = \<lparr>sd_index = 2, sd_name = ''s'', sd_color = \<lparr>col_r = Num 1, col_g = Num 1, col_b = Num 1, col_a = Num 1\<rparr>, sd_darkColor = None, sd_attachmentName = Some ''tail''\<rparr>, slot_bone = \<lparr>bone_a = Num 1, bone_b = Num 0, bone_c = Num 0, bone_d = Num 1, bone_worldX = Num 0, bone_worldY = Num 0, bone_skeleton = \<lparr>skel_bones = [], skel_time = Num 7, skel_getAttachment = (\<lambda>i n. if i = 2 \<and> n = ''head'' then Some 1 else None)\<rparr>\<rparr>, slot_color = \<lparr>col_r = Num 0, col_g = Num 0, col_b = Num 0, col_a = Num 0\<rparr>, slot_darkColor = None, slot_attachment = Some (1::nat), slot_attachmentTime = Num 3, slot_attachmentState = 0, slot_deform = [Num 5, Num 6]\<rparr>" and looked_up = None and s' = "snd (setToSetupPose \<lparr>slot_data = \<lparr>sd_index = 2, sd_name = ''s'', sd_color = \<lparr>col_r = Num 1, col_g = Num 1, col_b = Num 1, col_a = Num 1\<rparr>, sd_darkColor = None, sd_attachmentName = Some ''tail''\<rparr>, slot_bone = \<lparr>bone_a = Num 1, bone_b = Num 0, bone_c = Num 0, bone_d = Num 1, bone_worldX = Num 0, bone_worldY = Num 0, bone_skeleton = \<lparr>skel_bones = [], skel_time = Num 7, skel_getAttachment = (\<lambda>i n. if i = 2 \<and> n = ''head'' then Some 1 else None)\<rparr>\<rparr>, slot_color = \<lparr>col_r = Num 0, col_g = Num 0, col_b = Num 0, col_a = Num 0\<rparr>, slot_darkColor = None, slot_attachment = Some (1::nat), slot_attachmentTime = Num 3, slot_attachmentState = 0, slot_deform = [Num 5, Num 6]\<rparr>)"]
    setToSetupPose_effect[where s = "\<lparr>slot_data = \<lparr>sd_index = 2, sd_name = ''s'', sd_color = \<lparr>col_r = Num 1, col_g = Num 1, col_b = Num 1, col_a = Num 1\<rparr>, sd_darkColor = None, sd_attachmentName = Some ''head''\<rparr>, slot_bone = \<lparr>bone_a = Num 1, bone_b = Num 0, bone_c = Num 0, bone_d = Num 1, bone_worldX = Num 0, bone_worldY = Num 0, bone_skeleton = \<lparr>skel_bones = [], skel_time = Num 7, skel_getAttachment = (\<lambda>i n. if i = 2 \<and> n = ''head'' then Some 1 else None)\<rparr>\<rparr>, slot_color = \<lparr>col_r = Num 0, col_g = Num 0, col_b = Num 0, col_a = Num 0\<rparr>, slot_darkColor = Some \<lparr>col_r = Num 0, col_g = Num 0, col_b = Num 0, col_a = Num 1\<rparr>, slot_attachment = Some (1::nat), slot_attachmentTime = Num 3, slot_attachmentState = 0, slot_deform = [Num 5, Num 6]\<rparr>" and looked_up = "Some 1" and s' = "snd (setToSetupPose \<lparr>slot_data = \<lparr>sd_index = 2, sd_name = ''s'', sd_color = \<lparr>col_r = Num 1, col_g = Num 1, col_b = Num 1, col_a = Num 1\<rparr>, sd_darkColor = None, sd_attachmentName = Some ''head''\<rparr>, slot_bone = \<lparr>bone_a = Num 1, bone_b = Num 0, bone_c = Num 0, bone_d = Num 1, bone_worldX = Num 0, bone_worldY = Num 0, bone_skeleton = \<lparr>skel_bones = [], skel_time = Num 7, skel_getAttachment = (\<lambda>i n. if i = 2 \<and> n = ''head'' then Some 1 else None)\<rparr>\<rparr>, slot_color = \<lparr>col_r = Num 0, col_g = Num 0, col_b = Num 0, col_a = Num 0\<rparr>, slot_darkColor = Some \<lparr>col_r = Num 0, col_g = Num 0, col_b = Num 0, col_a = Num 1\<rparr>, slot_attachment = Some (1::nat), slot_attachmentTime = Num 3, slot_attachmentState = 0, slot_deform = [Num 5, Num 6]\<rparr>)"]
  by simp

text \<open>
  The failing run: a slot whose blueprint names no setup attachment, with an
  attachment set at time 3, a deform array of two values and the skeleton's time at 7.
  \<open>setToSetupPose\<close> clears the attachment and leaves the deform array and the stamp:
  \<open>getAttachmentTime\<close> is 4 after the call. Clearing the attachment of the same slot
  by \<open>setAttachment(null)\<close> empties the deform array and gives 0.
\<close>

theorem setToSetupPose_no_reset_counterexample:
  "fst (setToSetupPose \<lparr>slot_data = \<lparr>sd_index = 2, sd_name = ''s'', sd_color = \<lparr>col_r = Num 1, col_g = Num 1, col_b = Num 1, col_a = Num 1\<rparr>, sd_darkColor = None, sd_attachmentName = None\<rparr>, slot_bone = \<lparr>bone_a = Num 1, bone_b = Num 0, bone_c = Num 0, bone_d = Num 1, bone_worldX = Num 0, bone_worldY = Num 0, bone_skeleton = \<lparr>skel_bones = [], skel_time = Num 7, skel_getAttachment = (\<lambda>i n. if i = 2 \<and> n = ''head'' then Some 1 else None)\<rparr>\<rparr>, slot_color = \<lparr>col_r = Num 0, col_g = Num 0, col_b = Num 0, col_a = Num 0\<rparr>, slot_darkColor = None, slot_attachment = Some (1::nat), slot_attachmentTime = Num 3, slot_attachmentState = 0, slot_deform = [Num 5, Num 6]\<rparr>) = Inr () \<and>
   slot_attachment (snd (setToSetupPose \<lparr>slot_data = \<lparr>sd_index = 2, sd_name = ''s'', sd_color = \<lparr>col_r = Num 1, col_g = Num 1, col_b = Num 1, col_a = Num 1\<rparr>, sd_darkColor = None, sd_attachmentName = None\<rparr>, slot_bone = \<lparr>bone_a = Num 1, bone_b = Num 0, bone_c = Num 0, bone_d = Num 1, bone_worldX = Num 0, bone_worldY = Num 0, bone_skeleton = \<lparr>skel_bones = [], skel_time = Num 7, skel_getAttachment = (\<lambda>i n. if i = 2 \<and> n = ''head'' then Some 1 else None)\<rparr>\<rparr>, slot_color = \<lparr>col_r = Num 0, col_g = Num 0, col_b = Num 0, col_a = Num 0\<rparr>, slot_darkColor = None, slot_attachment = Some (1::nat), slot_attachmentTime = Num 3, slot_attachmentState = 0, slot_deform = [Num 5, Num 6]\<rparr>)) = None \<and>
   slot_deform (snd (setToSetupPose \<lparr>slot_data = \<lparr>sd_index = 2, sd_name = ''s'', sd_color = \<lparr>col_r = Num 1, col_g = Num 1, col_b = Num 1, col_a = Num 1\<rparr>, sd_darkColor = None, sd_attachmentName = None\<rparr>, slot_bone = \<lparr>bone_a = Num 1, bone_b = Num 0, bone_c = Num 0, bone_d = Num 1, bone_worldX = Num 0, bone_worldY = Num 0, bone_skeleton = \<lparr>skel_bones = [], skel_time = Num 7, skel_getAttachment = (\<lambda>i n. if i = 2 \<and> n = ''head'' then Some 1 else None)\<rparr>\<rparr>, slot_color = \<lparr>col_r = Num 0, col_g = Num 0, col_b = Num 0, col_a = Num 0\<rparr>, slot_darkColor = None, slot_attachment = Some (1::nat), slot_attachmentTime = Num 3, slot_attachmentState = 0, slot_deform = [Num 5, Num 6]\<rparr>)) = [Num 5, Num 6] \<and>
   slot_attachmentTime (snd (setToSetupPose \<lparr>slot_data = \<lparr>sd_index = 2, sd_name = ''s'', sd_color = \<lparr>col_r = Num 1, col_g = Num 1, col_b = Num 1, col_a = Num 1\<rparr>, sd_darkColor = None, sd_attachmentName = None\<rparr>, slot_bone = \<lparr>bone_a = Num 1, bone_b = Num 0, bone_c = Num 0, bone_d = Num 1, bone_worldX = Num 0, bone_worldY = Num 0, bone_skeleton = \<lparr>skel_bones = [], skel_time = Num 7, skel_getAttachment = (\<lambda>i n. if i = 2 \<and> n = ''head'' then Some 1 else None)\<rparr>\<rparr>, slot_color = \<lparr>col_r = Num 0, col_g = Num 0, col_b = Num 0, col_a = Num 0\<rparr>, slot_darkColor = None, slot_attachment = Some (1::nat), slot_attachmentTime = Num 3, slot_attachmentState = 0, slot_deform = [Num 5, Num 6]\<rparr>)) = Num 3 \<and>
   skel_time (bone_skeleton (slot_bone (snd (setToSetupPose \<lparr>slot_data = \<lparr>sd_index = 2, sd_name = ''s'', sd_color = \<lparr>col_r = Num 1, col_g = Num 1, col_b = Num 1, col_a = Num 1\<rparr>, sd_darkColor = None, sd_attachmentName = None\<rparr>, slot_bone = \<lparr>bone_a = Num 1, bone_b = Num 0, bone_c = Num 0, bone_d = Num 1, bone_worldX = Num 0, bone_worldY = Num 0, bone_skeleton = \<lparr>skel_bones = [], skel_time = Num 7, skel_getAttachment = (\<lambda>i n. if i = 2 \<and> n = ''head'' then Some 1 else None)\<rparr>\<rparr>, slot_color = \<lparr>col_r = Num 0, col_g = Num 0, col_b = Num 0, col_a = Num 0\<rparr>, slot_darkColor = None, slot_attachment = Some (1::nat), slot_attachmentTime = Num 3, slot_attachmentState = 0, slot_deform = [Num 5, Num 6]\<rparr>)))) = Num 7 \<and>
   getAttachmentTime (snd (setToSetupPose \<lparr>slot_data = \<lparr>sd_index = 2, sd_name = ''s'', sd_color = \<lparr>col_r = Num 1, col_g = Num 1, col_b = Num 1, col_a = Num 1\<rparr>, sd_darkColor = None, sd_attachmentName = None\<rparr>, slot_bone = \<lparr>bone_a = Num 1, bone_b = Num 0, bone_c = Num 0, bone_d = Num 1, bone_worldX = Num 0, bone_worldY = Num 0, bone_skeleton = \<lparr>skel_bones = [], skel_time = Num 7, skel_getAttachment = (\<lambda>i n. if i = 2 \<and> n = ''head'' then Some 1 else None)\<rparr>\<rparr>, slot_color = \<lparr>col_r = Num 0, col_g = Num 0, col_b = Num 0, col_a = Num 0\<rparr>, slot_darkColor = None, slot_attachment = Some (1::nat), slot_attachmentTime = Num 3, slot_attachmentState = 0, slot_deform = [Num 5, Num 6]\<rparr>)) = Num 4 \<and>
   slot_deform (setAttachment \<lparr>slot_data = \<lparr>sd_index = 2, sd_name = ''s'', sd_color = \<lparr>col_r = Num 1, col_g = Num 1, col_b = Num 1, col_a = Num 1\<rparr>, sd_darkColor = None, sd_attachmentName = None\<rparr>, slot_bone = \<lparr>bone_a = Num 1, bone_b = Num 0, bone_c = Num 0, bone_d = Num 1, bone_worldX = Num 0, bone_worldY = Num 0, bone_skeleton = \<lparr>skel_bones = [], skel_time = Num 7, skel_getAttachment = (\<lambda>i n. if i = 2 \<and> n = ''head'' then Some 1 else None)\<rparr>\<rparr>, slot_color = \<lparr>col_r = Num 0, col_g = Num 0, col_b = Num 0, col_a = Num 0\<rparr>, slot_darkColor = None, slot_attachment = Some (1::nat), slot_attachmentTime = Num 3, slot_attachmentState = 0, slot_deform = [Num 5, Num 6]\<rparr> None) = [] \<and>
   getAttachmentTime (setAttachment \<lparr>slot_data = \<lparr>sd_index = 2, sd_name = ''s'', sd_color = \<lparr>col_r = Num 1, col_g = Num 1, col_b = Num 1, col_a = Num 1\<rparr>, sd_darkColor = None, sd_attachmentName = None\<rparr>, slot_bone = \<lparr>bone_a = Num 1, bone_b = Num 0, bone_c = Num 0, bone_d = Num 1, bone_worldX = Num 0, bone_worldY = Num 0, bone_skeleton = \<lparr>skel_bones = [], skel_time = Num 7, skel_getAttachment = (\<lambda>i n. if i = 2 \<and> n = ''head'' then Some 1 else None)\<rparr>\<rparr>, slot_color = \<lparr>col_r = Num 0, col_g = Num 0, col_b = Num 0, col_a = Num 0\<rparr>, slot_darkColor = None, slot_attachment = Some (1::nat), slot_attachmentTime = Num 3, slot_attachmentState = 0, slot_deform = [Num 5, Num 6]\<rparr> None) = Num 0"
  by (simp add: setToSetupPose_def setFromColor_def setAttachment_def getAttachmentTime_def)

section \<open>SkeletonData lookups\<close>

lemma find_loop_first:
  "first_named name_of items name i \<Longrightarrow> find_loop name_of items name = Some (items ! i)"
proof (induction items arbitrary: i)
  case Nil
  then show ?case by (simp add: first_named_def)
next
  case (Cons x xs)
  show ?case
  proof (cases i)
    case 0
    then show ?thesis using Cons.prems by (simp add: first_named_def)
  next
    case (Suc k)
    have "name_of x \<noteq> name" using Cons.prems Suc by (auto simp: first_named_def)
    moreover have "first_named name_of xs name k"
      using Cons.prems Suc by (auto simp: first_named_def)
    ultimately show ?thesis using Cons.IH[of k] Suc by simp
  qed
qed

lemma find_loop_none:
  "(\<forall>i<length items. name_of (items ! i) \<noteq> name) \<Longrightarrow> find_loop name_of items name = None"
proof (induction items)
  case Nil
  then show ?case by simp
next
  case (Cons x xs)
  have "name_of x \<noteq> name" using Cons.prems by auto
  moreover have "\<forall>i<length xs. name_of (xs ! i) \<noteq> name" using Cons.prems by auto
  ultimately show ?case using Cons.IH by simp
qed

lemma find_index_loop_first:
  "first_named name_of items name i \<Longrightarrow> find_index_loop name_of items k name = k + int i"
proof (induction items arbitrary: i k)
  case Nil
  then show ?case by (simp add: first_named_def)
next
  case (Cons x xs)
  show ?case
  proof (cases i)
    case 0
    then show ?thesis using Cons.prems by (simp add: first_named_def)
  next
    case (Suc m)
    have "name_of x \<noteq> name" using Cons.prems Suc by (auto simp: first_named_def)
    moreover have "first_named name_of xs name m"
      using Cons.prems Suc by (auto simp: first_named_def)
    ultimately show ?thesis using Cons.IH[of m "k + 1"] Suc by simp
  qed
qed

lemma find_index_loop_none:
  "(\<forall>i<length items. name_of (items ! i) \<noteq> name) \<Longrightarrow> find_index_loop name_of items k name = - 1"
proof (induction items arbitrary: k)
  case Nil
  then show ?case by simp
next
  case (Cons x xs)
  have "name_of x \<noteq> name" using Cons.prems by auto
  moreover have "\<forall>i<length xs. name_of (xs ! i) \<noteq> name" using Cons.prems by auto
  ultimately show ?case using Cons.IH by simp
qed

lemma finds_by_nameI:
  "(\<And>n. f n = (case n of None \<Rightarrow> Inl (Error msg)
                | Some name \<Rightarrow> Inr (find_loop name_of items name))) \<Longrightarrow>
   finds_by_name f name_of items msg"
  unfolding finds_by_name_def by (simp add: find_loop_first find_loop_none)

lemma finds_index_by_nameI:
  "(\<And>n. g n = (case n of None \<Rightarrow> Inl (Error msg)
                | Some name \<Rightarrow> Inr (find_index_loop name_of items 0 name))) \<Longrightarrow>
   finds_index_by_name g name_of items msg"
  unfolding finds_index_by_name_def by (simp add: find_index_loop_first find_index_loop_none)

text \<open>
  Claim C6. Each of the eleven lookups of \<open>SkeletonData\<close> throws on a null name; on
  a name it returns the first element of its list with that name (the index
  variants: its index), and null (the index variants: -1) when the list has no
  element with that name. It throws in no other case.
\<close>

theorem SkeletonData_lookups:
  "finds_by_name (findBone d) bd_name (skd_bones d) ''boneName cannot be null.'' \<and>
   finds_index_by_name (findBoneIndex d) bd_name (skd_bones d) ''boneName cannot be null.'' \<and>
   finds_by_name (findSlot d) sd_name (skd_slots d) ''slotName cannot be null.'' \<and>
   finds_index_by_name (findSlotIndex d) sd_name (skd_slots d) ''slotName cannot be null.'' \<and>
   finds_by_name (findSkin d) skin_name (skd_skins d) ''skinName cannot be null.'' \<and>
   finds_by_name (findEvent d) ed_name (skd_events d) ''eventDataName cannot be null.'' \<and>
   finds_by_name (findAnimation d) anim_name (skd_animations d) ''animationName cannot be null.'' \<and>
   finds_by_name (findIkConstraint d) cd_name (skd_ikConstraints d)
     ''constraintName cannot be null.'' \<and>
   finds_by_name (findTransformConstraint d) cd_name (skd_transformConstraints d)
     ''constraintName cannot be null.'' \<and>
   finds_by_name (findPathConstraint d) cd_name (skd_pathConstraints d)
     ''constraintName cannot be null.'' \<and>
   finds_index_by_name (findPathConstraintIndex d) cd_name (skd_pathConstraints d)
     ''pathConstraintName cannot be null.''"
proof (intro conjI)
  show "finds_by_name (findBone d) bd_name (skd_bones d) ''boneName cannot be null.''"
    by (rule finds_by_nameI) (simp add: findBone_def)
  show "finds_index_by_name (findBoneIndex d) bd_name (skd_bones d) ''boneName cannot be null.''"
    by (rule finds_index_by_nameI) (simp add: findBoneIndex_def)
  show "finds_by_name (findSlot d) sd_name (skd_slots d) ''slotName cannot be null.''"
    by (rule finds_by_nameI) (simp add: findSlot_def)
  show "finds_index_by_name (findSlotIndex d) sd_name (skd_slots d) ''slotName cannot be null.''"
    by (rule finds_index_by_nameI) (simp add: findSlotIndex_def)
  show "finds_by_name (findSkin d) skin_name (skd_skins d) ''skinName cannot be null.''"
    by (rule finds_by_nameI) (simp add: findSkin_def)
  show "finds_by_name (findEvent d) ed_name (skd_events d) ''eventDataName cannot be null.''"
    by (rule finds_by_nameI) (simp add: findEvent_def)
  show "finds_by_name (findAnimation d) anim_name (skd_animations d) ''animationName cannot be null.''"
    by (rule finds_by_nameI) (simp add: findAnimation_def)
  show "finds_by_name (findIkConstraint d) cd_name (skd_ikConstraints d)
     ''constraintName cannot be null.''"
    by (rule finds_by_nameI) (simp add: findIkConstraint_def)
  show "finds_by_name (findTransformConstraint d) cd_name (skd_transformConstraints d)
     ''constraintName cannot be null.''"
    by (rule finds_by_nameI) (simp add: findTransformConstraint_def)
  show "finds_by_name (findPathConstraint d) cd_name (skd_pathConstraints d)
     ''constraintName cannot be null.''"
    by (rule finds_by_nameI) (simp add: findPathConstraint_def)
  show "finds_index_by_name (findPathConstraintIndex d) cd_name (skd_pathConstraints d)
     ''pathConstraintName cannot be null.''"
    by (rule finds_index_by_nameI) (simp add: findPathConstraintIndex_def)
qed
lemma finds_by_nameD1:
  "finds_by_name f name_of items msg \<Longrightarrow> first_named name_of items name i \<Longrightarrow>
   f (Some name) = Inr (Some (items ! i))"
  by (simp add: finds_by_name_def)

lemma finds_by_nameD2:
  "finds_by_name f name_of items msg \<Longrightarrow> \<forall>x\<in>set items. name_of x \<noteq> name \<Longrightarrow>
   f (Some name) = Inr None"
  by (simp add: finds_by_name_def all_set_conv_all_nth)

lemma finds_index_by_nameD1:
  "finds_index_by_name g name_of items msg \<Longrightarrow> first_named name_of items name i \<Longrightarrow>
   g (Some name) = Inr (int i)"
  by (simp add: finds_index_by_name_def)

lemma finds_index_by_nameD2:
  "finds_index_by_name g name_of items msg \<Longrightarrow> \<forall>x\<in>set items. name_of x \<noteq> name \<Longrightarrow>
   g (Some name) = Inr (- 1)"
  by (simp add: finds_index_by_name_def all_set_conv_all_nth)

theorem SkeletonData_lookups_witness:
  "(let d = \<lparr>skd_name = None, skd_bones = [\<lparr>bd_name = ''root'', bd_length = Num 1\<rparr>, \<lparr>bd_name = ''arm'', bd_length = Num 2\<rparr>, \<lparr>bd_name = ''arm'', bd_length = Num 3\<rparr>], skd_slots = [\<lparr>sd_index = 0, sd_name = ''body'', sd_color = \<lparr>col_r = Num 1, col_g = Num 1, col_b = Num 1, col_a = Num 1\<rparr>, sd_darkColor = None, sd_attachmentName = None\<rparr>, \<lparr>sd_index = 1, sd_name = ''hand'', sd_color = \<lparr>col_r = Num 1, col_g = Num 1, col_b = Num 1, col_a = Num 1\<rparr>, sd_darkColor = None, sd_attachmentName = None\<rparr>, \<lparr>sd_index = 2, sd_name = ''hand'', sd_color = \<lparr>col_r = Num 1, col_g = Num 1, col_b = Num 1, col_a = Num 1\<rparr>, sd_darkColor = None, sd_attachmentName = None\<rparr>], skd_skins = [\<lparr>skin_name = ''default''\<rparr>, \<lparr>skin_name = ''red''\<rparr>], skd_defaultSkin = None, skd_events = [\<lparr>ed_name = ''step'', ed_intValue = Num 1, ed_floatValue = Num 0, ed_stringValue = None, ed_audioPath = None, ed_volume = Num 1, ed_balance = Num 0\<rparr>, \<lparr>ed_name = ''step'', ed_intValue = Num 2, ed_floatValue = Num 0, ed_stringValue = None, ed_audioPath = None, ed_volume = Num 1, ed_balance = Num 0\<rparr>], skd_animations = [\<lparr>anim_name = ''idle'', anim_duration = Num 1\<rparr>, \<lparr>anim_name = ''walk'', anim_duration = Num 2\<rparr>, \<lparr>anim_name = ''walk'', anim_duration = Num 3\<rparr>], skd_ikConstraints = [\<lparr>cd_name = ''aim'', cd_order = 0, cd_skinRequired = False, ikd_bones = []\<rparr>, \<lparr>cd_name = ''aim'', cd_order = 1, cd_skinRequired = False, ikd_bones = []\<rparr>], skd_transformConstraints = [\<lparr>cd_name = ''follow'', cd_order = 0, cd_skinRequired = False, tcd_bones = []\<rparr>, \<lparr>cd_name = ''follow'', cd_order = 1, cd_skinRequired = False, tcd_bones = []\<rparr>], skd_pathConstraints = [\<lparr>cd_name = ''rail'', cd_order = 0, cd_skinRequired = False, pcd_bones = [], pcd_target = None, pcd_positionMode = PositionMode_Fixed, pcd_spacingMode = SpacingMode_Fixed, pcd_rotateMode = RotateMode_Chain, pcd_offsetRotation = Num 0, pcd_position = Num 0, pcd_spacing = Num 0, pcd_rotateMix = Num 0, pcd_translateMix = Num 0\<rparr>, \<lparr>cd_name = ''track'', cd_order = 1, cd_skinRequired = False, pcd_bones = [], pcd_target = None, pcd_positionMode = PositionMode_Fixed, pcd_spacingMode = SpacingMode_Fixed, pcd_rotateMode = RotateMode_Chain, pcd_offsetRotation = Num 0, pcd_position = Num 0, pcd_spacing = Num 0, pcd_rotateMix = Num 0, pcd_translateMix = Num 0\<rparr>, \<lparr>cd_name = ''track'', cd_order = 2, cd_skinRequired = False, pcd_bones = [], pcd_target = None, pcd_positionMode = PositionMode_Fixed, pcd_spacingMode = SpacingMode_Fixed, pcd_rotateMode = RotateMode_Chain, pcd_offsetRotation = Num 0, pcd_position = Num 0, pcd_spacing = Num 0, pcd_rotateMix = Num 0, pcd_translateMix = Num 0\<rparr>], skd_x = Num 0, skd_y = Num 0, skd_width = Num 0, skd_height = Num 0, skd_version = None, skd_hash = None, skd_fps = Num 0, skd_imagesPath = None, skd_audioPath = None\<rparr>
    in findBone d None = Inl (Error ''boneName cannot be null.'') \<and>
      findBone d (Some ''arm'') = Inr (Some \<lparr>bd_name = ''arm'', bd_length = Num 2\<rparr>) \<and>
      findBone d (Some ''nobody'') = Inr None \<and>
      findBoneIndex d (Some ''arm'') = Inr 1 \<and>
      findBoneIndex d (Some ''nobody'') = Inr (- 1) \<and>
      findSlot d (Some ''hand'') = Inr (Some \<lparr>sd_index = 1, sd_name = ''hand'', sd_color = \<lparr>col_r = Num 1, col_g = Num 1, col_b = Num 1, col_a = Num 1\<rparr>, sd_darkColor = None, sd_attachmentName = None\<rparr>) \<and>
      findSlot d (Some ''nobody'') = Inr None \<and>
      findSlotIndex d (Some ''hand'') = Inr 1 \<and>
      findSlotIndex d (Some ''nobody'') = Inr (- 1) \<and>
      findSkin d (Some ''red'') = Inr (Some \<lparr>skin_name = ''red''\<rparr>) \<and>
      findSkin d (Some ''nobody'') = Inr None \<and>
      findEvent d (Some ''step'') = Inr (Some \<lparr>ed_name = ''step'', ed_intValue = Num 1, ed_floatValue = Num 0, ed_stringValue = None, ed_audioPath = None, ed_volume = Num 1, ed_balance = Num 0\<rparr>) \<and>
      findEvent d (Some ''nobody'') = Inr None \<and>
      findAnimation d (Some ''walk'') = Inr (Some \<lparr>anim_name = ''walk'', anim_duration = Num 2\<rparr>) \<and>
      findAnimation d (Some ''nobody'') = Inr None \<and>
      findIkConstraint d (Some ''aim'') = Inr (Some \<lparr>cd_name = ''aim'', cd_order = 0, cd_skinRequired = False, ikd_bones = []\<rparr>) \<and>
      findIkConstraint d (Some ''nobody'') = Inr None \<and>
      findTransformConstraint d (Some ''follow'') = Inr (Some \<lparr>cd_name = ''follow'', cd_order = 0, cd_skinRequired = False, tcd_bones = []\<rparr>) \<and>
      findTransformConstraint d (Some ''nobody'') = Inr None \<and>
      findPathConstraint d (Some ''track'') = Inr (Some \<lparr>cd_name = ''track'', cd_order = 1, cd_skinRequired = False, pcd_bones = [], pcd_target = None, pcd_positionMode = PositionMode_Fixed, pcd_spacingMode = SpacingMode_Fixed, pcd_rotateMode = RotateMode_Chain, pcd_offsetRotation = Num 0, pcd_position = Num 0, pcd_spacing = Num 0, pcd_rotateMix = Num 0, pcd_translateMix = Num 0\<rparr>) \<and>
      findPathConstraint d (Some ''nobody'') = Inr None \<and>
      findPathConstraintIndex d (Some ''track'') = Inr 1 \<and>
      findPathConstraintIndex d (Some ''nobody'') = Inr (- 1))"
proof -
  let ?d = "\<lparr>skd_name = None, skd_bones = [\<lparr>bd_name = ''root'', bd_length = Num 1\<rparr>, \<lparr>bd_name = ''arm'', bd_length = Num 2\<rparr>, \<lparr>bd_name = ''arm'', bd_length = Num 3\<rparr>], skd_slots = [\<lparr>sd_index = 0, sd_name = ''body'', sd_color = \<lparr>col_r = Num 1, col_g = Num 1, col_b = Num 1, col_a = Num 1\<rparr>, sd_darkColor = None, sd_attachmentName = None\<rparr>, \<lparr>sd_index = 1, sd_name = ''hand'', sd_color = \<lparr>col_r = Num 1, col_g = Num 1, col_b = Num 1, col_a = Num 1\<rparr>, sd_darkColor = None, sd_attachmentName = None\<rparr>, \<lparr>sd_index = 2, sd_name = ''hand'', sd_color = \<lparr>col_r = Num 1, col_g = Num 1, col_b = Num 1, col_a = Num 1\<rparr>, sd_darkColor = None, sd_attachmentName = None\<rparr>], skd_skins = [\<lparr>skin_name = ''default''\<rparr>, \<lparr>skin_name = ''red''\<rparr>], skd_defaultSkin = None, skd_events = [\<lparr>ed_name = ''step'', ed_intValue = Num 1, ed_floatValue = Num 0, ed_stringValue = None, ed_audioPath = None, ed_volume = Num 1, ed_balance = Num 0\<rparr>, \<lparr>ed_name = ''step'', ed_intValue = Num 2, ed_floatValue = Num 0, ed_stringValue = None, ed_audioPath = None, ed_volume = Num 1, ed_balance = Num 0\<rparr>], skd_animations = [\<lparr>anim_name = ''idle'', anim_duration = Num 1\<rparr>, \<lparr>anim_name = ''walk'', anim_duration = Num 2\<rparr>, \<lparr>anim_name = ''walk'', anim_duration = Num 3\<rparr>], skd_ikConstraints = [\<lparr>cd_name = ''aim'', cd_order = 0, cd_skinRequired = False, ikd_bones = []\<rparr>, \<lparr>cd_name = ''aim'', cd_order = 1, cd_skinRequired = False, ikd_bones = []\<rparr>], skd_transformConstraints = [\<lparr>cd_name = ''follow'', cd_order = 0, cd_skinRequired = False, tcd_bones = []\<rparr>, \<lparr>cd_name = ''follow'', cd_order = 1, cd_skinRequired = False, tcd_bones = []\<rparr>], skd_pathConstraints = [\<lparr>cd_name = ''rail'', cd_order = 0, cd_skinRequired = False, pcd_bones = [], pcd_target = None, pcd_positionMode = PositionMode_Fixed, pcd_spacingMode = SpacingMode_Fixed, pcd_rotateMode = RotateMode_Chain, pcd_offsetRotation = Num 0, pcd_position = Num 0, pcd_spacing = Num 0, pcd_rotateMix = Num 0, pcd_translateMix = Num 0\<rparr>, \<lparr>cd_name = ''track'', cd_order = 1, cd_skinRequired = False, pcd_bones = [], pcd_target = None, pcd_positionMode = PositionMode_Fixed, pcd_spacingMode = SpacingMode_Fixed, pcd_rotateMode = RotateMode_Chain, pcd_offsetRotation = Num 0, pcd_position = Num 0, pcd_spacing = Num 0, pcd_rotateMix = Num 0, pcd_translateMix = Num 0\<rparr>, \<lparr>cd_name = ''track'', cd_order = 2, cd_skinRequired = False, pcd_bones = [], pcd_target = None, pcd_positionMode = PositionMode_Fixed, pcd_spacingMode = SpacingMode_Fixed, pcd_rotateMode = RotateMode_Chain, pcd_offsetRotation = Num 0, pcd_position = Num 0, pcd_spacing = Num 0, pcd_rotateMix = Num 0, pcd_translateMix = Num 0\<rparr>], skd_x = Num 0, skd_y = Num 0, skd_width = Num 0, skd_height = Num 0, skd_version = None, skd_hash = None, skd_fps = Num 0, skd_imagesPath = None, skd_audioPath = None\<rparr>"
  note all = SkeletonData_lookups[of ?d]
  have z: "findBone ?d None = Inl (Error ''boneName cannot be null.'')"
    using all[THEN conjunct1] by (simp add: finds_by_name_def)
  have s0: "findBone ?d (Some ''arm'') = Inr (Some \<lparr>bd_name = ''arm'', bd_length = Num 2\<rparr>)"
    using finds_by_nameD1[OF all[THEN conjunct1], of "''arm''" 1] by (simp add: first_named_def)
  have n0: "findBone ?d (Some ''nobody'') = Inr None"
    using finds_by_nameD2[OF all[THEN conjunct1], of "''nobody''"] by simp
  have s1: "findBoneIndex ?d (Some ''arm'') = Inr 1"
    using finds_index_by_nameD1[OF all[THEN conjunct2, THEN conjunct1], of "''arm''" 1] by (simp add: first_named_def)
  have n1: "findBoneIndex ?d (Some ''nobody'') = Inr (- 1)"
    using finds_index_by_nameD2[OF all[THEN conjunct2, THEN conjunct1], of "''nobody''"] by simp
  have s2: "findSlot ?d (Some ''hand'') = Inr (Some \<lparr>sd_index = 1, sd_name = ''hand'', sd_color = \<lparr>col_r = Num 1, col_g = Num 1, col_b = Num 1, col_a = Num 1\<rparr>, sd_darkColor = None, sd_attachmentName = None\<rparr>)"
    using finds_by_nameD1[OF all[THEN conjunct2, THEN conjunct2, THEN conjunct1], of "''hand''" 1] by (simp add: first_named_def)
  have n2: "findSlot ?d (Some ''nobody'') = Inr None"
    using finds_by_nameD2[OF all[THEN conjunct2, THEN conjunct2, THEN conjunct1], of "''nobody''"] by simp
  have s3: "findSlotIndex ?d (Some ''hand'') = Inr 1"
    using finds_index_by_nameD1[OF all[THEN conjunct2, THEN conjunct2, THEN conjunct2, THEN conjunct1], of "''hand''" 1] by (simp add: first_named_def)
  have n3: "findSlotIndex ?d (Some ''nobody'') = Inr (- 1)"
    using finds_index_by_nameD2[OF all[THEN conjunct2, THEN conjunct2, THEN conjunct2, THEN conjunct1], of "''nobody''"] by simp
  have s4: "findSkin ?d (Some ''red'') = Inr (Some \<lparr>skin_name = ''red''\<rparr>)"
    using finds_by_nameD1[OF all[THEN conjunct2, THEN conjunct2, THEN conjunct2, THEN conjunct2, THEN conjunct1], of "''red''" 1] by (simp add: first_named_def)
  have n4: "findSkin ?d (Some ''nobody'') = Inr None"
    using finds_by_nameD2[OF all[THEN conjunct2, THEN conjunct2, THEN conjunct2, THEN conjunct2, THEN conjunct1], of "''nobody''"] by simp
  have s5: "findEvent ?d (Some ''step'') = Inr (Some \<lparr>ed_name = ''step'', ed_intValue = Num 1, ed_floatValue = Num 0, ed_stringValue = None, ed_audioPath = None, ed_volume = Num 1, ed_balance = Num 0\<rparr>)"
    using finds_by_nameD1[OF all[THEN conjunct2, THEN conjunct2, THEN conjunct2, THEN conjunct2, THEN conjunct2, THEN conjunct1], of "''step''" 0] by (simp add: first_named_def)
  have n5: "findEvent ?d (Some ''nobody'') = Inr None"
    using finds_by_nameD2[OF all[THEN conjunct2, THEN conjunct2, THEN conjunct2, THEN conjunct2, THEN conjunct2, THEN conjunct1], of "''nobody''"] by simp
  have s6: "findAnimation ?d (Some ''walk'') = Inr (Some \<lparr>anim_name = ''walk'', anim_duration = Num 2\<rparr>)"
    using finds_by_nameD1[OF all[THEN conjunct2, THEN conjunct2, THEN conjunct2, THEN conjunct2, THEN conjunct2, THEN conjunct2, THEN conjunct1], of "''walk''" 1] by (simp add: first_named_def)
  have n6: "findAnimation ?d (Some ''nobody'') = Inr None"
    using finds_by_nameD2[OF all[THEN conjunct2, THEN conjunct2, THEN conjunct2, THEN conjunct2, THEN conjunct2, THEN conjunct2, THEN conjunct1], of "''nobody''"] by simp
  have s7: "findIkConstraint ?d (Some ''aim'') = Inr (Some \<lparr>cd_name = ''aim'', cd_order = 0, cd_skinRequired = False, ikd_bones = []\<rparr>)"
    using finds_by_nameD1[OF all[THEN conjunct2, THEN conjunct2, THEN conjunct2, THEN conjunct2, THEN conjunct2, THEN conjunct2, THEN conjunct2, THEN conjunct1], of "''aim''" 0] by (simp add: first_named_def)
  have n7: "findIkConstraint ?d (Some ''nobody'') = Inr None"
    using finds_by_nameD2[OF all[THEN conjunct2, THEN conjunct2, THEN conjunct2, THEN conjunct2, THEN conjunct2, THEN conjunct2, THEN conjunct2, THEN conjunct1], of "''nobody''"] by simp
  have s8: "findTransformConstraint ?d (Some ''follow'') = Inr (Some \<lparr>cd_name = ''follow'', cd_order = 0, cd_skinRequired = False, tcd_bones = []\<rparr>)"
    using finds_by_nameD1[OF all[THEN conjunct2, THEN conjunct2, THEN conjunct2, THEN conjunct2, THEN conjunct2, THEN conjunct2, THEN conjunct2, THEN conjunct2, THEN conjunct1], of "''follow''" 0] by (simp add: first_named_def)
  have n8: "findTransformConstraint ?d (Some ''nobody'') = Inr None"
    using finds_by_nameD2[OF all[THEN conjunct2, THEN conjunct2, THEN conjunct2, THEN conjunct2, THEN conjunct2, THEN conjunct2, THEN conjunct2, THEN conjunct2, THEN conjunct1], of "''nobody''"] by simp
  have s9: "findPathConstraint ?d (Some ''track'') = Inr (Some \<lparr>cd_name = ''track'', cd_order = 1, cd_skinRequired = False, pcd_bones = [], pcd_target = None, pcd_positionMode = PositionMode_Fixed, pcd_spacingMode = SpacingMode_Fixed, pcd_rotateMode = RotateMode_Chain, pcd_offsetRotation = Num 0, pcd_position = Num 0, pcd_spacing = Num 0, pcd_rotateMix = Num 0, pcd_translateMix = Num 0\<rparr>)"
    using finds_by_nameD1[OF all[THEN conjunct2, THEN conjunct2, THEN conjunct2, THEN conjunct2, THEN conjunct2, THEN conjunct2, THEN conjunct2, THEN conjunct2, THEN conjunct2, THEN conjunct1], of "''track''" 1] by (simp add: first_named_def)
  have n9: "findPathConstraint ?d (Some ''nobody'') = Inr None"
    using finds_by_nameD2[OF all[THEN conjunct2, THEN conjunct2, THEN conjunct2, THEN conjunct2, THEN conjunct2, THEN conjunct2, THEN conjunct2, THEN conjunct2, THEN conjunct2, THEN conjunct1], of "''nobody''"] by simp
  have s10: "findPathConstraintIndex ?d (Some ''track'') = Inr 1"
    using finds_index_by_nameD1[OF all[THEN conjunct2, THEN conjunct2, THEN conjunct2, THEN conjunct2, THEN conjunct2, THEN conjunct2, THEN conjunct2, THEN conjunct2, THEN conjunct2, THEN conjunct2], of "''track''" 1] by (simp add: first_named_def)
  have n10: "findPathConstraintIndex ?d (Some ''nobody'') = Inr (- 1)"
    using finds_index_by_nameD2[OF all[THEN conjunct2, THEN conjunct2, THEN conjunct2, THEN conjunct2, THEN conjunct2, THEN conjunct2, THEN conjunct2, THEN conjunct2, THEN conjunct2, THEN conjunct2], of "''nobody''"] by simp
  show ?thesis
    unfolding Let_def
    by (intro conjI z s0 n0 s1 n1 s2 n2 s3 n3 s4 n4 s5 n5 s6 n6 s7 n7 s8 n8 s9 n9 s10 n10)
qed

section \<open>Arrays in the heap\<close>

lemma aget_aset: "aget (aset xs i x) p = (if p = i \<and> 0 \<le> i then x else aget xs p)"
proof -
  consider "i < 0" | "0 \<le> i" "i < int (length xs)" | "int (length xs) \<le> i" by linarith
  then show ?thesis
  proof cases
    case 1
    then show ?thesis by (simp add: aget_def aset_def)
  next
    case 2
    then show ?thesis by (simp add: aget_def aset_def nth_list_update nat_eq_iff)
  next
    case 3
    let ?ys = "xs @ replicate (nat i - length xs) NaN @ [x]"
    have l: "int (length ?ys) = i + 1" using 3 by simp
    have a: "aset xs i x = ?ys" using 3 by (simp add: aset_def)
    show ?thesis
    proof (cases "0 \<le> p \<and> p \<le> i")
      case False
      then show ?thesis using 3 l unfolding a aget_def by auto
    next
      case True
      then have p: "nat p < length ?ys" using 3 by auto
      show ?thesis
      proof (cases "p = i")
        case True
        then have "nat p = length xs + (nat i - length xs)" using 3 by simp
        then have "?ys ! nat p = x"
          by (metis append.assoc length_append length_replicate nth_append_length)
        then show ?thesis using True 3 l unfolding a aget_def by simp
      next
        case False
        show ?thesis
        proof (cases "p < int (length xs)")
          case True
          then have "nat p < length xs" using \<open>0 \<le> p \<and> p \<le> i\<close> by linarith
          then show ?thesis using True \<open>0 \<le> p \<and> p \<le> i\<close> False l unfolding a aget_def
            by (simp add: nth_append)
        next
          case F: False
          have "nat p - length xs < nat i - length xs"
            using F False \<open>0 \<le> p \<and> p \<le> i\<close> by linarith
          moreover have "\<not> nat p < length xs" using F \<open>0 \<le> p \<and> p \<le> i\<close> by linarith
          ultimately have "?ys ! nat p = NaN"
            by (simp add: nth_append)
          then show ?thesis using F False \<open>0 \<le> p \<and> p \<le> i\<close> l unfolding a aget_def by simp
        qed
      qed
    qed
  qed
qed

lemma h_aget_h_aset:
  "h_aget (h_aset h r i x) r' p =
     (if r' = r \<and> r < length (h_arrays h) \<and> p = i \<and> 0 \<le> i then x else h_aget h r' p)"
proof (cases "r' = r \<and> r < length (h_arrays h)")
  case True
  then show ?thesis by (simp add: h_aget_def h_aset_def array_at_def aget_aset)
next
  case False
  then show ?thesis by (auto simp: h_aget_def h_aset_def array_at_def)
qed

lemma h_aset_fields [simp]:
  "h_meshes (h_aset h r i x) = h_meshes h"
  "h_boxes (h_aset h r i x) = h_boxes h"
  "h_clips (h_aset h r i x) = h_clips h"
  "h_nextID (h_aset h r i x) = h_nextID h"
  "length (h_arrays (h_aset h r i x)) = length (h_arrays h)"
  by (simp_all add: h_aset_def)

lemma array_at_h_aset_other [simp]: "r' \<noteq> r \<Longrightarrow> array_at (h_aset h r i x) r' = array_at h r'"
  by (simp add: array_at_def h_aset_def)

lemma arrayCopy_fields [simp]:
  "h_meshes (arrayCopy h s i d j n) = h_meshes h"
  "h_boxes (arrayCopy h s i d j n) = h_boxes h"
  "h_clips (arrayCopy h s i d j n) = h_clips h"
  "h_nextID (arrayCopy h s i d j n) = h_nextID h"
  "length (h_arrays (arrayCopy h s i d j n)) = length (h_arrays h)"
  by (induction h s i d j n rule: arrayCopy.induct) simp_all

lemma arrayCopy_other [simp]: "r \<noteq> d \<Longrightarrow> array_at (arrayCopy h s i d j n) r = array_at h r"
  by (induction h s i d j n rule: arrayCopy.induct) simp_all

lemma arrayCopy_fill:
  "d \<noteq> s \<Longrightarrow> d < length (h_arrays h) \<Longrightarrow> array_at h s = src \<Longrightarrow>
   array_at h d = take k src @ rest \<Longrightarrow> length rest = m \<Longrightarrow> k + m = length src \<Longrightarrow>
   array_at (arrayCopy h s (int k) d (int k) m) d = src"
proof (induction m arbitrary: h k rest)
  case 0
  then show ?case by simp
next
  case (Suc m)
  let ?h = "h_aset h d (int k) (h_aget h s (int k))"
  have k: "k < length src" using Suc.prems by simp
  obtain y rest' where rest: "rest = y # rest'" using Suc.prems(5) by (cases rest) auto
  have "array_at ?h d = (take k src @ rest)[k := src ! k]"
    using Suc.prems k by (simp add: array_at_def h_aset_def h_aget_def aget_def aset_def)
  also have "\<dots> = take (Suc k) src @ rest'"
    using k rest by (simp add: list_update_append take_Suc_conv_app_nth)
  finally have d: "array_at ?h d = take (Suc k) src @ rest'" .
  have s: "array_at ?h s = src" using Suc.prems by simp
  have "array_at (arrayCopy ?h s (int (Suc k)) d (int (Suc k)) m) d = src"
    using Suc.prems rest by (intro Suc.IH[OF _ _ s d]) simp_all
  then show ?case by (simp add: add.commute)
qed

lemma arrayCopy_exact:
  assumes "d \<noteq> s" "d < length (h_arrays h)"
    and "length (h_arrays h ! d) = n" "length (array_at h s) = n"
  shows "arrayCopy h s 0 d 0 n = h\<lparr>h_arrays := (h_arrays h)[d := array_at h s]\<rparr>"
proof -
  let ?h = "arrayCopy h s 0 d 0 n"
  have "h_arrays ?h = (h_arrays h)[d := array_at h s]"
  proof (rule nth_equalityI)
    show "length (h_arrays ?h) = length ((h_arrays h)[d := array_at h s])" by simp
  next
    fix r assume r: "r < length (h_arrays ?h)"
    show "h_arrays ?h ! r = (h_arrays h)[d := array_at h s] ! r"
    proof (cases "r = d")
      case True
      have "array_at ?h d = array_at h s"
        using arrayCopy_fill[of d s h "array_at h s" 0 "array_at h d" n] assms
        by (simp add: array_at_def)
      then show ?thesis using True assms(2) by (simp add: array_at_def)
    next
      case False
      then have "array_at ?h r = array_at h r" by simp
      then show ?thesis using False r by (simp add: array_at_def)
    qed
  qed
  moreover have "?h = h\<lparr>h_arrays := h_arrays ?h\<rparr>"
    by (rule heap.equality) simp_all
  ultimately show ?thesis by simp
qed

section \<open>Attachment ids\<close>

lemma VertexAttachment_id_eq: "VertexAttachment_id n = int ((n mod 65536) * 2048)"
proof -
  have m: "(65535 :: 32 word) = mask 16" by (simp add: mask_eq_exp_minus_1)
  have a: "(word_of_nat n :: 32 word) AND 65535 = word_of_nat (n mod 65536)"
  proof -
    have "(word_of_nat n :: 32 word) AND mask 16 = take_bit 16 (word_of_nat n)"
      by (simp add: take_bit_eq_mask)
    also have "\<dots> = word_of_nat (take_bit 16 n)" by (rule take_bit_of_nat)
    also have "take_bit 16 n = n mod 65536" by (simp add: take_bit_eq_mod)
    finally show ?thesis unfolding m .
  qed
  have b: "push_bit 11 (word_of_nat (n mod 65536) :: 32 word) = word_of_nat ((n mod 65536) * 2048)"
    by (simp add: push_bit_of_nat push_bit_eq_mult)
  have c: "int ((n mod 65536) * 2048) < 2 ^ 31" by simp
  have d: "sint (word_of_nat ((n mod 65536) * 2048) :: 32 word) = int ((n mod 65536) * 2048)"
  proof -
    have "signed_take_bit 31 (int ((n mod 65536) * 2048)) = int ((n mod 65536) * 2048)"
      using c by (intro signed_take_bit_int_eq_self) simp_all
    moreover have "LENGTH(32) - Suc 0 = 31" by simp
    ultimately show ?thesis unfolding signed_of_nat by (simp only: of_int_eq_id id_apply)
  qed
  show ?thesis unfolding VertexAttachment_id_def a b d ..
qed

lemma construct_Inl: "construct h c = (Inl e, h1) \<Longrightarrow> h1 = h"
  by (cases c)
     (auto simp: new_MeshAttachment_def new_BoundingBoxAttachment_def new_ClippingAttachment_def
        VertexAttachment_init_def alloc_array_def Let_def split: option.splits prod.splits)

lemma construct_Inr:
  assumes "construct h c = (Inr r, h1)"
  shows "att_id (base_at h1 r) = VertexAttachment_id (h_nextID h)"
    and "h_nextID h1 = Suc (h_nextID h)"
    and "valid_ref h1 r"
    and "valid_ref h r' \<Longrightarrow> valid_ref h1 r' \<and> base_at h1 r' = base_at h r'"
  using assms
  by (cases c; cases r';
      auto simp: new_MeshAttachment_def new_BoundingBoxAttachment_def new_ClippingAttachment_def
        VertexAttachment_init_def alloc_array_def Let_def VertexAttachment.truncate_def nth_append
        split: option.splits prod.splits)+

lemma constructions_ids:
  "constructions h cs = (rs, h') \<Longrightarrow>
   h_nextID h' = h_nextID h + length rs \<and>
   (\<forall>i<length rs. valid_ref h' (rs ! i) \<and>
      att_id (base_at h' (rs ! i)) = VertexAttachment_id (h_nextID h + i)) \<and>
   (\<forall>r. valid_ref h r \<longrightarrow> valid_ref h' r \<and> base_at h' r = base_at h r)"
proof (induction cs arbitrary: h rs h')
  case Nil
  then show ?case by simp
next
  case (Cons c cs)
  obtain res h1 where c: "construct h c = (res, h1)" by (cases "construct h c")
  show ?case
  proof (cases res)
    case (Inl e)
    then have "h1 = h" using c construct_Inl by blast
    then show ?thesis using Cons.prems Cons.IH[of h rs h'] c Inl by simp
  next
    case (Inr r)
    obtain rs1 where t: "constructions h1 cs = (rs1, h')" and rs: "rs = r # rs1"
      using Cons.prems c Inr by (auto split: prod.splits)
    note ih = Cons.IH[OF t]
    note cr = construct_Inr[OF c[unfolded Inr]]
    have n: "h_nextID h' = h_nextID h + length rs" using ih cr(2) rs by simp
    have old: "\<forall>r'. valid_ref h r' \<longrightarrow> valid_ref h' r' \<and> base_at h' r' = base_at h r'"
      using ih cr(4) by metis
    have new: "valid_ref h' (rs ! i) \<and> att_id (base_at h' (rs ! i)) = VertexAttachment_id (h_nextID h + i)"
      if "i < length rs" for i
    proof (cases i)
      case 0
      then show ?thesis using rs ih cr(1,3) by simp
    next
      case (Suc k)
      then show ?thesis using rs ih cr(2) that by simp
    qed
    show ?thesis using n old new by blast
  qed
qed

lemma constructions_all:
  "constructions h cs = (rs, h') \<Longrightarrow>
   \<forall>c\<in>set cs. c \<in> range (NewBoundingBox \<circ> Some) \<Longrightarrow> length rs = length cs"
proof (induction cs arbitrary: h rs h')
  case Nil
  then show ?case by simp
next
  case (Cons c cs)
  then obtain n where c: "c = NewBoundingBox (Some n)" by auto
  then show ?case using Cons
    by (auto simp: new_BoundingBoxAttachment_def VertexAttachment_init_def alloc_array_def Let_def
        split: prod.splits)
qed

text \<open>
  Claim C8, as amended. In a run of constructions, the attachment constructed as
  number \<open>i\<close> gets the id \<open>((n + i) mod 65536) * 2048\<close>, where \<open>n\<close> is the value
  of the counter before the run. Two attachments of the run have the same id exactly
  when their counter values agree modulo 65536; and a later attachment has a
  strictly greater id than an earlier one as long as its counter value is below
  65536.
\<close>

theorem VertexAttachment_ids:
  assumes "constructions h cs = (rs, h')"
  shows "(\<forall>i<length rs.
            att_id (base_at h' (rs ! i)) = int (((h_nextID h + i) mod 65536) * 2048)) \<and>
         (\<forall>i j. i < length rs \<and> j < length rs \<longrightarrow>
            (att_id (base_at h' (rs ! i)) = att_id (base_at h' (rs ! j)) \<longleftrightarrow>
             (h_nextID h + i) mod 65536 = (h_nextID h + j) mod 65536)) \<and>
         (\<forall>i j. i < j \<and> j < length rs \<and> h_nextID h + j < 65536 \<longrightarrow>
            att_id (base_at h' (rs ! i)) < att_id (base_at h' (rs ! j)))"
proof -
  have ids: "att_id (base_at h' (rs ! i)) = int (((h_nextID h + i) mod 65536) * 2048)"
    if "i < length rs" for i
    using constructions_ids[OF assms] that by (simp add: VertexAttachment_id_eq)
  show ?thesis
  proof (intro conjI allI impI)
    fix i assume "i < length rs"
    then show "att_id (base_at h' (rs ! i)) = int (((h_nextID h + i) mod 65536) * 2048)"
      by (rule ids)
  next
    fix i j assume "i < length rs \<and> j < length rs"
    then show "att_id (base_at h' (rs ! i)) = att_id (base_at h' (rs ! j)) \<longleftrightarrow>
               (h_nextID h + i) mod 65536 = (h_nextID h + j) mod 65536"
      by (simp add: ids)
  next
    fix i j assume a: "i < j \<and> j < length rs \<and> h_nextID h + j < 65536"
    then have "att_id (base_at h' (rs ! i)) = int ((h_nextID h + i) * 2048)"
      "att_id (base_at h' (rs ! j)) = int ((h_nextID h + j) * 2048)"
      by (simp_all add: ids)
    then show "att_id (base_at h' (rs ! i)) < att_id (base_at h' (rs ! j))"
      using a by simp
  qed
qed

theorem VertexAttachment_ids_witness:
  "fst (constructions \<lparr>h_arrays = [], h_meshes = [], h_boxes = [], h_clips = [], h_nextID = 0\<rparr>
          [NewMesh (Some ''a'') ''a.png'', NewBoundingBox None, NewBoundingBox (Some ''b''),
           NewClipping (Some ''c'')])
     = [MeshRef 0, BoundingBoxRef 0, ClippingRef 0] \<and>
   att_id (base_at (snd (constructions \<lparr>h_arrays = [], h_meshes = [], h_boxes = [], h_clips = [], h_nextID = 0\<rparr>
          [NewMesh (Some ''a'') ''a.png'', NewBoundingBox None, NewBoundingBox (Some ''b''),
           NewClipping (Some ''c'')])) (MeshRef 0)) = 0 \<and>
   att_id (base_at (snd (constructions \<lparr>h_arrays = [], h_meshes = [], h_boxes = [], h_clips = [], h_nextID = 0\<rparr>
          [NewMesh (Some ''a'') ''a.png'', NewBoundingBox None, NewBoundingBox (Some ''b''),
           NewClipping (Some ''c'')])) (BoundingBoxRef 0)) = 2048 \<and>
   att_id (base_at (snd (constructions \<lparr>h_arrays = [], h_meshes = [], h_boxes = [], h_clips = [], h_nextID = 0\<rparr>
          [NewMesh (Some ''a'') ''a.png'', NewBoundingBox None, NewBoundingBox (Some ''b''),
           NewClipping (Some ''c'')])) (ClippingRef 0)) = 4096"
proof -
  let ?h = "\<lparr>h_arrays = [], h_meshes = [], h_boxes = [], h_clips = [], h_nextID = 0\<rparr>"
  let ?cs = "[NewMesh (Some ''a'') ''a.png'', NewBoundingBox None, NewBoundingBox (Some ''b''),
           NewClipping (Some ''c'')]"
  obtain rs h' where c: "constructions ?h ?cs = (rs, h')" by (cases "constructions ?h ?cs")
  have rs: "rs = [MeshRef 0, BoundingBoxRef 0, ClippingRef 0]"
    using c
    by (simp add: new_MeshAttachment_def new_BoundingBoxAttachment_def new_ClippingAttachment_def
        VertexAttachment_init_def alloc_array_def Let_def split: prod.splits)
  have i: "att_id (base_at h' (rs ! i)) = int (((h_nextID ?h + i) mod 65536) * 2048)"
    if "i < length rs" for i
    using VertexAttachment_ids[OF c] that by blast
  have "att_id (base_at h' (MeshRef 0)) = 0" "att_id (base_at h' (BoundingBoxRef 0)) = 2048"
    "att_id (base_at h' (ClippingRef 0)) = 4096"
    using i[of 0] i[of 1] i[of 2] unfolding rs by simp_all
  then show ?thesis unfolding c rs by simp
qed

text \<open>
  The claim as stated fails at the 65537th construction of a process: it gets the id
  of the first.
\<close>

theorem VertexAttachment_ids_repeat_counterexample:
  "att_id (base_at
     (snd (constructions \<lparr>h_arrays = [], h_meshes = [], h_boxes = [], h_clips = [], h_nextID = 0\<rparr>
             (replicate 65537 (NewBoundingBox (Some ''b'')))))
     (fst (constructions \<lparr>h_arrays = [], h_meshes = [], h_boxes = [], h_clips = [], h_nextID = 0\<rparr>
             (replicate 65537 (NewBoundingBox (Some ''b'')))) ! 65536))
   = att_id (base_at
     (snd (constructions \<lparr>h_arrays = [], h_meshes = [], h_boxes = [], h_clips = [], h_nextID = 0\<rparr>
             (replicate 65537 (NewBoundingBox (Some ''b'')))))
     (fst (constructions \<lparr>h_arrays = [], h_meshes = [], h_boxes = [], h_clips = [], h_nextID = 0\<rparr>
             (replicate 65537 (NewBoundingBox (Some ''b'')))) ! 0))"
proof -
  let ?h = "\<lparr>h_arrays = [], h_meshes = [], h_boxes = [], h_clips = [], h_nextID = 0\<rparr>"
  let ?cs = "replicate 65537 (NewBoundingBox (Some ''b''))"
  obtain rs h' where c: "constructions ?h ?cs = (rs, h')" by (cases "constructions ?h ?cs")
  have l: "length rs = 65537" using constructions_all[OF c] by simp
  have "att_id (base_at h' (rs ! 65536)) = VertexAttachment_id (0 + 65536)"
    "att_id (base_at h' (rs ! 0)) = VertexAttachment_id (0 + 0)"
    using constructions_ids[OF c] l by simp_all
  then show ?thesis unfolding c by (simp add: VertexAttachment_id_eq)
qed

section \<open>copyTo and copy\<close>

lemma copyTo_mesh_None:
  assumes "this < length (h_meshes h)" "copy < length (h_meshes h)" "this \<noteq> copy"
    and "att_vertices (mesh_at h this) < length (h_arrays h)"
    and "att_bones (mesh_at h this) = None"
  shows "copyTo h (MeshRef this) (MeshRef copy) =
     (Inr (), h\<lparr>h_arrays := h_arrays h @ [array_at h (att_vertices (mesh_at h this))],
                h_meshes := (h_meshes h)[copy := (mesh_at h copy)
                   \<lparr>att_bones := None, att_vertices := length (h_arrays h),
                    att_worldVerticesLength := att_worldVerticesLength (mesh_at h this),
                    att_deformAttachment := att_deformAttachment (mesh_at h this)\<rparr>]\<rparr>)"
  using assms
  apply (simp add: copyTo_def Let_def alloc_array_def mesh_at_def VertexAttachment.truncate_def
      newFloatArray_def split: prod.splits)
  apply (subst arrayCopy_exact)
     apply (simp_all add: array_at_def nth_append)
  done

lemma copyTo_returns: "valid_ref h s \<Longrightarrow> valid_ref h d \<Longrightarrow> fst (copyTo h s d) = Inr ()"
  by (simp add: copyTo_def Let_def split: prod.splits)

lemma copyTo_deformAttachment:
  assumes "valid_ref h s" "valid_ref h d"
  shows "att_deformAttachment (base_at (snd (copyTo h s d)) d) = att_deformAttachment (base_at h s)"
  using assms
  by (cases s; cases d)
     (auto simp: copyTo_def Let_def alloc_array_def VertexAttachment.truncate_def nth_list_update
        split: prod.splits option.splits)

lemma copyTo_lengths:
  "length (h_meshes (snd (copyTo h s d))) = length (h_meshes h) \<and>
   length (h_boxes (snd (copyTo h s d))) = length (h_boxes h) \<and>
   length (h_clips (snd (copyTo h s d))) = length (h_clips h)"
  by (cases s; cases d)
     (auto simp: copyTo_def Let_def alloc_array_def split: prod.splits option.splits)

lemma new_BoundingBoxAttachment_Some:
  "new_BoundingBoxAttachment h (Some n) = (r, h1) \<Longrightarrow>
   r = Inr (length (h_boxes h)) \<and> length (h_boxes h1) = Suc (length (h_boxes h)) \<and>
   (\<forall>i<length (h_boxes h). h_boxes h1 ! i = h_boxes h ! i) \<and>
   att_deformAttachment (h_boxes h1 ! length (h_boxes h)) = Some (BoundingBoxRef (length (h_boxes h)))"
  by (auto simp: new_BoundingBoxAttachment_def VertexAttachment_init_def alloc_array_def Let_def
      nth_append split: prod.splits)

lemma new_ClippingAttachment_Some:
  "new_ClippingAttachment h (Some n) = (r, h1) \<Longrightarrow>
   r = Inr (length (h_clips h)) \<and> length (h_clips h1) = Suc (length (h_clips h)) \<and>
   (\<forall>i<length (h_clips h). h_clips h1 ! i = h_clips h ! i) \<and>
   att_deformAttachment (h_clips h1 ! length (h_clips h)) = Some (ClippingRef (length (h_clips h)))"
  by (auto simp: new_ClippingAttachment_def VertexAttachment_init_def alloc_array_def Let_def
      nth_append split: prod.splits)

lemma BoundingBoxAttachment_copy_deform:
  assumes "this < length (h_boxes h)"
  shows "fst (BoundingBoxAttachment_copy h this) = Inr (length (h_boxes h)) \<and>
         att_deformAttachment (h_boxes (snd (BoundingBoxAttachment_copy h this)) ! length (h_boxes h))
           = att_deformAttachment (h_boxes h ! this)"
proof -
  let ?c = "length (h_boxes h)"
  obtain r h1 where n: "new_BoundingBoxAttachment h (Some (att_name (h_boxes h ! this))) = (r, h1)"
    by (cases "new_BoundingBoxAttachment h (Some (att_name (h_boxes h ! this)))")
  note n1 = new_BoundingBoxAttachment_Some[OF n]
  have v: "valid_ref h1 (BoundingBoxRef this)" "valid_ref h1 (BoundingBoxRef ?c)"
    using n1 assms by simp_all
  obtain h2 where c: "copyTo h1 (BoundingBoxRef this) (BoundingBoxRef ?c) = (Inr (), h2)"
    using copyTo_returns[OF v] by (cases "copyTo h1 (BoundingBoxRef this) (BoundingBoxRef ?c)") auto
  have d: "att_deformAttachment (h_boxes h2 ! ?c) = att_deformAttachment (h_boxes h ! this)"
    using copyTo_deformAttachment[OF v] c n1 assms by (simp add: VertexAttachment.truncate_def)
  have l: "?c < length (h_boxes h2)" using copyTo_lengths[of h1 "BoundingBoxRef this" "BoundingBoxRef ?c"] c n1
    by simp
  show ?thesis using assms n n1 c d l by (simp add: BoundingBoxAttachment_copy_def)
qed

lemma ClippingAttachment_copy_deform:
  assumes "this < length (h_clips h)"
  shows "fst (ClippingAttachment_copy h this) = Inr (length (h_clips h)) \<and>
         att_deformAttachment (h_clips (snd (ClippingAttachment_copy h this)) ! length (h_clips h))
           = att_deformAttachment (h_clips h ! this)"
proof -
  let ?c = "length (h_clips h)"
  obtain r h1 where n: "new_ClippingAttachment h (Some (att_name (h_clips h ! this))) = (r, h1)"
    by (cases "new_ClippingAttachment h (Some (att_name (h_clips h ! this)))")
  note n1 = new_ClippingAttachment_Some[OF n]
  have v: "valid_ref h1 (ClippingRef this)" "valid_ref h1 (ClippingRef ?c)"
    using n1 assms by simp_all
  obtain h2 where c: "copyTo h1 (ClippingRef this) (ClippingRef ?c) = (Inr (), h2)"
    using copyTo_returns[OF v] by (cases "copyTo h1 (ClippingRef this) (ClippingRef ?c)") auto
  have d: "att_deformAttachment (h_clips h2 ! ?c) = att_deformAttachment (h_clips h ! this)"
    using copyTo_deformAttachment[OF v] c n1 assms by (simp add: VertexAttachment.truncate_def)
  have l: "?c < length (h_clips h2)" using copyTo_lengths[of h1 "ClippingRef this" "ClippingRef ?c"] c n1
    by simp
  show ?thesis using assms n n1 c d l by (simp add: ClippingAttachment_copy_def Let_def)
qed

lemma new_MeshAttachment_exact:
  "new_MeshAttachment h (Some name) path =
     (Inr (length (h_meshes h)),
      h\<lparr>h_arrays := h_arrays h @ [[], [], [], [], []],
         h_meshes := h_meshes h @
                  [\<lparr>att_name = name, att_id = VertexAttachment_id (h_nextID h), att_bones = None,
                    att_vertices = length (h_arrays h),
                    att_worldVerticesLength = 0, att_deformAttachment = Some (MeshRef (length (h_meshes h))),
                    mesh_region = None, mesh_path = path, mesh_regionUVs = Suc (length (h_arrays h)),
                    mesh_uvs = Suc (Suc (length (h_arrays h))),
                    mesh_triangles = Suc (Suc (Suc (length (h_arrays h)))),
                    mesh_color = \<lparr>col_r = 1, col_g = 1, col_b = 1, col_a = 1\<rparr>,
                    mesh_width = 0, mesh_height = 0, mesh_hullLength = 0,
                    mesh_edges = Suc (Suc (Suc (Suc (length (h_arrays h))))),
                    mesh_parentMesh = None,
                    mesh_tempColor = \<lparr>col_r = 0, col_g = 0, col_b = 0, col_a = 0\<rparr>\<rparr>],
         h_nextID := Suc (h_nextID h)\<rparr>)"
  by (simp add: new_MeshAttachment_def VertexAttachment_init_def alloc_array_def Let_def)

lemma copyTo_mesh_Some:
  assumes "this < length (h_meshes h)" "copy < length (h_meshes h)" "this \<noteq> copy"
    and "att_vertices (mesh_at h this) < length (h_arrays h)"
    and "att_bones (mesh_at h this) = Some b" "b < length (h_arrays h)"
  shows "copyTo h (MeshRef this) (MeshRef copy) =
     (Inr (), h\<lparr>h_arrays := h_arrays h @ [array_at h b, array_at h (att_vertices (mesh_at h this))],
                h_meshes := (h_meshes h)[copy := (mesh_at h copy)
                   \<lparr>att_bones := Some (length (h_arrays h)),
                    att_vertices := Suc (length (h_arrays h)),
                    att_worldVerticesLength := att_worldVerticesLength (mesh_at h this),
                    att_deformAttachment := att_deformAttachment (mesh_at h this)\<rparr>]\<rparr>)"
  using assms
  by (simp add: copyTo_def Let_def alloc_array_def mesh_at_def VertexAttachment.truncate_def
      newFloatArray_def new_Array_def arrayCopy_exact array_at_def nth_append list_update_append
      split: prod.splits)

lemma ext_heap_fields [simp]:
  "h_arrays (ext_heap h new m) = h_arrays h @ new"
  "h_meshes (ext_heap h new m) = h_meshes h @ [m]"
  "h_boxes (ext_heap h new m) = h_boxes h"
  "h_clips (ext_heap h new m) = h_clips h"
  "h_nextID (ext_heap h new m) = Suc (h_nextID h)"
  by (simp_all add: ext_heap_def)

lemma ext_mesh_at_old [simp]: "r < length (h_meshes h) \<Longrightarrow> mesh_at (ext_heap h new m) r = mesh_at h r"
  by (simp add: mesh_at_def nth_append)

lemma ext_mesh_at_new [simp]: "mesh_at (ext_heap h new m) (length (h_meshes h)) = m"
  by (simp add: mesh_at_def)

lemma ext_array_at_old [simp]: "r < length (h_arrays h) \<Longrightarrow> array_at (ext_heap h new m) r = array_at h r"
  by (simp add: array_at_def nth_append)

lemma ext_array_at_new [simp]:
  "length (h_arrays h) \<le> r \<Longrightarrow> r - length (h_arrays h) < length new \<Longrightarrow>
   array_at (ext_heap h new m) r = new ! (r - length (h_arrays h))"
  by (auto simp: array_at_def nth_append)

lemma ext_put_mesh [simp]: "put_mesh (ext_heap h new m) (length (h_meshes h)) m' = ext_heap h new m'"
  by (simp add: put_mesh_def ext_heap_def)

lemma ext_alloc_array [simp]:
  "alloc_array (ext_heap h new m) xs = (length (h_arrays h) + length new, ext_heap h (new @ [xs]) m)"
  by (simp add: alloc_array_def ext_heap_def)

lemma ext_arrayCopy [simp]:
  assumes "s < length (h_arrays h)" "length (h_arrays h) \<le> d" "d - length (h_arrays h) < length new"
    and "length (new ! (d - length (h_arrays h))) = n" "length (array_at h s) = n"
  shows "arrayCopy (ext_heap h new m) s 0 d 0 n = ext_heap h (new[d - length (h_arrays h) := array_at h s]) m"
proof -
  have "arrayCopy (ext_heap h new m) s 0 d 0 n =
        (ext_heap h new m)\<lparr>h_arrays := (h_arrays (ext_heap h new m))[d := array_at (ext_heap h new m) s]\<rparr>"
    using assms by (intro arrayCopy_exact) (auto simp: nth_append)
  also have "\<dots> = (ext_heap h new m)\<lparr>h_arrays := h_arrays h @ new[d - length (h_arrays h) := array_at h s]\<rparr>"
    using assms by (simp add: list_update_append)
  also have "\<dots> = ext_heap h (new[d - length (h_arrays h) := array_at h s]) m"
    by (simp add: ext_heap_def)
  finally show ?thesis .
qed

lemma ext_copyTo:
  assumes "this < length (h_meshes h)"
    and "att_vertices (mesh_at h this) < length (h_arrays h)"
    and "\<forall>b. att_bones (mesh_at h this) = Some b \<longrightarrow> b < length (h_arrays h)"
  shows "copyTo (ext_heap h new m) (MeshRef this) (MeshRef (length (h_meshes h))) =
     (Inr (),
      ext_heap h
        (new @ (case att_bones (mesh_at h this) of None \<Rightarrow> [] | Some b \<Rightarrow> [array_at h b])
             @ [array_at h (att_vertices (mesh_at h this))])
        (m\<lparr>att_bones := map_option (\<lambda>b. length (h_arrays h) + length new) (att_bones (mesh_at h this)),
           att_vertices := length (h_arrays h) + length new
              + (case att_bones (mesh_at h this) of None \<Rightarrow> 0 | Some b \<Rightarrow> 1),
           att_worldVerticesLength := att_worldVerticesLength (mesh_at h this),
           att_deformAttachment := att_deformAttachment (mesh_at h this)\<rparr>))"
proof (cases "att_bones (mesh_at h this)")
  case None
  have "copyTo (ext_heap h new m) (MeshRef this) (MeshRef (length (h_meshes h))) = (Inr (),
      (ext_heap h new m)\<lparr>h_arrays := h_arrays (ext_heap h new m) @
           [array_at (ext_heap h new m) (att_vertices (mesh_at (ext_heap h new m) this))],
        h_meshes := (h_meshes (ext_heap h new m))[length (h_meshes h) :=
           (mesh_at (ext_heap h new m) (length (h_meshes h)))
             \<lparr>att_bones := None, att_vertices := length (h_arrays (ext_heap h new m)),
              att_worldVerticesLength := att_worldVerticesLength (mesh_at (ext_heap h new m) this),
              att_deformAttachment := att_deformAttachment (mesh_at (ext_heap h new m) this)\<rparr>]\<rparr>)"
    using assms None by (intro copyTo_mesh_None) simp_all
  also have "\<dots> = (Inr (), (ext_heap h new m)\<lparr>h_arrays := h_arrays h @ new @ [array_at h (att_vertices (mesh_at h this))],
        h_meshes := h_meshes h @ [m\<lparr>att_bones := None, att_vertices := length (h_arrays h) + length new,
              att_worldVerticesLength := att_worldVerticesLength (mesh_at h this),
              att_deformAttachment := att_deformAttachment (mesh_at h this)\<rparr>]\<rparr>)"
    using assms by simp
  finally show ?thesis using None by (simp add: ext_heap_def)
next
  case (Some b)
  have "copyTo (ext_heap h new m) (MeshRef this) (MeshRef (length (h_meshes h))) = (Inr (),
      (ext_heap h new m)\<lparr>h_arrays := h_arrays (ext_heap h new m) @
           [array_at (ext_heap h new m) b,
            array_at (ext_heap h new m) (att_vertices (mesh_at (ext_heap h new m) this))],
        h_meshes := (h_meshes (ext_heap h new m))[length (h_meshes h) :=
           (mesh_at (ext_heap h new m) (length (h_meshes h)))
             \<lparr>att_bones := Some (length (h_arrays (ext_heap h new m))),
              att_vertices := Suc (length (h_arrays (ext_heap h new m))),
              att_worldVerticesLength := att_worldVerticesLength (mesh_at (ext_heap h new m) this),
              att_deformAttachment := att_deformAttachment (mesh_at (ext_heap h new m) this)\<rparr>]\<rparr>)"
    using assms Some by (intro copyTo_mesh_Some) simp_all
  also have "\<dots> = (Inr (), (ext_heap h new m)\<lparr>h_arrays := h_arrays h @ new @
           [array_at h b, array_at h (att_vertices (mesh_at h this))],
        h_meshes := h_meshes h @ [m\<lparr>att_bones := Some (length (h_arrays h) + length new),
              att_vertices := Suc (length (h_arrays h) + length new),
              att_worldVerticesLength := att_worldVerticesLength (mesh_at h this),
              att_deformAttachment := att_deformAttachment (mesh_at h this)\<rparr>]\<rparr>)"
    using assms Some by simp
  finally show ?thesis using Some by (simp add: ext_heap_def)
qed

lemma new_MeshAttachment_ext:
  "new_MeshAttachment h (Some name) path =
     (Inr (length (h_meshes h)),
      ext_heap h [[], [], [], [], []]
        \<lparr>att_name = name, att_id = VertexAttachment_id (h_nextID h), att_bones = None,
          att_vertices = length (h_arrays h),
          att_worldVerticesLength = 0, att_deformAttachment = Some (MeshRef (length (h_meshes h))),
          mesh_region = None, mesh_path = path, mesh_regionUVs = length (h_arrays h) + 1,
          mesh_uvs = length (h_arrays h) + 2,
          mesh_triangles = length (h_arrays h) + 3,
          mesh_color = \<lparr>col_r = 1, col_g = 1, col_b = 1, col_a = 1\<rparr>,
          mesh_width = 0, mesh_height = 0, mesh_hullLength = 0,
          mesh_edges = length (h_arrays h) + 4,
          mesh_parentMesh = None,
          mesh_tempColor = \<lparr>col_r = 0, col_g = 0, col_b = 0, col_a = 0\<rparr>\<rparr>)"
  by (simp add: new_MeshAttachment_exact ext_heap_def)

lemma MeshAttachment_copy_exact:
  assumes "mesh_refs_ok h this" "mesh_parentMesh (mesh_at h this) = None"
  shows "MeshAttachment_copy h this =
     (Inr (length (h_meshes h)),
      ext_heap h
        ([[], [], [], [], []]
          @ (case att_bones (mesh_at h this) of None \<Rightarrow> [] | Some b \<Rightarrow> [array_at h b])
          @ [array_at h (att_vertices (mesh_at h this)),
             array_at h (mesh_regionUVs (mesh_at h this)),
             array_at h (mesh_uvs (mesh_at h this)),
             array_at h (mesh_triangles (mesh_at h this)),
             array_at h (mesh_edges (mesh_at h this))])
        \<lparr>att_name = att_name (mesh_at h this),
         att_id = VertexAttachment_id (h_nextID h),
         att_bones = map_option (\<lambda>b. length (h_arrays h) + 5) (att_bones (mesh_at h this)),
         att_vertices = length (h_arrays h) + 5
            + (case att_bones (mesh_at h this) of None \<Rightarrow> 0 | Some b \<Rightarrow> 1),
         att_worldVerticesLength = att_worldVerticesLength (mesh_at h this),
         att_deformAttachment = att_deformAttachment (mesh_at h this),
         mesh_region = mesh_region (mesh_at h this),
         mesh_path = mesh_path (mesh_at h this),
         mesh_regionUVs = length (h_arrays h) + 6
            + (case att_bones (mesh_at h this) of None \<Rightarrow> 0 | Some b \<Rightarrow> 1),
         mesh_uvs = length (h_arrays h) + 7
            + (case att_bones (mesh_at h this) of None \<Rightarrow> 0 | Some b \<Rightarrow> 1),
         mesh_triangles = length (h_arrays h) + 8
            + (case att_bones (mesh_at h this) of None \<Rightarrow> 0 | Some b \<Rightarrow> 1),
         mesh_color = mesh_color (mesh_at h this),
         mesh_width = mesh_width (mesh_at h this),
         mesh_height = mesh_height (mesh_at h this),
         mesh_hullLength = mesh_hullLength (mesh_at h this),
         mesh_edges = length (h_arrays h) + 9
            + (case att_bones (mesh_at h this) of None \<Rightarrow> 0 | Some b \<Rightarrow> 1),
         mesh_parentMesh = None,
         mesh_tempColor = \<lparr>col_r = 0, col_g = 0, col_b = 0, col_a = 0\<rparr>\<rparr>)"
proof -
  have ok: "this < length (h_meshes h)"
    "att_vertices (mesh_at h this) < length (h_arrays h)"
    "\<forall>b. att_bones (mesh_at h this) = Some b \<longrightarrow> b < length (h_arrays h)"
    "mesh_regionUVs (mesh_at h this) < length (h_arrays h)"
    "mesh_uvs (mesh_at h this) < length (h_arrays h)"
    "mesh_triangles (mesh_at h this) < length (h_arrays h)"
    "mesh_edges (mesh_at h this) < length (h_arrays h)"
    using assms(1) by (simp_all add: mesh_refs_ok_def)
  show ?thesis
  proof (cases "att_bones (mesh_at h this)")
    case None
    show ?thesis
      using ok assms(2) None
      by (simp add: MeshAttachment_copy_def new_MeshAttachment_ext ext_copyTo Let_def new_Array_def)
  next
    case (Some b)
    show ?thesis
      using ok assms(2) Some
      by (simp add: MeshAttachment_copy_def new_MeshAttachment_ext ext_copyTo Let_def new_Array_def)
  qed
qed

section \<open>updateUVs\<close>

declare uv_loop.simps [simp del]

lemma uv_loop_fields [simp]:
  "h_meshes (uv_loop h ruv uvs n i f g) = h_meshes h"
  "h_boxes (uv_loop h ruv uvs n i f g) = h_boxes h"
  "h_clips (uv_loop h ruv uvs n i f g) = h_clips h"
  "h_nextID (uv_loop h ruv uvs n i f g) = h_nextID h"
  "length (h_arrays (uv_loop h ruv uvs n i f g)) = length (h_arrays h)"
  by (induction h ruv uvs n i f g rule: uv_loop.induct; subst uv_loop.simps; simp add: Let_def)+

lemma uv_loop_other: "r \<noteq> uvs \<Longrightarrow> array_at (uv_loop h ruv uvs n i f g) r = array_at h r"
  by (induction h ruv uvs n i f g rule: uv_loop.induct; subst uv_loop.simps; simp add: Let_def)

lemma uv_loop_below:
  "0 \<le> i \<Longrightarrow> p < i \<Longrightarrow> h_aget (uv_loop h ruv uvs n i f g) r p = h_aget h r p"
proof (induction h ruv uvs n i f g rule: uv_loop.induct)
  case (1 h ruv uvs n i f g)
  show ?case
  proof (cases "i < n")
    case True
    then show ?thesis using 1 by (subst uv_loop.simps) (simp add: Let_def h_aget_h_aset)
  next
    case False
    then show ?thesis by (subst uv_loop.simps) simp
  qed
qed

lemma uv_loop_result:
  "uvs \<noteq> ruv \<Longrightarrow> uvs < length (h_arrays h) \<Longrightarrow> 0 \<le> i \<Longrightarrow> 0 \<le> k \<Longrightarrow> i + 2 * k < n \<Longrightarrow>
   h_aget (uv_loop h ruv uvs n i f g) uvs (i + 2 * k) =
     f (h_aget h ruv (i + 2 * k)) (h_aget h ruv (i + 2 * k + 1)) \<and>
   h_aget (uv_loop h ruv uvs n i f g) uvs (i + 2 * k + 1) =
     g (h_aget h ruv (i + 2 * k)) (h_aget h ruv (i + 2 * k + 1))"
proof (induction h ruv uvs n i f g arbitrary: k rule: uv_loop.induct)
  case (1 h ruv uvs n i f g)
  let ?h1 = "h_aset h uvs i (f (h_aget h ruv i) (h_aget h ruv (i + 1)))"
  let ?h2 = "h_aset ?h1 uvs (i + 1) (g (h_aget ?h1 ruv i) (h_aget ?h1 ruv (i + 1)))"
  have lt: "i < n" using "1.prems" by linarith
  have unf: "uv_loop h ruv uvs n i f g = uv_loop ?h2 ruv uvs n (i + 2) f g"
    using lt by (subst uv_loop.simps) (simp add: Let_def)
  have r2: "h_aget ?h2 ruv p = h_aget h ruv p" for p
    using "1.prems"(1) by (simp add: h_aget_h_aset)
  show ?case
  proof (cases "k = 0")
    case True
    have "h_aget (uv_loop ?h2 ruv uvs n (i + 2) f g) uvs i = h_aget ?h2 uvs i"
      "h_aget (uv_loop ?h2 ruv uvs n (i + 2) f g) uvs (i + 1) = h_aget ?h2 uvs (i + 1)"
      using "1.prems" by (simp_all add: uv_loop_below)
    then show ?thesis using True "1.prems" unf by (simp add: h_aget_h_aset)
  next
    case False
    then have k: "0 \<le> k - 1" "i + 2 + 2 * (k - 1) < n" "i + 2 + 2 * (k - 1) = i + 2 * k"
      using "1.prems" by simp_all
    have "uvs < length (h_arrays ?h2)" using "1.prems" by simp
    then have "h_aget (uv_loop ?h2 ruv uvs n (i + 2) f g) uvs (i + 2 + 2 * (k - 1)) =
        f (h_aget ?h2 ruv (i + 2 + 2 * (k - 1))) (h_aget ?h2 ruv (i + 2 + 2 * (k - 1) + 1)) \<and>
      h_aget (uv_loop ?h2 ruv uvs n (i + 2) f g) uvs (i + 2 + 2 * (k - 1) + 1) =
        g (h_aget ?h2 ruv (i + 2 + 2 * (k - 1))) (h_aget ?h2 ruv (i + 2 + 2 * (k - 1) + 1))"
      using "1.prems" k lt by (intro "1.IH") simp_all
    then show ?thesis unfolding unf k(3) r2 .
  qed
qed

lemma ensure_uvs_facts:
  assumes "this < length (h_meshes h)"
    and "h1 = ensure_uvs h this" "uvs1 = mesh_uvs (mesh_at h1 this)"
    and "ruv = mesh_regionUVs (mesh_at h this)"
  shows "length (array_at h1 uvs1) = length (array_at h ruv)"
    and "h_meshes h1 = (h_meshes h)[this := (mesh_at h this)\<lparr>mesh_uvs := uvs1\<rparr>]"
    and "uvs1 = (if length (array_at h (mesh_uvs (mesh_at h this))) \<noteq> length (array_at h ruv)
                 then length (h_arrays h) else mesh_uvs (mesh_at h this))"
    and "r < length (h_arrays h) \<Longrightarrow> array_at h1 r = array_at h r"
    and "length (h_arrays h) \<le> length (h_arrays h1)"
    and "h_boxes h1 = h_boxes h" "h_clips h1 = h_clips h" "h_nextID h1 = h_nextID h"
    and "mesh_uvs (mesh_at h this) < length (h_arrays h) \<Longrightarrow> uvs1 < length (h_arrays h1)"
  using assms
  by (auto simp: ensure_uvs_def Let_def alloc_array_def put_mesh_def mesh_at_def array_at_def
      newFloatArray_def nth_append list_update_same_conv)

lemma updateUVs_loop:
  assumes "this < length (h_meshes h)" "mesh_region (mesh_at h this) = Some reg"
  shows "\<exists>f g. updateUVs h this =
           (Inr (), uv_loop (ensure_uvs h this) (mesh_regionUVs (mesh_at h this))
                      (mesh_uvs (mesh_at (ensure_uvs h this) this))
                      (int (length (array_at (ensure_uvs h this) (mesh_uvs (mesh_at (ensure_uvs h this) this)))))
                      0 f g)"
  using assms by (cases reg) (auto simp: updateUVs_def Let_def)

lemma updateUVs_frame:
  assumes "this < length (h_meshes h)" "mesh_region (mesh_at h this) = Some reg"
    and "uvs1 = (if length (array_at h (mesh_uvs (mesh_at h this)))
                      \<noteq> length (array_at h (mesh_regionUVs (mesh_at h this)))
                 then length (h_arrays h) else mesh_uvs (mesh_at h this))"
  shows "fst (updateUVs h this) = Inr ()"
    and "h_meshes (snd (updateUVs h this)) = (h_meshes h)[this := (mesh_at h this)\<lparr>mesh_uvs := uvs1\<rparr>]"
    and "r < length (h_arrays h) \<Longrightarrow> r \<noteq> uvs1 \<Longrightarrow> array_at (snd (updateUVs h this)) r = array_at h r"
    and "h_boxes (snd (updateUVs h this)) = h_boxes h"
    and "h_clips (snd (updateUVs h this)) = h_clips h"
    and "h_nextID (snd (updateUVs h this)) = h_nextID h"
proof -
  obtain f g where u: "updateUVs h this =
           (Inr (), uv_loop (ensure_uvs h this) (mesh_regionUVs (mesh_at h this))
                      (mesh_uvs (mesh_at (ensure_uvs h this) this))
                      (int (length (array_at (ensure_uvs h this) (mesh_uvs (mesh_at (ensure_uvs h this) this)))))
                      0 f g)"
    using updateUVs_loop[OF assms(1,2)] by blast
  note e = ensure_uvs_facts[OF assms(1) refl refl refl]
  have u1: "uvs1 = mesh_uvs (mesh_at (ensure_uvs h this) this)" using e(3) assms(3) by simp
  show "fst (updateUVs h this) = Inr ()" by (simp add: u)
  show "h_meshes (snd (updateUVs h this)) = (h_meshes h)[this := (mesh_at h this)\<lparr>mesh_uvs := uvs1\<rparr>]"
    using e(2) by (simp add: u u1)
  show "array_at (snd (updateUVs h this)) r = array_at h r" if "r < length (h_arrays h)" "r \<noteq> uvs1"
    using that e(4)[of r] by (simp add: u u1 uv_loop_other)
  show "h_boxes (snd (updateUVs h this)) = h_boxes h" "h_clips (snd (updateUVs h this)) = h_clips h"
    "h_nextID (snd (updateUVs h this)) = h_nextID h"
    using e(6,7,8) by (simp_all add: u)
qed

text \<open>What \<open>updateUVs\<close> leaves in \<open>uvs\<close>, for the loop with right-hand sides \<open>f\<close> and \<open>g\<close>.\<close>

lemma updateUVs_values:
  assumes valid: "this < length (h_meshes h)"
    and refs: "mesh_regionUVs (mesh_at h this) < length (h_arrays h)"
      "mesh_uvs (mesh_at h this) < length (h_arrays h)"
      "mesh_uvs (mesh_at h this) \<noteq> mesh_regionUVs (mesh_at h this)"
    and upd: "updateUVs h this =
           (Inr (), uv_loop (ensure_uvs h this) (mesh_regionUVs (mesh_at h this))
                      (mesh_uvs (mesh_at (ensure_uvs h this) this))
                      (int (length (array_at (ensure_uvs h this) (mesh_uvs (mesh_at (ensure_uvs h this) this)))))
                      0 f g)"
    and R: "R = array_at h (mesh_regionUVs (mesh_at h this))"
    and h': "h' = snd (updateUVs h this)"
    and i: "0 \<le> i" "2 * i < int (length R)"
  shows "h_aget h' (mesh_uvs (mesh_at h' this)) (2 * i) = f (aget R (2 * i)) (aget R (2 * i + 1)) \<and>
         h_aget h' (mesh_uvs (mesh_at h' this)) (2 * i + 1) = g (aget R (2 * i)) (aget R (2 * i + 1))"
proof -
  let ?h1 = "ensure_uvs h this"
  let ?uvs = "mesh_uvs (mesh_at ?h1 this)"
  let ?ruv = "mesh_regionUVs (mesh_at h this)"
  note e = ensure_uvs_facts[OF valid refl refl refl]
  have ne: "?uvs \<noteq> ?ruv" using e(3) refs by (auto split: if_splits)
  have v: "?uvs < length (h_arrays ?h1)" using e(9) refs by simp
  have n: "length (array_at ?h1 ?uvs) = length R" using e(1) R by simp
  have ruv1: "h_aget ?h1 ?ruv p = aget R p" for p using e(4)[OF refs(1)] R by (simp add: h_aget_def)
  have m: "mesh_uvs (mesh_at h' this) = ?uvs"
    using valid e(2) by (simp add: h' upd mesh_at_def)
  have "h_aget (uv_loop ?h1 ?ruv ?uvs (int (length (array_at ?h1 ?uvs))) 0 f g) ?uvs (0 + 2 * i) =
          f (h_aget ?h1 ?ruv (0 + 2 * i)) (h_aget ?h1 ?ruv (0 + 2 * i + 1)) \<and>
        h_aget (uv_loop ?h1 ?ruv ?uvs (int (length (array_at ?h1 ?uvs))) 0 f g) ?uvs (0 + 2 * i + 1) =
          g (h_aget ?h1 ?ruv (0 + 2 * i)) (h_aget ?h1 ?ruv (0 + 2 * i + 1))"
    using ne v i n by (intro uv_loop_result) simp_all
  then show ?thesis unfolding m by (simp add: h' upd ruv1)
qed

lemma updateUVs_pair:
  assumes valid: "this < length (h_meshes h)"
    and refs: "mesh_regionUVs (mesh_at h this) < length (h_arrays h)"
      "mesh_uvs (mesh_at h this) < length (h_arrays h)"
      "mesh_uvs (mesh_at h this) \<noteq> mesh_regionUVs (mesh_at h this)"
    and upd: "updateUVs h this =
           (Inr (), uv_loop (ensure_uvs h this) (mesh_regionUVs (mesh_at h this))
                      (mesh_uvs (mesh_at (ensure_uvs h this) this))
                      (int (length (array_at (ensure_uvs h this) (mesh_uvs (mesh_at (ensure_uvs h this) this)))))
                      0 f g)"
    and i: "0 \<le> i" "2 * i < int (length (array_at h (mesh_regionUVs (mesh_at h this))))"
  shows "uvs_after h this (2 * i) = f (regionUVs_of h this (2 * i)) (regionUVs_of h this (2 * i + 1))"
    and "uvs_after h this (2 * i + 1) = g (regionUVs_of h this (2 * i)) (regionUVs_of h this (2 * i + 1))"
  using updateUVs_values[OF valid refs upd refl refl i]
  by (simp_all add: uvs_after_def regionUVs_of_def h_aget_def)

text \<open>
  Claim C5. Let the mesh's region be a \<open>TextureAtlasRegion\<close>, and \<open>uvs\<close> and
  \<open>regionUVs\<close> two arrays. \<open>updateUVs\<close> returns, and for every vertex \<open>i\<close> of
  \<open>regionUVs\<close> it leaves in \<open>uvs[2i]\<close> and \<open>uvs[2i + 1]\<close> the values of the
  formula of the region's rotation: for 90 degrees
  \<open>u' + regionUVs[2i + 1] * width'\<close> and \<open>v' + (1 - regionUVs[2i]) * height'\<close>,
  with \<open>width' = originalHeight / textureWidth\<close>,
  \<open>height' = originalWidth / textureHeight\<close>,
  \<open>u' = u - (originalHeight - offsetY - height) / textureWidth\<close> and
  \<open>v' = v - (originalWidth - offsetX - width) / textureHeight\<close>; and for 180
  degrees, for 270 degrees and for every other rotation the formulas below.
\<close>

theorem updateUVs_rotated:
  assumes "this < length (h_meshes h)"
    and "mesh_region (mesh_at h this) = Some (AtlasRegion r)"
    and "mesh_regionUVs (mesh_at h this) < length (h_arrays h)"
    and "mesh_uvs (mesh_at h this) < length (h_arrays h)"
    and "mesh_uvs (mesh_at h this) \<noteq> mesh_regionUVs (mesh_at h this)"
    and "0 \<le> i" and "2 * i < int (length (array_at h (mesh_regionUVs (mesh_at h this))))"
  shows "fst (updateUVs h this) = Inr () \<and>
    (reg_degrees r = 90 \<longrightarrow>
       uvs_after h this (2 * i) =
         (reg_u r - (reg_originalHeight r - reg_offsetY r - reg_height r) / reg_textureWidth r)
         + regionUVs_of h this (2 * i + 1) * (reg_originalHeight r / reg_textureWidth r) \<and>
       uvs_after h this (2 * i + 1) =
         (reg_v r - (reg_originalWidth r - reg_offsetX r - reg_width r) / reg_textureHeight r)
         + (1 - regionUVs_of h this (2 * i)) * (reg_originalWidth r / reg_textureHeight r)) \<and>
    (reg_degrees r = 180 \<longrightarrow>
       uvs_after h this (2 * i) =
         (reg_u r - (reg_originalWidth r - reg_offsetX r - reg_width r) / reg_textureWidth r)
         + (1 - regionUVs_of h this (2 * i)) * (reg_originalWidth r / reg_textureWidth r) \<and>
       uvs_after h this (2 * i + 1) =
         (reg_v r - reg_offsetY r / reg_textureHeight r)
         + (1 - regionUVs_of h this (2 * i + 1)) * (reg_originalHeight r / reg_textureHeight r)) \<and>
    (reg_degrees r = 270 \<longrightarrow>
       uvs_after h this (2 * i) =
         (reg_u r - reg_offsetY r / reg_textureWidth r)
         + (1 - regionUVs_of h this (2 * i + 1)) * (reg_originalHeight r / reg_textureWidth r) \<and>
       uvs_after h this (2 * i + 1) =
         (reg_v r - reg_offsetX r / reg_textureHeight r)
         + regionUVs_of h this (2 * i) * (reg_originalWidth r / reg_textureHeight r)) \<and>
    (reg_degrees r \<noteq> 90 \<and> reg_degrees r \<noteq> 180 \<and> reg_degrees r \<noteq> 270 \<longrightarrow>
       uvs_after h this (2 * i) =
         (reg_u r - reg_offsetX r / reg_textureWidth r)
         + regionUVs_of h this (2 * i) * (reg_originalWidth r / reg_textureWidth r) \<and>
       uvs_after h this (2 * i + 1) =
         (reg_v r - (reg_originalHeight r - reg_offsetY r - reg_height r) / reg_textureHeight r)
         + regionUVs_of h this (2 * i + 1) * (reg_originalHeight r / reg_textureHeight r))"
proof (intro conjI impI)
  show "fst (updateUVs h this) = Inr ()"
    using assms(1,2) by (simp add: updateUVs_def Let_def)
next
  assume d: "reg_degrees r = 90"
  note p = updateUVs_pair[OF assms(1,3,4,5) _ assms(6,7)]
  have u: "updateUVs h this =
           (Inr (), uv_loop (ensure_uvs h this) (mesh_regionUVs (mesh_at h this))
                      (mesh_uvs (mesh_at (ensure_uvs h this) this))
                      (int (length (array_at (ensure_uvs h this) (mesh_uvs (mesh_at (ensure_uvs h this) this)))))
                      0
              (\<lambda>ru rv. (reg_u r - (reg_originalHeight r - reg_offsetY r - reg_height r) / reg_textureWidth r)
                         + rv * (reg_originalHeight r / reg_textureWidth r))
              (\<lambda>ru rv. (reg_v r - (reg_originalWidth r - reg_offsetX r - reg_width r) / reg_textureHeight r)
                         + (1 - ru) * (reg_originalWidth r / reg_textureHeight r)))"
    using assms(1,2) d by (simp add: updateUVs_def Let_def)
  show "uvs_after h this (2 * i) =
         (reg_u r - (reg_originalHeight r - reg_offsetY r - reg_height r) / reg_textureWidth r)
         + regionUVs_of h this (2 * i + 1) * (reg_originalHeight r / reg_textureWidth r)"
    by (rule p(1)[OF u])
  show "uvs_after h this (2 * i + 1) =
         (reg_v r - (reg_originalWidth r - reg_offsetX r - reg_width r) / reg_textureHeight r)
         + (1 - regionUVs_of h this (2 * i)) * (reg_originalWidth r / reg_textureHeight r)"
    by (rule p(2)[OF u])
next
  assume d: "reg_degrees r = 180"
  note p = updateUVs_pair[OF assms(1,3,4,5) _ assms(6,7)]
  have u: "updateUVs h this =
           (Inr (), uv_loop (ensure_uvs h this) (mesh_regionUVs (mesh_at h this))
                      (mesh_uvs (mesh_at (ensure_uvs h this) this))
                      (int (length (array_at (ensure_uvs h this) (mesh_uvs (mesh_at (ensure_uvs h this) this)))))
                      0
              (\<lambda>ru rv. (reg_u r - (reg_originalWidth r - reg_offsetX r - reg_width r) / reg_textureWidth r)
                         + (1 - ru) * (reg_originalWidth r / reg_textureWidth r))
              (\<lambda>ru rv. (reg_v r - reg_offsetY r / reg_textureHeight r)
                         + (1 - rv) * (reg_originalHeight r / reg_textureHeight r)))"
    using assms(1,2) d by (simp add: updateUVs_def Let_def)
  show "uvs_after h this (2 * i) =
         (reg_u r - (reg_originalWidth r - reg_offsetX r - reg_width r) / reg_textureWidth r)
         + (1 - regionUVs_of h this (2 * i)) * (reg_originalWidth r / reg_textureWidth r)"
    by (rule p(1)[OF u])
  show "uvs_after h this (2 * i + 1) =
         (reg_v r - reg_offsetY r / reg_textureHeight r)
         + (1 - regionUVs_of h this (2 * i + 1)) * (reg_originalHeight r / reg_textureHeight r)"
    by (rule p(2)[OF u])
next
  assume d: "reg_degrees r = 270"
  note p = updateUVs_pair[OF assms(1,3,4,5) _ assms(6,7)]
  have u: "updateUVs h this =
           (Inr (), uv_loop (ensure_uvs h this) (mesh_regionUVs (mesh_at h this))
                      (mesh_uvs (mesh_at (ensure_uvs h this) this))
                      (int (length (array_at (ensure_uvs h this) (mesh_uvs (mesh_at (ensure_uvs h this) this)))))
                      0
              (\<lambda>ru rv. (reg_u r - reg_offsetY r / reg_textureWidth r)
                         + (1 - rv) * (reg_originalHeight r / reg_textureWidth r))
              (\<lambda>ru rv. (reg_v r - reg_offsetX r / reg_textureHeight r)
                         + ru * (reg_originalWidth r / reg_textureHeight r)))"
    using assms(1,2) d by (simp add: updateUVs_def Let_def)
  show "uvs_after h this (2 * i) =
         (reg_u r - reg_offsetY r / reg_textureWidth r)
         + (1 - regionUVs_of h this (2 * i + 1)) * (reg_originalHeight r / reg_textureWidth r)"
    by (rule p(1)[OF u])
  show "uvs_after h this (2 * i + 1) =
         (reg_v r - reg_offsetX r / reg_textureHeight r)
         + regionUVs_of h this (2 * i) * (reg_originalWidth r / reg_textureHeight r)"
    by (rule p(2)[OF u])
next
  assume d: "reg_degrees r \<noteq> 90 \<and> reg_degrees r \<noteq> 180 \<and> reg_degrees r \<noteq> 270"
  note p = updateUVs_pair[OF assms(1,3,4,5) _ assms(6,7)]
  have u: "updateUVs h this =
           (Inr (), uv_loop (ensure_uvs h this) (mesh_regionUVs (mesh_at h this))
                      (mesh_uvs (mesh_at (ensure_uvs h this) this))
                      (int (length (array_at (ensure_uvs h this) (mesh_uvs (mesh_at (ensure_uvs h this) this)))))
                      0
              (\<lambda>ru rv. (reg_u r - reg_offsetX r / reg_textureWidth r)
                         + ru * (reg_originalWidth r / reg_textureWidth r))
              (\<lambda>ru rv. (reg_v r - (reg_originalHeight r - reg_offsetY r - reg_height r) / reg_textureHeight r)
                         + rv * (reg_originalHeight r / reg_textureHeight r)))"
    using assms(1,2) d by (simp add: updateUVs_def Let_def)
  show "uvs_after h this (2 * i) =
         (reg_u r - reg_offsetX r / reg_textureWidth r)
         + regionUVs_of h this (2 * i) * (reg_originalWidth r / reg_textureWidth r)"
    by (rule p(1)[OF u])
  show "uvs_after h this (2 * i + 1) =
         (reg_v r - (reg_originalHeight r - reg_offsetY r - reg_height r) / reg_textureHeight r)
         + regionUVs_of h this (2 * i + 1) * (reg_originalHeight r / reg_textureHeight r)"
    by (rule p(2)[OF u])
qed

theorem updateUVs_rotated_witness:
  "fst (updateUVs (heap_uv 90) 0) = Inr () \<and>
   uvs_after (heap_uv 90) 0 0 = Num (7/32) \<and> uvs_after (heap_uv 90) 0 1 = Num (63/64) \<and>
   uvs_after (heap_uv 90) 0 2 = Num (7/32) \<and> uvs_after (heap_uv 90) 0 3 = Num (31/64) \<and>
   uvs_after (heap_uv 90) 0 4 = Num (15/32) \<and> uvs_after (heap_uv 90) 0 5 = Num (31/64) \<and>
   uvs_after (heap_uv 90) 0 6 = Num (15/32) \<and> uvs_after (heap_uv 90) 0 7 = Num (63/64) \<and>
   uvs_after (heap_uv 0) 0 0 = Num (15/64) \<and> uvs_after (heap_uv 0) 0 1 = Num (15/32) \<and>
   uvs_after (heap_uv 180) 0 0 = Num (47/64) \<and> uvs_after (heap_uv 180) 0 1 = Num (23/32) \<and>
   uvs_after (heap_uv 270) 0 0 = Num (15/32) \<and> uvs_after (heap_uv 270) 0 1 = Num (31/64)"
  using updateUVs_rotated[of 0 "heap_uv 90" "atlas_region 90" 0]
    updateUVs_rotated[of 0 "heap_uv 90" "atlas_region 90" 1]
    updateUVs_rotated[of 0 "heap_uv 90" "atlas_region 90" 2]
    updateUVs_rotated[of 0 "heap_uv 90" "atlas_region 90" 3]
    updateUVs_rotated[of 0 "heap_uv 0" "atlas_region 0" 0]
    updateUVs_rotated[of 0 "heap_uv 180" "atlas_region 180" 0]
    updateUVs_rotated[of 0 "heap_uv 270" "atlas_region 270" 0]
  by (simp add: heap_uv_def atlas_region_def mesh_at_def array_at_def regionUVs_of_def
      h_aget_def aget_def one_number_def)

section \<open>Linked meshes and copies\<close>

lemma setParentMesh_exact:
  assumes "this < length (h_meshes h)" "p < length (h_meshes h)"
  shows "setParentMesh h this (Some p) =
     (Inr (), put_mesh h this ((mesh_at h this)
        \<lparr>mesh_parentMesh := Some p,
         att_bones := att_bones (mesh_at h p),
         att_vertices := att_vertices (mesh_at h p),
         mesh_regionUVs := mesh_regionUVs (mesh_at h p),
         mesh_triangles := mesh_triangles (mesh_at h p),
         mesh_hullLength := mesh_hullLength (mesh_at h p),
         att_worldVerticesLength := att_worldVerticesLength (mesh_at h p)\<rparr>))"
proof (cases "p = this")
  case True
  then show ?thesis using assms
    by (simp add: setParentMesh_def Let_def put_mesh_def mesh_at_def)
next
  case False
  then show ?thesis using assms
    by (simp add: setParentMesh_def Let_def put_mesh_def mesh_at_def)
qed

lemma setParentMesh_None:
  "this < length (h_meshes h) \<Longrightarrow>
   setParentMesh h this None = (Inr (), put_mesh h this ((mesh_at h this)\<lparr>mesh_parentMesh := None\<rparr>))"
  by (simp add: setParentMesh_def Let_def)

lemma ext_setParentMesh:
  assumes "p < length (h_meshes h)"
  shows "setParentMesh (ext_heap h new m) (length (h_meshes h)) (Some p) =
     (Inr (), ext_heap h new (m
        \<lparr>mesh_parentMesh := Some p,
         att_bones := att_bones (mesh_at h p),
         att_vertices := att_vertices (mesh_at h p),
         mesh_regionUVs := mesh_regionUVs (mesh_at h p),
         mesh_triangles := mesh_triangles (mesh_at h p),
         mesh_hullLength := mesh_hullLength (mesh_at h p),
         att_worldVerticesLength := att_worldVerticesLength (mesh_at h p)\<rparr>))"
  using assms by (subst setParentMesh_exact) simp_all

lemma newLinkedMesh_result:
  assumes ok: "mesh_refs_ok h this"
    and p: "p = (case mesh_parentMesh (mesh_at h this) of None \<Rightarrow> this | Some q \<Rightarrow> q)"
    and pok: "mesh_refs_ok h p"
    and reg: "mesh_region (mesh_at h this) \<noteq> None"
    and h': "h' = snd (newLinkedMesh h this)"
  shows "fst (newLinkedMesh h this) = Inr (length (h_meshes h))"
    and "\<exists>uvs1. length (h_arrays h) \<le> uvs1 \<and>
          h_meshes h' = h_meshes h @
           [\<lparr>att_name = att_name (mesh_at h this),
             att_id = VertexAttachment_id (h_nextID h),
             att_bones = att_bones (mesh_at h p),
             att_vertices = att_vertices (mesh_at h p),
             att_worldVerticesLength = att_worldVerticesLength (mesh_at h p),
             att_deformAttachment = att_deformAttachment (mesh_at h this),
             mesh_region = mesh_region (mesh_at h this),
             mesh_path = mesh_path (mesh_at h this),
             mesh_regionUVs = mesh_regionUVs (mesh_at h p),
             mesh_uvs = uvs1,
             mesh_triangles = mesh_triangles (mesh_at h p),
             mesh_color = mesh_color (mesh_at h this),
             mesh_width = 0, mesh_height = 0,
             mesh_hullLength = mesh_hullLength (mesh_at h p),
             mesh_edges = length (h_arrays h) + 4,
             mesh_parentMesh = Some p,
             mesh_tempColor = \<lparr>col_r = 0, col_g = 0, col_b = 0, col_a = 0\<rparr>\<rparr>]"
    and "\<forall>r<length (h_arrays h). array_at h' r = array_at h r"
    and "h_boxes h' = h_boxes h" "h_clips h' = h_clips h"
proof -
  let ?M = "length (h_meshes h)"
  let ?A = "length (h_arrays h)"
  have t: "this < ?M" and pM: "p < ?M" using ok pok by (simp_all add: mesh_refs_ok_def)
  obtain reg' where reg': "mesh_region (mesh_at h this) = Some reg'" using reg by auto
  define m where "m =
    \<lparr>att_name = att_name (mesh_at h this),
             att_id = VertexAttachment_id (h_nextID h),
             att_bones = att_bones (mesh_at h p),
             att_vertices = att_vertices (mesh_at h p),
             att_worldVerticesLength = att_worldVerticesLength (mesh_at h p),
             att_deformAttachment = att_deformAttachment (mesh_at h this),
             mesh_region = mesh_region (mesh_at h this),
             mesh_path = mesh_path (mesh_at h this),
             mesh_regionUVs = mesh_regionUVs (mesh_at h p),
             mesh_uvs = ?A + 2,
             mesh_triangles = mesh_triangles (mesh_at h p),
             mesh_color = mesh_color (mesh_at h this),
             mesh_width = 0, mesh_height = 0,
             mesh_hullLength = mesh_hullLength (mesh_at h p),
             mesh_edges = ?A + 4,
             mesh_parentMesh = Some p,
             mesh_tempColor = \<lparr>col_r = 0, col_g = 0, col_b = 0, col_a = 0\<rparr>\<rparr>"
  define h5 where "h5 = ext_heap h [[], [], [], [], []] m"
  have nl: "newLinkedMesh h this =
      (case updateUVs h5 ?M of (Inl e, h6) \<Rightarrow> (Inl e, h6) | (Inr _, h6) \<Rightarrow> (Inr ?M, h6))"
  proof (cases "mesh_parentMesh (mesh_at h this)")
    case None
    then have "p = this" using p by simp
    then show ?thesis using t None
      by (simp add: newLinkedMesh_def new_MeshAttachment_ext Let_def ext_setParentMesh h5_def m_def)
  next
    case (Some q)
    then have "p = q" using p by simp
    then show ?thesis using t pM Some
      by (simp add: newLinkedMesh_def new_MeshAttachment_ext Let_def ext_setParentMesh h5_def m_def)
  qed
  have M5: "?M < length (h_meshes h5)" and r5: "mesh_region (mesh_at h5 ?M) = Some reg'"
    and m5: "mesh_at h5 ?M = m"
    by (simp_all add: h5_def m_def reg')
  define uvs1 where "uvs1 = (if length (array_at h5 (mesh_uvs (mesh_at h5 ?M)))
                      \<noteq> length (array_at h5 (mesh_regionUVs (mesh_at h5 ?M)))
                 then length (h_arrays h5) else mesh_uvs (mesh_at h5 ?M))"
  note f = updateUVs_frame[OF M5 r5 uvs1_def]
  have u1: "?A \<le> uvs1" by (simp add: uvs1_def m5 m_def h5_def)
  obtain h6 where u: "updateUVs h5 ?M = (Inr (), h6)" using f(1) by (cases "updateUVs h5 ?M") auto
  have res: "newLinkedMesh h this = (Inr ?M, h6)" by (simp add: nl u)
  show "fst (newLinkedMesh h this) = Inr ?M" by (simp add: res)
  have "h_meshes h6 = (h_meshes h5)[?M := (mesh_at h5 ?M)\<lparr>mesh_uvs := uvs1\<rparr>]"
    using f(2) by (simp add: u)
  also have "\<dots> = (h_meshes h5)[?M := m\<lparr>mesh_uvs := uvs1\<rparr>]" by (simp add: m5)
  also have "\<dots> = h_meshes h @ [m\<lparr>mesh_uvs := uvs1\<rparr>]" by (simp add: h5_def)
  finally have "h_meshes h6 = h_meshes h @ [m\<lparr>mesh_uvs := uvs1\<rparr>]" .
  then show "\<exists>uvs1. length (h_arrays h) \<le> uvs1 \<and>
          h_meshes h' = h_meshes h @
           [\<lparr>att_name = att_name (mesh_at h this),
             att_id = VertexAttachment_id (h_nextID h),
             att_bones = att_bones (mesh_at h p),
             att_vertices = att_vertices (mesh_at h p),
             att_worldVerticesLength = att_worldVerticesLength (mesh_at h p),
             att_deformAttachment = att_deformAttachment (mesh_at h this),
             mesh_region = mesh_region (mesh_at h this),
             mesh_path = mesh_path (mesh_at h this),
             mesh_regionUVs = mesh_regionUVs (mesh_at h p),
             mesh_uvs = uvs1,
             mesh_triangles = mesh_triangles (mesh_at h p),
             mesh_color = mesh_color (mesh_at h this),
             mesh_width = 0, mesh_height = 0,
             mesh_hullLength = mesh_hullLength (mesh_at h p),
             mesh_edges = length (h_arrays h) + 4,
             mesh_parentMesh = Some p,
             mesh_tempColor = \<lparr>col_r = 0, col_g = 0, col_b = 0, col_a = 0\<rparr>\<rparr>]"
    using u1 by (intro exI[of _ uvs1]) (simp add: h' res m_def)
  show "\<forall>r<length (h_arrays h). array_at h' r = array_at h r"
  proof (intro allI impI)
    fix r assume r: "r < ?A"
    have "r < length (h_arrays h5)" "r \<noteq> uvs1" using r u1 by (simp_all add: h5_def)
    then have "array_at h6 r = array_at h5 r" using f(3)[of r] by (simp add: u)
    also have "\<dots> = array_at h r" using r by (simp add: h5_def)
    finally show "array_at h' r = array_at h r" by (simp add: h' res)
  qed
  show "h_boxes h' = h_boxes h" "h_clips h' = h_clips h"
  proof -
    have "h_boxes h6 = h_boxes h5" "h_clips h6 = h_clips h5" using f(4,5) by (simp_all add: u)
    then show "h_boxes h' = h_boxes h" "h_clips h' = h_clips h" by (simp_all add: h' res h5_def)
  qed
qed

lemma setParentMesh_aliases:
  assumes "this < length (h_meshes h)" "p < length (h_meshes h)"
  shows "fst (setParentMesh h this (Some p)) = Inr () \<and>
         aliases_parent (snd (setParentMesh h this (Some p))) this p \<and>
         h_arrays (snd (setParentMesh h this (Some p))) = h_arrays h"
proof (cases "p = this")
  case True
  then show ?thesis using assms
    by (simp add: setParentMesh_exact aliases_parent_def put_mesh_def mesh_at_def)
next
  case False
  then show ?thesis using assms
    by (simp add: setParentMesh_exact aliases_parent_def put_mesh_def mesh_at_def)
qed

lemma linked_copy_aliases:
  assumes ok: "mesh_refs_ok h this" and par: "mesh_parentMesh (mesh_at h this) = Some p"
    and pok: "mesh_refs_ok h p" and reg: "mesh_region (mesh_at h this) \<noteq> None"
    and h': "h' = snd (MeshAttachment_copy h this)"
  shows "fst (MeshAttachment_copy h this) = Inr (length (h_meshes h))"
    and "aliases_parent h' (length (h_meshes h)) p"
    and "mesh_at h' p = mesh_at h p"
    and "\<forall>r<length (h_arrays h). array_at h' r = array_at h r"
    and "att_deformAttachment (mesh_at h' (length (h_meshes h))) = att_deformAttachment (mesh_at h this)"
proof -
  have t: "this < length (h_meshes h)" and pM: "p < length (h_meshes h)"
    using ok pok by (simp_all add: mesh_refs_ok_def)
  have c: "MeshAttachment_copy h this = newLinkedMesh h this"
    using t par by (simp add: MeshAttachment_copy_def)
  have p: "p = (case mesh_parentMesh (mesh_at h this) of None \<Rightarrow> this | Some q \<Rightarrow> q)"
    using par by simp
  have h'': "h' = snd (newLinkedMesh h this)" using h' c by simp
  note n = newLinkedMesh_result[OF ok p pok reg h'']
  show "fst (MeshAttachment_copy h this) = Inr (length (h_meshes h))" using n(1) c by simp
  obtain uvs1 where m: "h_meshes h' = h_meshes h @
           [\<lparr>att_name = att_name (mesh_at h this),
             att_id = VertexAttachment_id (h_nextID h),
             att_bones = att_bones (mesh_at h p),
             att_vertices = att_vertices (mesh_at h p),
             att_worldVerticesLength = att_worldVerticesLength (mesh_at h p),
             att_deformAttachment = att_deformAttachment (mesh_at h this),
             mesh_region = mesh_region (mesh_at h this),
             mesh_path = mesh_path (mesh_at h this),
             mesh_regionUVs = mesh_regionUVs (mesh_at h p),
             mesh_uvs = uvs1,
             mesh_triangles = mesh_triangles (mesh_at h p),
             mesh_color = mesh_color (mesh_at h this),
             mesh_width = 0, mesh_height = 0,
             mesh_hullLength = mesh_hullLength (mesh_at h p),
             mesh_edges = length (h_arrays h) + 4,
             mesh_parentMesh = Some p,
             mesh_tempColor = \<lparr>col_r = 0, col_g = 0, col_b = 0, col_a = 0\<rparr>\<rparr>]"
    using n(2) by blast
  show "aliases_parent h' (length (h_meshes h)) p"
    using pM by (simp add: aliases_parent_def mesh_at_def m nth_append)
  show "mesh_at h' p = mesh_at h p" using pM by (simp add: mesh_at_def m nth_append)
  show "\<forall>r<length (h_arrays h). array_at h' r = array_at h r" by (rule n(3))
  show "att_deformAttachment (mesh_at h' (length (h_meshes h))) = att_deformAttachment (mesh_at h this)"
    by (simp add: mesh_at_def m)
qed

lemma linked_copy_throws:
  assumes "this < length (h_meshes h)" "mesh_parentMesh (mesh_at h this) = Some p"
    "p < length (h_meshes h)" "mesh_region (mesh_at h this) = None"
  shows "fst (MeshAttachment_copy h this) = Inl (Error ''Region not set.'')"
  using assms
  by (simp add: MeshAttachment_copy_def newLinkedMesh_def new_MeshAttachment_ext Let_def
      ext_setParentMesh updateUVs_def)

lemma unlinked_copy_deep:
  assumes ok: "mesh_refs_ok h this" and par: "mesh_parentMesh (mesh_at h this) = None"
  shows "fst (MeshAttachment_copy h this) = Inr (length (h_meshes h))"
    and "deep_copy h (snd (MeshAttachment_copy h this)) this (length (h_meshes h))"
    and "att_deformAttachment (mesh_at (snd (MeshAttachment_copy h this)) (length (h_meshes h)))
           = att_deformAttachment (mesh_at h this)"
proof -
  note e = MeshAttachment_copy_exact[OF ok par]
  have r: "att_vertices (mesh_at h this) < length (h_arrays h)"
    "\<forall>b. att_bones (mesh_at h this) = Some b \<longrightarrow> b < length (h_arrays h)"
    "mesh_regionUVs (mesh_at h this) < length (h_arrays h)"
    "mesh_uvs (mesh_at h this) < length (h_arrays h)"
    "mesh_triangles (mesh_at h this) < length (h_arrays h)"
    using ok by (simp_all add: mesh_refs_ok_def)
  show "fst (MeshAttachment_copy h this) = Inr (length (h_meshes h))" by (simp add: e)
  show "att_deformAttachment (mesh_at (snd (MeshAttachment_copy h this)) (length (h_meshes h)))
           = att_deformAttachment (mesh_at h this)"
    by (simp add: e)
  show "deep_copy h (snd (MeshAttachment_copy h this)) this (length (h_meshes h))"
  proof (cases "att_bones (mesh_at h this)")
    case None
    then show ?thesis using r by (simp add: e deep_copy_def Let_def)
  next
    case (Some b)
    then show ?thesis using r by (simp add: e deep_copy_def Let_def)
  qed
qed

text \<open>
  Claim C4, as amended. After \<open>setParentMesh\<close> with a parent, the mesh holds the
  parent's \<open>bones\<close>, \<open>vertices\<close>, \<open>regionUVs\<close> and \<open>triangles\<close> arrays (the same
  references) and the parent's \<open>hullLength\<close> and \<open>worldVerticesLength\<close>. \<open>copy\<close> on
  a linked mesh whose region is set returns a new mesh with the same parent that
  holds the parent's arrays in the same way, and leaves the parent and every older
  array as they are; on a linked mesh whose region is null it throws. \<open>copy\<close> on a
  mesh without a parent returns a new mesh without a parent whose \<open>regionUVs\<close>,
  \<open>uvs\<close>, \<open>triangles\<close>, \<open>vertices\<close> and (when the source has them) \<open>bones\<close>
  are new arrays, distinct from one another and from every older array, with the
  contents of the source's; the older arrays and meshes are as before.
\<close>

theorem linked_mesh_sharing:
  "(this < length (h_meshes h) \<and> p < length (h_meshes h) \<longrightarrow>
      fst (setParentMesh h this (Some p)) = Inr () \<and>
      aliases_parent (snd (setParentMesh h this (Some p))) this p \<and>
      h_arrays (snd (setParentMesh h this (Some p))) = h_arrays h) \<and>
   (mesh_refs_ok h this \<and> mesh_parentMesh (mesh_at h this) = Some p \<and> mesh_refs_ok h p \<and>
    mesh_region (mesh_at h this) \<noteq> None \<longrightarrow>
      fst (MeshAttachment_copy h this) = Inr (length (h_meshes h)) \<and>
      aliases_parent (snd (MeshAttachment_copy h this)) (length (h_meshes h)) p \<and>
      mesh_at (snd (MeshAttachment_copy h this)) p = mesh_at h p \<and>
      (\<forall>r<length (h_arrays h). array_at (snd (MeshAttachment_copy h this)) r = array_at h r)) \<and>
   (mesh_refs_ok h this \<and> mesh_parentMesh (mesh_at h this) = Some p \<and>
    mesh_region (mesh_at h this) = None \<longrightarrow>
      fst (MeshAttachment_copy h this) = Inl (Error ''Region not set.'')) \<and>
   (mesh_refs_ok h this \<and> mesh_parentMesh (mesh_at h this) = None \<longrightarrow>
      fst (MeshAttachment_copy h this) = Inr (length (h_meshes h)) \<and>
      deep_copy h (snd (MeshAttachment_copy h this)) this (length (h_meshes h)))"
proof (intro conjI impI)
  assume "this < length (h_meshes h) \<and> p < length (h_meshes h)"
  then show "fst (setParentMesh h this (Some p)) = Inr ()"
    "aliases_parent (snd (setParentMesh h this (Some p))) this p"
    "h_arrays (snd (setParentMesh h this (Some p))) = h_arrays h"
    using setParentMesh_aliases[of this h p] by simp_all
next
  assume a: "mesh_refs_ok h this \<and> mesh_parentMesh (mesh_at h this) = Some p \<and> mesh_refs_ok h p \<and>
    mesh_region (mesh_at h this) \<noteq> None"
  then show "fst (MeshAttachment_copy h this) = Inr (length (h_meshes h))"
    "aliases_parent (snd (MeshAttachment_copy h this)) (length (h_meshes h)) p"
    "mesh_at (snd (MeshAttachment_copy h this)) p = mesh_at h p"
    "\<forall>r<length (h_arrays h). array_at (snd (MeshAttachment_copy h this)) r = array_at h r"
    using linked_copy_aliases[of h this p "snd (MeshAttachment_copy h this)"] by simp_all
next
  assume "mesh_refs_ok h this \<and> mesh_parentMesh (mesh_at h this) = Some p \<and>
    mesh_region (mesh_at h this) = None"
  then show "fst (MeshAttachment_copy h this) = Inl (Error ''Region not set.'')"
    using linked_copy_throws[of this h p] by (simp add: mesh_refs_ok_def)
next
  assume "mesh_refs_ok h this \<and> mesh_parentMesh (mesh_at h this) = None"
  then show "fst (MeshAttachment_copy h this) = Inr (length (h_meshes h))"
    "deep_copy h (snd (MeshAttachment_copy h this)) this (length (h_meshes h))"
    using unlinked_copy_deep[of h this] by simp_all
qed

text \<open>
  Claim C10. \<open>copyTo\<close> leaves in the destination's \<open>deformAttachment\<close> the
  reference that the source holds, and so does \<open>copy\<close> of a bounding box, of a
  clipping attachment and of a mesh (with or without a parent) in the new attachment
  it returns. The new attachment is an object that was not there before, so when the
  source's \<open>deformAttachment\<close> is the source itself, the copy's is the source and
  not the copy.
\<close>

theorem copy_keeps_deformAttachment:
  "(valid_ref h s \<and> valid_ref h d \<longrightarrow>
      fst (copyTo h s d) = Inr () \<and>
      att_deformAttachment (base_at (snd (copyTo h s d)) d) = att_deformAttachment (base_at h s)) \<and>
   (b < length (h_boxes h) \<longrightarrow>
      fst (BoundingBoxAttachment_copy h b) = Inr (length (h_boxes h)) \<and>
      att_deformAttachment (h_boxes (snd (BoundingBoxAttachment_copy h b)) ! length (h_boxes h))
        = att_deformAttachment (h_boxes h ! b) \<and>
      (att_deformAttachment (h_boxes h ! b) = Some (BoundingBoxRef b) \<longrightarrow>
         att_deformAttachment (h_boxes (snd (BoundingBoxAttachment_copy h b)) ! length (h_boxes h))
           \<noteq> Some (BoundingBoxRef (length (h_boxes h))))) \<and>
   (c < length (h_clips h) \<longrightarrow>
      fst (ClippingAttachment_copy h c) = Inr (length (h_clips h)) \<and>
      att_deformAttachment (h_clips (snd (ClippingAttachment_copy h c)) ! length (h_clips h))
        = att_deformAttachment (h_clips h ! c) \<and>
      (att_deformAttachment (h_clips h ! c) = Some (ClippingRef c) \<longrightarrow>
         att_deformAttachment (h_clips (snd (ClippingAttachment_copy h c)) ! length (h_clips h))
           \<noteq> Some (ClippingRef (length (h_clips h))))) \<and>
   (mesh_refs_ok h m \<and>
    (\<forall>p. mesh_parentMesh (mesh_at h m) = Some p \<longrightarrow>
       mesh_refs_ok h p \<and> mesh_region (mesh_at h m) \<noteq> None) \<longrightarrow>
      fst (MeshAttachment_copy h m) = Inr (length (h_meshes h)) \<and>
      att_deformAttachment (mesh_at (snd (MeshAttachment_copy h m)) (length (h_meshes h)))
        = att_deformAttachment (mesh_at h m) \<and>
      (att_deformAttachment (mesh_at h m) = Some (MeshRef m) \<longrightarrow>
         att_deformAttachment (mesh_at (snd (MeshAttachment_copy h m)) (length (h_meshes h)))
           \<noteq> Some (MeshRef (length (h_meshes h)))))"
proof (intro conjI impI)
  assume "valid_ref h s \<and> valid_ref h d"
  then show "fst (copyTo h s d) = Inr ()"
    "att_deformAttachment (base_at (snd (copyTo h s d)) d) = att_deformAttachment (base_at h s)"
    using copyTo_returns[of h s d] copyTo_deformAttachment[of h s d] by simp_all
next
  assume b: "b < length (h_boxes h)"
  note l = BoundingBoxAttachment_copy_deform[OF b]
  show "fst (BoundingBoxAttachment_copy h b) = Inr (length (h_boxes h))" using l by simp
  show e: "att_deformAttachment (h_boxes (snd (BoundingBoxAttachment_copy h b)) ! length (h_boxes h))
        = att_deformAttachment (h_boxes h ! b)" using l by simp
  assume "att_deformAttachment (h_boxes h ! b) = Some (BoundingBoxRef b)"
  then show "att_deformAttachment (h_boxes (snd (BoundingBoxAttachment_copy h b)) ! length (h_boxes h))
           \<noteq> Some (BoundingBoxRef (length (h_boxes h)))"
    using e b by simp
next
  assume c: "c < length (h_clips h)"
  note l = ClippingAttachment_copy_deform[OF c]
  show "fst (ClippingAttachment_copy h c) = Inr (length (h_clips h))" using l by simp
  show e: "att_deformAttachment (h_clips (snd (ClippingAttachment_copy h c)) ! length (h_clips h))
        = att_deformAttachment (h_clips h ! c)" using l by simp
  assume "att_deformAttachment (h_clips h ! c) = Some (ClippingRef c)"
  then show "att_deformAttachment (h_clips (snd (ClippingAttachment_copy h c)) ! length (h_clips h))
           \<noteq> Some (ClippingRef (length (h_clips h)))"
    using e c by simp
next
  assume a: "mesh_refs_ok h m \<and>
    (\<forall>p. mesh_parentMesh (mesh_at h m) = Some p \<longrightarrow>
       mesh_refs_ok h p \<and> mesh_region (mesh_at h m) \<noteq> None)"
  have l: "fst (MeshAttachment_copy h m) = Inr (length (h_meshes h)) \<and>
      att_deformAttachment (mesh_at (snd (MeshAttachment_copy h m)) (length (h_meshes h)))
        = att_deformAttachment (mesh_at h m)"
  proof (cases "mesh_parentMesh (mesh_at h m)")
    case None
    then show ?thesis using a unlinked_copy_deep[of h m] by simp
  next
    case (Some p)
    then show ?thesis using a linked_copy_aliases[of h m p "snd (MeshAttachment_copy h m)"] by simp
  qed
  show "fst (MeshAttachment_copy h m) = Inr (length (h_meshes h))" using l by simp
  show e: "att_deformAttachment (mesh_at (snd (MeshAttachment_copy h m)) (length (h_meshes h)))
        = att_deformAttachment (mesh_at h m)" using l by simp
  assume "att_deformAttachment (mesh_at h m) = Some (MeshRef m)"
  moreover have "m < length (h_meshes h)" using a by (simp add: mesh_refs_ok_def)
  ultimately show "att_deformAttachment (mesh_at (snd (MeshAttachment_copy h m)) (length (h_meshes h)))
           \<noteq> Some (MeshRef (length (h_meshes h)))"
    using e by simp
qed

lemma heap3_eq:
  "heap3 =
     \<lparr>h_arrays = [[], [], [], [], [], [], []],
      h_meshes =
        [\<lparr>att_name = ''mesh'', att_id = 4096, att_bones = None, att_vertices = 2,
          att_worldVerticesLength = 0, att_deformAttachment = Some (MeshRef 0),
          mesh_region = None, mesh_path = ''mesh.png'', mesh_regionUVs = 3, mesh_uvs = 4,
          mesh_triangles = 5, mesh_color = \<lparr>col_r = 1, col_g = 1, col_b = 1, col_a = 1\<rparr>,
          mesh_width = 0, mesh_height = 0, mesh_hullLength = 0, mesh_edges = 6,
          mesh_parentMesh = None,
          mesh_tempColor = \<lparr>col_r = 0, col_g = 0, col_b = 0, col_a = 0\<rparr>\<rparr>],
      h_boxes =
        [\<lparr>att_name = ''box'', att_id = 0, att_bones = None, att_vertices = 0,
          att_worldVerticesLength = 0, att_deformAttachment = Some (BoundingBoxRef 0),
          bbox_color = \<lparr>col_r = 1, col_g = 1, col_b = 1, col_a = 1\<rparr>\<rparr>],
      h_clips =
        [\<lparr>att_name = ''clip'', att_id = 2048, att_bones = None, att_vertices = 1,
          att_worldVerticesLength = 0, att_deformAttachment = Some (ClippingRef 0),
          clip_endSlot = None,
          clip_color = \<lparr>col_r = Num 0.2275, col_g = Num 0.2275, col_b = Num 0.8078, col_a = 1\<rparr>\<rparr>],
      h_nextID = 3\<rparr>"
  by (simp add: heap3_def heap0_def new_MeshAttachment_exact new_BoundingBoxAttachment_def
      new_ClippingAttachment_def VertexAttachment_init_def alloc_array_def Let_def
      VertexAttachment_id_eq)

theorem copy_keeps_deformAttachment_witness:
  "fst (copyTo heap3 (MeshRef 0) (ClippingRef 0)) = Inr () \<and>
   att_deformAttachment (base_at (snd (copyTo heap3 (MeshRef 0) (ClippingRef 0))) (ClippingRef 0))
     = Some (MeshRef 0) \<and>
   fst (BoundingBoxAttachment_copy heap3 0) = Inr 1 \<and>
   att_deformAttachment (h_boxes (snd (BoundingBoxAttachment_copy heap3 0)) ! 1)
     = Some (BoundingBoxRef 0) \<and>
   fst (ClippingAttachment_copy heap3 0) = Inr 1 \<and>
   att_deformAttachment (h_clips (snd (ClippingAttachment_copy heap3 0)) ! 1)
     = Some (ClippingRef 0) \<and>
   fst (MeshAttachment_copy heap3 0) = Inr 1 \<and>
   att_deformAttachment (mesh_at (snd (MeshAttachment_copy heap3 0)) 1) = Some (MeshRef 0)"
  using copy_keeps_deformAttachment[of heap3 "MeshRef 0" "ClippingRef 0" 0 0 0]
  by (simp add: heap3_eq mesh_refs_ok_def mesh_at_def VertexAttachment.truncate_def)

lemma heap_linked_eq:
  "heap_linked =
     \<lparr>h_arrays = [[Num 0, Num 0, Num 4, Num 0, Num 0, Num 4],
                  [Num 0, Num 0, Num 1, Num 0, Num 0, Num 1],
                  [Num 0, Num 0, Num (1/2), Num 0, Num 0, Num (1/2)],
                  [Num 0, Num 1, Num 2], [], [], [], [], [], []],
      h_meshes =
        [\<lparr>att_name = ''parent'', att_id = 0, att_bones = None, att_vertices = 0,
          att_worldVerticesLength = Num 6, att_deformAttachment = Some (MeshRef 0),
          mesh_region = Some (Region \<lparr>reg_u = Num 0, reg_v = Num 0, reg_u2 = Num (1/2), reg_v2 = Num (1/2)\<rparr>),
          mesh_path = ''parent.png'',
          mesh_regionUVs = 1, mesh_uvs = 2, mesh_triangles = 3,
          mesh_color = \<lparr>col_r = 1, col_g = 1, col_b = 1, col_a = 1\<rparr>,
          mesh_width = Num 4, mesh_height = Num 4, mesh_hullLength = Num 6, mesh_edges = 4,
          mesh_parentMesh = None,
          mesh_tempColor = \<lparr>col_r = 0, col_g = 0, col_b = 0, col_a = 0\<rparr>\<rparr>,
         \<lparr>att_name = ''linked'', att_id = 2048, att_bones = None, att_vertices = 0,
          att_worldVerticesLength = Num 6, att_deformAttachment = Some (MeshRef 1),
          mesh_region = None,
          mesh_path = ''linked.png'',
          mesh_regionUVs = 1, mesh_uvs = 7, mesh_triangles = 3,
          mesh_color = \<lparr>col_r = 1, col_g = 1, col_b = 1, col_a = 1\<rparr>,
          mesh_width = 0, mesh_height = 0, mesh_hullLength = Num 6, mesh_edges = 9,
          mesh_parentMesh = Some 0,
          mesh_tempColor = \<lparr>col_r = 0, col_g = 0, col_b = 0, col_a = 0\<rparr>\<rparr>],
      h_boxes = [], h_clips = [], h_nextID = 2\<rparr>"
  by (simp add: heap_linked_def heap_parent_def new_MeshAttachment_exact setParentMesh_def
      put_mesh_def mesh_at_def Let_def VertexAttachment_id_eq)

theorem linked_mesh_sharing_witness:
  "fst (setParentMesh (snd (new_MeshAttachment heap_parent (Some ''linked'') ''linked.png'')) 1 (Some 0))
     = Inr () \<and>
   aliases_parent heap_linked 1 0 \<and>
   fst (MeshAttachment_copy heap_linked_region 1) = Inr 2 \<and>
   aliases_parent (snd (MeshAttachment_copy heap_linked_region 1)) 2 0 \<and>
   mesh_at (snd (MeshAttachment_copy heap_linked_region 1)) 0 = mesh_at heap_parent 0 \<and>
   fst (MeshAttachment_copy heap_linked 1) = Inl (Error ''Region not set.'') \<and>
   fst (MeshAttachment_copy heap_parent 0) = Inr 1 \<and>
   deep_copy heap_parent (snd (MeshAttachment_copy heap_parent 0)) 0 1 \<and>
   array_at (snd (MeshAttachment_copy heap_parent 0))
     (att_vertices (mesh_at (snd (MeshAttachment_copy heap_parent 0)) 1))
     = [Num 0, Num 0, Num 4, Num 0, Num 0, Num 4] \<and>
   5 \<le> att_vertices (mesh_at (snd (MeshAttachment_copy heap_parent 0)) 1)"
proof -
  let ?h = "snd (new_MeshAttachment heap_parent (Some ''linked'') ''linked.png'')"
  have 1: "fst (setParentMesh ?h 1 (Some 0)) = Inr () \<and> aliases_parent heap_linked 1 0"
  proof -
    have "length (h_meshes ?h) = 2"
      by (simp add: new_MeshAttachment_exact heap_parent_def)
    then show ?thesis
      using linked_mesh_sharing[of 1 ?h 0] by (simp add: heap_linked_def)
  qed
  have 2: "fst (MeshAttachment_copy heap_linked_region 1) = Inr 2 \<and>
     aliases_parent (snd (MeshAttachment_copy heap_linked_region 1)) 2 0 \<and>
     mesh_at (snd (MeshAttachment_copy heap_linked_region 1)) 0 = mesh_at heap_parent 0"
  proof -
    have hyp: "mesh_refs_ok heap_linked_region 1 \<and>
        mesh_parentMesh (mesh_at heap_linked_region 1) = Some 0 \<and>
        mesh_refs_ok heap_linked_region 0 \<and> mesh_region (mesh_at heap_linked_region 1) \<noteq> None"
      by (simp add: heap_linked_region_def heap_linked_eq mesh_refs_ok_def mesh_at_def put_mesh_def)
    have len: "length (h_meshes heap_linked_region) = 2"
      "mesh_at heap_linked_region 0 = mesh_at heap_parent 0"
      by (simp_all add: heap_linked_region_def heap_linked_eq heap_parent_def mesh_at_def put_mesh_def)
    from linked_mesh_sharing[of 1 heap_linked_region 0, THEN conjunct2, THEN conjunct1, THEN mp, OF hyp]
    show ?thesis by (simp add: len)
  qed
  have 3: "fst (MeshAttachment_copy heap_linked 1) = Inl (Error ''Region not set.'')"
  proof -
    have hyp: "mesh_refs_ok heap_linked 1 \<and> mesh_parentMesh (mesh_at heap_linked 1) = Some 0 \<and>
        mesh_region (mesh_at heap_linked 1) = None"
      by (simp add: heap_linked_eq mesh_refs_ok_def mesh_at_def)
    from linked_mesh_sharing[of 1 heap_linked 0, THEN conjunct2, THEN conjunct2, THEN conjunct1,
        THEN mp, OF hyp]
    show ?thesis .
  qed
  have 4: "fst (MeshAttachment_copy heap_parent 0) = Inr 1 \<and>
     deep_copy heap_parent (snd (MeshAttachment_copy heap_parent 0)) 0 1"
  proof -
    have hyp: "mesh_refs_ok heap_parent 0 \<and> mesh_parentMesh (mesh_at heap_parent 0) = None"
      by (simp add: heap_parent_def mesh_refs_ok_def mesh_at_def)
    have len: "length (h_meshes heap_parent) = 1" by (simp add: heap_parent_def)
    from linked_mesh_sharing[of 0 heap_parent, THEN conjunct2, THEN conjunct2, THEN conjunct2,
        THEN mp, OF hyp]
    show ?thesis by (simp add: len)
  qed
  have 5: "array_at (snd (MeshAttachment_copy heap_parent 0))
     (att_vertices (mesh_at (snd (MeshAttachment_copy heap_parent 0)) 1))
     = [Num 0, Num 0, Num 4, Num 0, Num 0, Num 4] \<and>
   5 \<le> att_vertices (mesh_at (snd (MeshAttachment_copy heap_parent 0)) 1)"
  proof -
    have "array_at heap_parent (att_vertices (mesh_at heap_parent 0))
            = [Num 0, Num 0, Num 4, Num 0, Num 0, Num 4]"
      "length (h_arrays heap_parent) = 5"
      by (simp_all add: heap_parent_def mesh_at_def array_at_def)
    then show ?thesis using 4 by (simp add: deep_copy_def Let_def)
  qed
  show ?thesis using 1 2 3 4 5 by simp
qed

text \<open>
  The claim as stated fails for a linked mesh whose region has not been set: its
  \<open>copy\<close> throws.
\<close>

theorem linked_copy_throws_counterexample:
  "mesh_parentMesh (mesh_at heap_linked 1) = Some 0 \<and>
   fst (MeshAttachment_copy heap_linked 1) = Inl (Error ''Region not set.'')"
  using linked_copy_throws[of 1 heap_linked 0]
  by (simp add: heap_linked_eq mesh_at_def)

section \<open>Unset references\<close>

text \<open>
  Claim C7. The getter of \<open>target\<close> throws while the target is null (as it is after
  the constructor) and leaves the object as it is; after \<open>target\<close> has been set the
  getter returns the slot that was set. \<open>updateUVs\<close> on a mesh whose region is null
  throws and leaves the heap as it is.
\<close>

theorem unset_reference_errors:
  "(pcd_target p = None \<longrightarrow> get_target p = (Inl (Error ''SlotData not set.''), p)) \<and>
   get_target (new_PathConstraintData name) =
     (Inl (Error ''SlotData not set.''), new_PathConstraintData name) \<and>
   get_target (set_target p s) = (Inr s, set_target p s) \<and>
   (this < length (h_meshes h) \<and> mesh_region (mesh_at h this) = None \<longrightarrow>
      updateUVs h this = (Inl (Error ''Region not set.''), h))"
  by (simp add: get_target_def set_target_def new_PathConstraintData_def updateUVs_def)

theorem unset_reference_errors_witness:
  "get_target (new_PathConstraintData ''rail'') =
     (Inl (Error ''SlotData not set.''), new_PathConstraintData ''rail'') \<and>
   fst (get_target (set_target (new_PathConstraintData ''rail'')
          \<lparr>sd_index = 0, sd_name = ''cart'', sd_color = \<lparr>col_r = 1, col_g = 1, col_b = 1, col_a = 1\<rparr>,
           sd_darkColor = None, sd_attachmentName = None\<rparr>)) =
     Inr \<lparr>sd_index = 0, sd_name = ''cart'', sd_color = \<lparr>col_r = 1, col_g = 1, col_b = 1, col_a = 1\<rparr>,
          sd_darkColor = None, sd_attachmentName = None\<rparr> \<and>
   updateUVs (snd (new_MeshAttachment heap0 (Some ''m'') ''m.png'')) 0 =
     (Inl (Error ''Region not set.''), snd (new_MeshAttachment heap0 (Some ''m'') ''m.png''))"
  using unset_reference_errors[of "new_PathConstraintData ''rail''" "''rail''"
      "\<lparr>sd_index = 0, sd_name = ''cart'', sd_color = \<lparr>col_r = 1, col_g = 1, col_b = 1, col_a = 1\<rparr>,
           sd_darkColor = None, sd_attachmentName = None\<rparr>"
      0 "snd (new_MeshAttachment heap0 (Some ''m'') ''m.png'')"]
  by (simp add: new_PathConstraintData_def new_MeshAttachment_exact mesh_at_def heap0_def)

section \<open>computeWorldVertices, weighted\<close>

declare skip_loop.simps [simp del] inner_loop.simps [simp del]

lemma enc_bones_append: "enc_bones (xs @ ys) = enc_bones xs @ enc_bones ys"
  by (induction xs) simp_all

lemma triples_append: "triples (xs @ ys) = triples xs @ triples ys"
  by (induction xs rule: triples.induct) simp_all

lemma length_triples: "length (triples es) = 3 * length es"
  by (induction es rule: triples.induct) simp_all

lemma iget_mid: "iget (A @ x # B) (Some (int (length A))) = Some x"
  by (simp add: iget_def)

lemma agetn_mid:
  "agetn (triples E @ x # y # weight # R) (Some (3 * int (length E))) = x"
  "agetn (triples E @ x # y # weight # R) (iadd (Some (3 * int (length E))) (Some 1)) = y"
  "agetn (triples E @ x # y # weight # R) (iadd (Some (3 * int (length E))) (Some 2)) = weight"
proof -
  have n: "nat (3 * int (length E)) = length (triples E)"
    "nat (3 * int (length E) + 1) = length (triples E) + 1"
    "nat (3 * int (length E) + 2) = length (triples E) + 2"
    by (simp_all add: length_triples nat_add_distrib nat_mult_distrib)
  show "agetn (triples E @ x # y # weight # R) (Some (3 * int (length E))) = x"
    "agetn (triples E @ x # y # weight # R) (iadd (Some (3 * int (length E))) (Some 1)) = y"
    "agetn (triples E @ x # y # weight # R) (iadd (Some (3 * int (length E))) (Some 2)) = weight"
    unfolding agetn_def iadd_def aget_def
    by (simp_all add: n nth_append length_triples)
qed

lemma inner_loop_run:
  assumes "bones_ok skeletonBones g"
  shows "inner_loop skeletonBones (A @ map fst g @ B) (triples (E @ g @ F)) []
           (Some (int (length A) + int (length g))) (Some (int (length A)))
           (Some (3 * int (length E))) f wx wy
         = Inr (Some (int (length A) + int (length g)), Some (3 * (int (length E) + int (length g))),
                f + 2 * int (length g), skin skeletonBones g wx wy)"
  using assms
proof (induction g arbitrary: A E f wx wy)
  case Nil
  show ?case by (subst inner_loop.simps) (simp add: ilt_def)
next
  case (Cons e g)
  obtain i x y weight where e: "e = (i, x, y, weight)" by (cases e)
  have ok: "0 \<le> i" "i < int (length skeletonBones)" "bones_ok skeletonBones g"
    using Cons.prems by (simp_all add: bones_ok_def e)
  have lt: "ilt (Some (int (length A))) (Some (int (length A) + int (length (e # g))))"
    by (simp add: ilt_def)
  have b: "bone_lookup skeletonBones (iget (A @ map fst (e # g) @ B) (Some (int (length A))))
             = Some (skeletonBones ! nat i)"
    using ok by (simp add: iget_mid e bone_lookup_def)
  have t: "triples (E @ (e # g) @ F) = triples E @ x # y # weight # triples (g @ F)"
    by (simp add: triples_append e)
  have ih: "inner_loop skeletonBones ((A @ [i]) @ map fst g @ B) (triples ((E @ [e]) @ g @ F)) []
           (Some (int (length (A @ [i])) + int (length g))) (Some (int (length (A @ [i]))))
           (Some (3 * int (length (E @ [e])))) (f + 2) wx' wy'
         = Inr (Some (int (length (A @ [i])) + int (length g)),
                Some (3 * (int (length (E @ [e])) + int (length g))),
                (f + 2) + 2 * int (length g), skin skeletonBones g wx' wy')" for wx' wy'
    by (rule Cons.IH[OF ok(3)])
  show ?case
    apply (subst inner_loop.simps)
    apply (simp only: lt if_True b option.case Let_def t agetn_mid)
    using ih by (simp add: e iadd_def triples_append algebra_simps)
qed

lemma weighted_loop_exit:
  "\<not> w < count \<Longrightarrow>
   weighted_loop skeletonBones bones vertices deform v b f w count stride wv = Some (Inr (), wv)"
  by (subst weighted_loop.simps) simp

lemma weighted_loop_run:
  assumes "0 < stride" "\<forall>g\<in>set G. bones_ok skeletonBones g"
  shows "weighted_loop skeletonBones (A @ enc_bones G @ B) (triples (E @ concat G @ F)) []
           (Some (int (length A))) (Some (3 * int (length E))) f w (w + int (length G) * stride) stride wv
         = Some (Inr (), write_pairs (map (\<lambda>g. skin skeletonBones g 0 0) G) w stride wv)"
  using assms(2)
proof (induction G arbitrary: A E f w wv)
  case Nil
  show ?case by (simp add: weighted_loop_exit)
next
  case (Cons g G)
  have ok: "bones_ok skeletonBones g" "\<forall>g\<in>set G. bones_ok skeletonBones g"
    using Cons.prems by simp_all
  have lt: "w < w + int (length (g # G)) * stride"
    using assms(1) by (simp add: add_pos_nonneg)
  have n0: "iget (A @ enc_bones (g # G) @ B) (Some (int (length A))) = Some (int (length g))"
    by (simp add: iget_mid)
  have inner: "inner_loop skeletonBones (A @ enc_bones (g # G) @ B) (triples (E @ concat (g # G) @ F)) []
           (iadd (Some (int (length g))) (iadd (Some (int (length A))) (Some 1)))
           (iadd (Some (int (length A))) (Some 1))
           (Some (3 * int (length E))) f 0 0
         = Inr (Some (int (length (A @ [int (length g)] @ map fst g))),
                Some (3 * int (length (E @ g))),
                f + 2 * int (length g), skin skeletonBones g 0 0)"
    using inner_loop_run[OF ok(1), of "A @ [int (length g)]" "enc_bones G @ B" E "concat G @ F" f 0 0]
    by (simp add: iadd_def algebra_simps)
  have e: "w + int (length (g # G)) * stride = (w + stride) + int (length G) * stride"
    by (simp add: algebra_simps)
  have ih: "weighted_loop skeletonBones ((A @ [int (length g)] @ map fst g) @ enc_bones G @ B)
           (triples ((E @ g) @ concat G @ F)) []
           (Some (int (length (A @ [int (length g)] @ map fst g)))) (Some (3 * int (length (E @ g))))
           (f + 2 * int (length g)) (w + stride) ((w + stride) + int (length G) * stride) stride wv'
         = Some (Inr (), write_pairs (map (\<lambda>g. skin skeletonBones g 0 0) G) (w + stride) stride wv')"
    for wv'
    by (rule Cons.IH[OF ok(2)])
  have bs: "A @ enc_bones (g # G) @ B = (A @ [int (length g)] @ map fst g) @ enc_bones G @ B"
    "triples (E @ concat (g # G) @ F) = triples ((E @ g) @ concat G @ F)"
    by simp_all
  show ?case
    apply (subst weighted_loop.simps)
    apply (simp only: lt if_True n0 Let_def inner sum.case prod.case)
    apply (subst e)
    apply (subst bs(1))
    apply (subst bs(2))
    apply (cases "skin skeletonBones g 0 0")
    apply (simp only: prod.case ih list.map write_pairs.simps)
    done
qed

lemma skip_loop_run:
  "skip_loop (A @ enc_bones S @ B) i (i + 2 * int (length S)) (Some (int (length A))) (Some sk)
     = (Some (int (length (A @ enc_bones S))), Some (sk + int (length (concat S))))"
proof (induction S arbitrary: A i sk)
  case Nil
  show ?case by (subst skip_loop.simps) simp
next
  case (Cons g S)
  have lt: "i < i + 2 * int (length (g # S))" by simp
  have n: "iget (A @ enc_bones (g # S) @ B) (Some (int (length A))) = Some (int (length g))"
    by (simp add: iget_mid)
  have ih: "skip_loop ((A @ [int (length g)] @ map fst g) @ enc_bones S @ B) (i + 2)
              ((i + 2) + 2 * int (length S))
              (Some (int (length (A @ [int (length g)] @ map fst g)))) (Some (sk + int (length g)))
     = (Some (int (length ((A @ [int (length g)] @ map fst g) @ enc_bones S))),
        Some ((sk + int (length g)) + int (length (concat S))))"
    by (rule Cons.IH)
  show ?case
    apply (subst skip_loop.simps)
    apply (simp only: lt if_True n Let_def)
    using ih by (simp add: iadd_def algebra_simps)
qed

lemma number_zero_plus_times_one: "(0::number) + X * 1 = X"
  by (cases X) (simp_all add: zero_number_def one_number_def)

lemma skin_single:
  "skin skeletonBones [(i, x, y, 1)] 0 0 =
     (x * bone_a (skeletonBones ! nat i) + y * bone_b (skeletonBones ! nat i)
        + bone_worldX (skeletonBones ! nat i),
      x * bone_c (skeletonBones ! nat i) + y * bone_d (skeletonBones ! nat i)
        + bone_worldY (skeletonBones ! nat i))"
  by (simp add: number_zero_plus_times_one)

text \<open>The weighted path on a well-formed attachment, with an empty deform array.\<close>

lemma computeWorldVertices_weighted:
  assumes stride: "0 < stride"
    and count: "0 \<le> count" "count < 2 ^ 31"
    and start: "start = 2 * int s"
    and fits: "s + nat (count div 2) \<le> length groups"
    and ok: "\<forall>g\<in>set (take (nat (count div 2)) (drop s groups)).
               bones_ok (skel_bones (bone_skeleton (slot_bone slot))) g"
    and deform: "slot_deform slot = []"
  shows "computeWorldVertices (Some (enc_bones groups)) (enc_vertices groups) slot start count
           worldVertices offset stride
         = Some (Inr (), write_pairs
                   (map (\<lambda>g. skin (skel_bones (bone_skeleton (slot_bone slot))) g 0 0)
                      (take (nat (count div 2)) (drop s groups)))
                   offset stride worldVertices)"
proof -
  define m where "m = nat (count div 2)"
  define S where "S = take s groups"
  define G where "G = take m (drop s groups)"
  define R where "R = drop m (drop s groups)"
  have g: "groups = S @ G @ R" by (simp only: S_def G_def R_def append_take_drop_id)
  have lS: "length S = s" and lG: "length G = m" using fits by (simp_all add: S_def G_def m_def)
  have sar: "sar1 count = int m" using sar1_div2[of count] count by (simp add: m_def)
  have sk: "skip_loop (enc_bones groups) 0 start (Some 0) (Some 0)
              = (Some (int (length (enc_bones S))), Some (int (length (concat S))))"
    using skip_loop_run[of "[]" S "enc_bones (G @ R)" 0 0]
    by (simp add: g enc_bones_append start lS)
  have run: "weighted_loop (skel_bones (bone_skeleton (slot_bone slot)))
           (enc_bones S @ enc_bones G @ enc_bones R) (triples (concat S @ concat G @ concat R)) []
           (Some (int (length (enc_bones S)))) (Some (3 * int (length (concat S)))) f offset
           (offset + int (length G) * stride) stride worldVertices
         = Some (Inr (), write_pairs (map (\<lambda>g. skin (skel_bones (bone_skeleton (slot_bone slot))) g 0 0) G)
                   offset stride worldVertices)" for f
    using ok by (intro weighted_loop_run[OF stride]) (simp add: G_def m_def)
  have v: "enc_bones groups = enc_bones S @ enc_bones G @ enc_bones R"
    "enc_vertices groups = triples (concat S @ concat G @ concat R)"
    by (simp_all add: g enc_bones_append enc_vertices_def)
  show ?thesis
    unfolding computeWorldVertices_def Let_def sk sar option.case prod.case deform
    unfolding v G_def[symmetric] m_def[symmetric]
    using run by (simp add: lG mult.commute)
qed

lemma truncate_fields:
  "bone_a (BoneTransform.truncate r) = bone_a r" "bone_b (BoneTransform.truncate r) = bone_b r"
  "bone_c (BoneTransform.truncate r) = bone_c r" "bone_d (BoneTransform.truncate r) = bone_d r"
  "bone_worldX (BoneTransform.truncate r) = bone_worldX r"
  "bone_worldY (BoneTransform.truncate r) = bone_worldY r"
  by (simp_all add: BoneTransform.truncate_def)

lemma computeWorldVertices_one:
  assumes "slot_deform slot1 = []"
  shows "computeWorldVertices None [x, y] slot1 0 2 worldVertices1 0 2 =
     Some (Inr (), worldVertices1
       (0 \<mapsto> x * bone_a (slot_bone slot1) + y * bone_b (slot_bone slot1) + bone_worldX (slot_bone slot1),
        1 \<mapsto> x * bone_c (slot_bone slot1) + y * bone_d (slot_bone slot1) + bone_worldY (slot_bone slot1)))"
proof -
  have sar: "sar1 2 = 1" using sar1_div2[of 2] by simp
  have "unweighted_loop [x, y] (slot_bone slot1) 0 0 (0 + int 1 * 2) 2 worldVertices1 =
     Some (worldVertices1
       (0 \<mapsto> x * bone_a (slot_bone slot1) + y * bone_b (slot_bone slot1) + bone_worldX (slot_bone slot1),
        1 \<mapsto> x * bone_c (slot_bone slot1) + y * bone_d (slot_bone slot1) + bone_worldY (slot_bone slot1)))"
    by (subst unweighted_loop_run) (simp_all add: aget_def)
  then show ?thesis using assms by (simp add: computeWorldVertices_def sar)
qed

text \<open>
  Claim C2. Take a weighted attachment in the layout of the source (\<open>bones\<close> holds,
  vertex by vertex, the number of influencing bones and their indices; \<open>vertices\<close>
  holds \<open>x, y, weight\<close> for each of them), a slot with an empty deform array, and a
  vertex in the range of the call whose only influence is the bone \<open>i\<close> with weight 1
  and local coordinates \<open>(x, y)\<close>. Then \<open>computeWorldVertices\<close> returns, and it
  leaves for this vertex the two values that the unweighted path leaves for an
  attachment with the vertex \<open>(x, y)\<close> on a slot whose bone has the world transform of
  the bone \<open>i\<close>.
\<close>

theorem weighted_single_bone_is_unweighted:
  assumes stride: "2 \<le> stride"
    and count: "0 \<le> count" "count < 2 ^ 31"
    and start: "start = 2 * int s"
    and fits: "s + nat (count div 2) \<le> length groups"
    and ok: "\<forall>g\<in>set (take (nat (count div 2)) (drop s groups)).
               bones_ok (skel_bones (bone_skeleton (slot_bone slot))) g"
    and deform: "slot_deform slot = []"
    and k: "k < nat (count div 2)"
    and single: "groups ! (s + k) = [(i, x, y, 1)]"
    and bone: "BoneTransform.truncate (slot_bone slot1) = skel_bones (bone_skeleton (slot_bone slot)) ! nat i"
    and deform1: "slot_deform slot1 = []"
  shows "\<exists>out u.
     computeWorldVertices (Some (enc_bones groups)) (enc_vertices groups) slot start count
       worldVertices offset stride = Some (Inr (), out) \<and>
     computeWorldVertices None [x, y] slot1 0 2 worldVertices1 0 2 = Some (Inr (), u) \<and>
     out (offset + int k * stride) = u 0 \<and> out (offset + int k * stride + 1) = u 1 \<and>
     u 0 = Some (x * bone_a (slot_bone slot1) + y * bone_b (slot_bone slot1) + bone_worldX (slot_bone slot1)) \<and>
     u 1 = Some (x * bone_c (slot_bone slot1) + y * bone_d (slot_bone slot1) + bone_worldY (slot_bone slot1))"
proof -
  let ?sb = "skel_bones (bone_skeleton (slot_bone slot))"
  let ?ps = "map (\<lambda>g. skin ?sb g 0 0) (take (nat (count div 2)) (drop s groups))"
  let ?out = "write_pairs ?ps offset stride worldVertices"
  let ?u = "worldVertices1
       (0 \<mapsto> x * bone_a (slot_bone slot1) + y * bone_b (slot_bone slot1) + bone_worldX (slot_bone slot1),
        1 \<mapsto> x * bone_c (slot_bone slot1) + y * bone_d (slot_bone slot1) + bone_worldY (slot_bone slot1))"
  have s0: "0 < stride" using stride by simp
  have w: "computeWorldVertices (Some (enc_bones groups)) (enc_vertices groups) slot start count
       worldVertices offset stride = Some (Inr (), ?out)"
    by (rule computeWorldVertices_weighted[OF s0 count start fits ok deform])
  have u: "computeWorldVertices None [x, y] slot1 0 2 worldVertices1 0 2 = Some (Inr (), ?u)"
    by (rule computeWorldVertices_one[OF deform1])
  have len: "k < length ?ps" using k fits by simp
  have b: "bone_a (slot_bone slot1) = bone_a (?sb ! nat i)" "bone_b (slot_bone slot1) = bone_b (?sb ! nat i)"
    "bone_c (slot_bone slot1) = bone_c (?sb ! nat i)" "bone_d (slot_bone slot1) = bone_d (?sb ! nat i)"
    "bone_worldX (slot_bone slot1) = bone_worldX (?sb ! nat i)"
    "bone_worldY (slot_bone slot1) = bone_worldY (?sb ! nat i)"
    using truncate_fields[of "slot_bone slot1"] by (simp_all add: bone)
  have "?ps ! k = skin ?sb [(i, x, y, 1)] 0 0"
    using k fits by (simp add: single)
  then have pk: "?ps ! k =
     (x * bone_a (slot_bone slot1) + y * bone_b (slot_bone slot1) + bone_worldX (slot_bone slot1),
      x * bone_c (slot_bone slot1) + y * bone_d (slot_bone slot1) + bone_worldY (slot_bone slot1))"
    by (simp only: skin_single b)
  have o0: "?out (offset + int k * stride) = ?u 0"
    using write_pairs_fst[OF stride len, of offset worldVertices] by (simp add: pk)
  have o1: "?out (offset + int k * stride + 1) = ?u 1"
    using write_pairs_snd[OF stride len, of offset worldVertices] by (simp add: pk)
  show ?thesis
    apply (rule exI[of _ ?out])
    apply (rule exI[of _ ?u])
    using w u o0 o1 by simp
qed

theorem weighted_single_bone_is_unweighted_witness:
  "enc_bones groups3 = [1, 0, 1, 1, 2, 0, 1] \<and>
   enc_vertices groups3 =
     [Num 1, Num 2, 1, Num 3, Num 4, 1, Num 1, Num 1, Num (1/2), Num 1, Num 1, Num (1/2)] \<and>
   (\<exists>out u.
     computeWorldVertices (Some (enc_bones groups3)) (enc_vertices groups3) (slot_on 0) 2 4
       (\<lambda>j. None) 1 3 = Some (Inr (), out) \<and>
     computeWorldVertices None [Num 3, Num 4] (slot_on 1) 0 2 (\<lambda>j. None) 0 2 = Some (Inr (), u) \<and>
     out 1 = Some (Num 16) \<and> out 2 = Some (Num 32) \<and> u 0 = Some (Num 16) \<and> u 1 = Some (Num 32))"
proof -
  have h: "\<forall>g\<in>set (take (nat (4 div 2)) (drop 1 groups3)).
             bones_ok (skel_bones (bone_skeleton (slot_bone (slot_on 0)))) g"
    "groups3 ! (1 + 0) = [(1, Num 3, Num 4, 1)]"
    "BoneTransform.truncate (slot_bone (slot_on 1))
       = skel_bones (bone_skeleton (slot_bone (slot_on 0))) ! nat 1"
    by (simp_all add: groups3_def slot_on_def skel2_def bones_ok_def BoneTransform.truncate_def
        BoneTransform.extend_def)
  obtain out u where
    "computeWorldVertices (Some (enc_bones groups3)) (enc_vertices groups3) (slot_on 0) 2 4
       (\<lambda>j. None) 1 3 = Some (Inr (), out)"
    "computeWorldVertices None [Num 3, Num 4] (slot_on 1) 0 2 (\<lambda>j. None) 0 2 = Some (Inr (), u)"
    "out (1 + int 0 * 3) = u 0" "out (1 + int 0 * 3 + 1) = u 1"
    "u 0 = Some (Num 3 * bone_a (slot_bone (slot_on 1)) + Num 4 * bone_b (slot_bone (slot_on 1))
                 + bone_worldX (slot_bone (slot_on 1)))"
    "u 1 = Some (Num 3 * bone_c (slot_bone (slot_on 1)) + Num 4 * bone_d (slot_bone (slot_on 1))
                 + bone_worldY (slot_bone (slot_on 1)))"
    using weighted_single_bone_is_unweighted[of 3 4 2 1 groups3 "slot_on 0" 0 1 "Num 3" "Num 4"
        "slot_on 1" "\<lambda>j. None" 1 "\<lambda>j. None", OF _ _ _ _ _ h(1) _ _ h(2) h(3)]
    by (auto simp: groups3_def slot_on_def)
  moreover have "enc_bones groups3 = [1, 0, 1, 1, 2, 0, 1]"
    "enc_vertices groups3 =
     [Num 1, Num 2, 1, Num 3, Num 4, 1, Num 1, Num 1, Num (1/2), Num 1, Num 1, Num (1/2)]"
    by (simp_all add: groups3_def enc_vertices_def)
  ultimately show ?thesis
    by (simp add: slot_on_def skel2_def BoneTransform.extend_def)
qed

end
